theory Spec2Isabelle
  imports Complex_Main "HOL-Library.Multiset"
begin

section \<open>JavaScript numbers\<close>

text \<open>
  A JavaScript number is a double: a finite value, \<^verbatim>\<open>NaN\<close>, or an infinity. A finite
  value is held as the rational it denotes; the two zeros are not told apart.
\<close>

datatype jsnum = Finite rat | NaN | PosInf | NegInf

definition pow2 :: "int \<Rightarrow> rat" where
  "pow2 e = (if 0 \<le> e then 2 ^ nat e else 1 / 2 ^ nat (- e))"

text \<open>
  The binary exponent of a positive rational \<open>a\<close>: the \<open>e\<close> with \<open>2^e \<le> a < 2^(e+1)\<close>,
  found by halving while \<open>a \<ge> 2\<close> or doubling while \<open>a < 1\<close>.
\<close>

function exp_up :: "rat \<Rightarrow> int \<Rightarrow> int" where
  "exp_up a e = (if 2 \<le> a then exp_up (a / 2) (e + 1) else e)"
  by pat_completeness auto
termination
proof (relation "measure (\<lambda>(a, e). nat \<lfloor>a\<rfloor>)")
  show "wf (measure (\<lambda>(a, e). nat \<lfloor>a\<rfloor>))" by simp
next
  fix a :: rat and e :: int
  assume "2 \<le> a"
  then have "a / 2 \<le> a - 1" by simp
  then have "\<lfloor>a / 2\<rfloor> \<le> \<lfloor>a - 1\<rfloor>" by (rule floor_mono)
  moreover have "1 \<le> \<lfloor>a\<rfloor>" using \<open>2 \<le> a\<close> by linarith
  ultimately show "((a / 2, e + 1), (a, e)) \<in> measure (\<lambda>(a, e). nat \<lfloor>a\<rfloor>)" by simp
qed

function exp_down :: "rat \<Rightarrow> int \<Rightarrow> int" where
  "exp_down a e = (if 0 < a \<and> a < 1 then exp_down (a * 2) (e - 1) else e)"
  by pat_completeness auto
termination
proof (relation "measure (\<lambda>(a, e). nat \<lfloor>1 / a\<rfloor>)")
  show "wf (measure (\<lambda>(a, e). nat \<lfloor>1 / a\<rfloor>))" by simp
next
  fix a :: rat and e :: int
  assume a: "0 < a \<and> a < 1"
  then have y: "1 < 1 / a" by simp
  have "1 / (a * 2) = (1 / a) / 2" by simp
  moreover have "\<lfloor>(1 / a) / 2\<rfloor> < \<lfloor>1 / a\<rfloor>"
  proof (cases "2 \<le> 1 / a")
    case True
    then have "(1 / a) / 2 \<le> 1 / a - 1" by simp
    then have "\<lfloor>(1 / a) / 2\<rfloor> \<le> \<lfloor>1 / a - 1\<rfloor>" by (rule floor_mono)
    then show ?thesis by simp
  next
    case False
    then have "(1 / a) / 2 < 1" by simp
    moreover have "0 \<le> (1 / a) / 2" using a by simp
    ultimately have "\<lfloor>(1 / a) / 2\<rfloor> = 0" by (simp add: floor_eq_iff)
    moreover have "1 \<le> \<lfloor>1 / a\<rfloor>" using y by linarith
    ultimately show ?thesis by simp
  qed
  moreover have "0 < \<lfloor>1 / a\<rfloor>" using y by linarith
  ultimately show "((a * 2, e - 1), (a, e)) \<in> measure (\<lambda>(a, e). nat \<lfloor>1 / a\<rfloor>)" by simp
qed

declare exp_up.simps [simp del]

declare exp_down.simps [simp del]

definition ilog2 :: "rat \<Rightarrow> int" where
  "ilog2 a = (if 1 \<le> a then exp_up a 0 else exp_down a 0)"

text \<open>Rounding a non-negative rational to the nearest integer, a tie going to the even one.\<close>

definition round_half_even :: "rat \<Rightarrow> int" where
  "round_half_even m =
     (let f = \<lfloor>m\<rfloor>; d = m - of_int f
      in if d < 1 / 2 then f else if 1 / 2 < d then f + 1 else if even f then f else f + 1)"

text \<open>
  \<open>round_at e x\<close> rounds \<open>x\<close> to a multiple of \<open>2^(e-52)\<close>, the spacing of the doubles
  with exponent \<open>e\<close>; a result of magnitude \<open>2^1024\<close> or more is an infinity.
\<close>

definition round_at :: "int \<Rightarrow> rat \<Rightarrow> jsnum" where
  "round_at e x =
     (let u = pow2 (e - 52);
          y = of_int (round_half_even (\<bar>x\<bar> / u)) * u
      in if pow2 1024 \<le> y then (if 0 < x then PosInf else NegInf)
         else Finite (if 0 < x then y else - y))"

text \<open>
  \<open>fl x\<close> is the double nearest to the exact result \<open>x\<close> of an arithmetic operation
  (round to nearest, ties to even). An integer of magnitude at most \<open>2^53\<close> is a double and
  is returned as it is; below the exponent -1022 the spacing stays \<open>2^(-1074)\<close>.
\<close>

definition fl :: "rat \<Rightarrow> jsnum" where
  "fl x =
     (if of_int \<lfloor>x\<rfloor> = x \<and> \<bar>x\<bar> \<le> 2 ^ 53 then Finite x
      else round_at (max (ilog2 \<bar>x\<bar>) (- 1022)) x)"

text \<open>The operators \<^verbatim>\<open>+\<close>, \<^verbatim>\<open>/\<close> and \<^verbatim>\<open>*\<close> on numbers.\<close>

fun js_add :: "jsnum \<Rightarrow> jsnum \<Rightarrow> jsnum" where
  "js_add (Finite a) (Finite b) = fl (a + b)"
| "js_add NaN y = NaN"
| "js_add x NaN = NaN"
| "js_add PosInf NegInf = NaN"
| "js_add NegInf PosInf = NaN"
| "js_add PosInf y = PosInf"
| "js_add x PosInf = PosInf"
| "js_add NegInf y = NegInf"
| "js_add x NegInf = NegInf"

fun js_div :: "jsnum \<Rightarrow> jsnum \<Rightarrow> jsnum" where
  "js_div (Finite a) (Finite b) =
     (if b = 0 then (if a = 0 then NaN else if 0 < a then PosInf else NegInf) else fl (a / b))"
| "js_div NaN y = NaN"
| "js_div x NaN = NaN"
| "js_div (Finite a) y = Finite 0"
| "js_div PosInf (Finite b) = (if 0 \<le> b then PosInf else NegInf)"
| "js_div NegInf (Finite b) = (if 0 \<le> b then NegInf else PosInf)"
| "js_div x y = NaN"

fun js_mul :: "jsnum \<Rightarrow> jsnum \<Rightarrow> jsnum" where
  "js_mul (Finite a) (Finite b) = fl (a * b)"
| "js_mul NaN y = NaN"
| "js_mul x NaN = NaN"
| "js_mul (Finite a) PosInf = (if a = 0 then NaN else if 0 < a then PosInf else NegInf)"
| "js_mul (Finite a) NegInf = (if a = 0 then NaN else if 0 < a then NegInf else PosInf)"
| "js_mul PosInf (Finite b) = (if b = 0 then NaN else if 0 < b then PosInf else NegInf)"
| "js_mul NegInf (Finite b) = (if b = 0 then NaN else if 0 < b then NegInf else PosInf)"
| "js_mul PosInf PosInf = PosInf"
| "js_mul NegInf NegInf = PosInf"
| "js_mul x y = NegInf"

text \<open>
  \<^verbatim>\<open>Math.round\<close>: the nearest integer, a tie going up. \<^verbatim>\<open>isFinite\<close>. The comparisons
  \<^verbatim>\<open>x > 0\<close> and \<^verbatim>\<open>x <= 0\<close>, both false for \<^verbatim>\<open>NaN\<close>. Truthiness of a number, as
  \<^verbatim>\<open>||\<close> tests it: 0 and \<^verbatim>\<open>NaN\<close> are falsy.
\<close>

definition Math_round :: "jsnum \<Rightarrow> jsnum" where
  "Math_round x = (case x of Finite a \<Rightarrow> Finite (of_int \<lfloor>a + 1 / 2\<rfloor>) | y \<Rightarrow> y)"

definition isFinite :: "jsnum \<Rightarrow> bool" where
  "isFinite x = (case x of Finite a \<Rightarrow> True | y \<Rightarrow> False)"

definition js_gt0 :: "jsnum \<Rightarrow> bool" where
  "js_gt0 x = (case x of Finite a \<Rightarrow> 0 < a | PosInf \<Rightarrow> True | y \<Rightarrow> False)"

definition js_le0 :: "jsnum \<Rightarrow> bool" where
  "js_le0 x = (case x of Finite a \<Rightarrow> a \<le> 0 | NegInf \<Rightarrow> True | y \<Rightarrow> False)"

definition truthy :: "jsnum \<Rightarrow> bool" where
  "truthy x = (case x of Finite a \<Rightarrow> a \<noteq> 0 | NaN \<Rightarrow> False | y \<Rightarrow> True)"

section \<open>Data model of the writer's dashboard\<close>

text \<open>
  The records follow the JSDoc typedefs of \<^verbatim>\<open>WritersDashboard.jsx\<close>. An optional
  property (\<^verbatim>\<open>archived?\<close>, \<^verbatim>\<open>projectId?\<close>) is an \<open>option\<close>: \<open>None\<close> is the
  absent or \<^verbatim>\<open>undefined\<close> property. \<^verbatim>\<open>targetWords\<close>, \<^verbatim>\<open>minutes\<close> and \<^verbatim>\<open>words\<close>
  hold what \<^verbatim>\<open>parseInt\<close> returned, a number that may be negative or \<^verbatim>\<open>NaN\<close>.
\<close>

datatype status = Drafting | Editing | Complete

record project =
  pid :: string
  title :: string
  description :: "string option"
  targetWords :: jsnum
  deadline :: "string option"
  pstatus :: status
  createdAt :: string
  archived :: "bool option"

record session =
  sid :: string
  projectId :: "string option"
  date :: string
  minutes :: jsnum
  words :: jsnum
  snotes :: string

record idea =
  iid :: string
  itext :: string
  tags :: "string list"
  iprojectId :: "string option"
  icreatedAt :: string
  pinned :: "bool option"

text \<open>The bundle \<^verbatim>\<open>{projects, sessions, ideas, dailyGoal}\<close> held by the component.\<close>

record state_bundle =
  projects :: "project list"
  sessions :: "session list"
  ideas :: "idea list"
  dailyGoal :: int

section \<open>Helpers\<close>

text \<open>\<^verbatim>\<open>function clamp(n,min,max){ return Math.max(min, Math.min(max,n)); }\<close>\<close>

definition clamp :: "int \<Rightarrow> int \<Rightarrow> int \<Rightarrow> int" where
  "clamp n lo hi = max lo (min hi n)"

text \<open>\<^verbatim>\<open>function sum(arr,sel){ return arr.reduce((a,b)=>a+sel(b),0); }\<close>\<close>

definition sum_js :: "'a list \<Rightarrow> ('a \<Rightarrow> jsnum) \<Rightarrow> jsnum" where
  "sum_js arr sel = foldl (\<lambda>a b. js_add a (sel b)) (Finite 0) arr"

section \<open>State store: sessions\<close>

text \<open>
  \<^verbatim>\<open>function uid() { return Math.random().toString(36).slice(2); }\<close> The string it
  returns is an argument of the model; nothing in the code compares it with the ids in use.
  \<^verbatim>\<open>function logSession(s){ setSessions(prev=>[...prev, { ...s, id: uid() }]); ... }\<close>
  \<open>logSession uid s\<close> is the updater handed to \<^verbatim>\<open>setSessions\<close>.
\<close>

definition logSession :: "string \<Rightarrow> session \<Rightarrow> session list \<Rightarrow> session list" where
  "logSession uid s prev = prev @ [s\<lparr>sid := uid\<rparr>]"

text \<open>
  The \<^verbatim>\<open>sessions\<close> state: the array and its identity. Every updater of the component
  builds a new array, so \<^verbatim>\<open>setSessions\<close> always gives a new identity, here the next number.
\<close>

record sessions_state =
  sessions_ref :: nat
  sessions_val :: "session list"



section \<open>Clock and calendar days\<close>

text \<open>
  Time values are milliseconds since the epoch, as in \<^verbatim>\<open>Date\<close>; \<open>now\<close> is what
  \<^verbatim>\<open>new Date()\<close> reads during one render. The time zone of the browser is a pair of
  functions: the offset of local time in force at a UTC time and at a local time.
\<close>

definition msPerDay :: int where
  "msPerDay = 86400000"

record zone =
  utc_offset :: "int \<Rightarrow> int"
  local_offset :: "int \<Rightarrow> int"

text \<open>
  The year, month and day of a day number (days since 1970-01-01) in the Gregorian
  calendar, as \<^verbatim>\<open>toISOString\<close> computes them: eras of 400 years (146097 days) that
  start on 1 March, the day and year within the era, the day within that year, and the
  month counted from March.
\<close>

definition era_of :: "int \<Rightarrow> int" where
  "era_of z0 = (z0 + 719468) div 146097"

definition day_of_era :: "int \<Rightarrow> int" where
  "day_of_era z0 = (z0 + 719468) - era_of z0 * 146097"

definition year_of_era :: "int \<Rightarrow> int" where
  "year_of_era doe = (doe - doe div 1460 + doe div 36524 - doe div 146096) div 365"

definition day_of_year :: "int \<Rightarrow> int" where
  "day_of_year doe = doe - (365 * year_of_era doe + year_of_era doe div 4 - year_of_era doe div 100)"

definition month_index :: "int \<Rightarrow> int" where
  "month_index doy = (5 * doy + 2) div 153"

definition civil_day :: "int \<Rightarrow> int" where
  "civil_day doy = doy - (153 * month_index doy + 2) div 5 + 1"

definition civil_month :: "int \<Rightarrow> int" where
  "civil_month doy = (if month_index doy < 10 then month_index doy + 3 else month_index doy - 9)"

definition civil_year :: "int \<Rightarrow> int" where
  "civil_year z0 =
     year_of_era (day_of_era z0) + era_of z0 * 400
       + (if civil_month (day_of_year (day_of_era z0)) \<le> 2 then 1 else 0)"

definition civil_from_days :: "int \<Rightarrow> int \<times> int \<times> int" where
  "civil_from_days z0 =
     (civil_year z0, civil_month (day_of_year (day_of_era z0)), civil_day (day_of_year (day_of_era z0)))"

definition digit :: "int \<Rightarrow> char" where
  "digit n = ''0123456789'' ! nat n"

definition pad2 :: "int \<Rightarrow> string" where
  "pad2 n = [digit (n div 10 mod 10), digit (n mod 10)]"

definition pad4 :: "int \<Rightarrow> string" where
  "pad4 n = pad2 (n div 100) @ pad2 n"

definition pad6 :: "int \<Rightarrow> string" where
  "pad6 n = pad2 (n div 10000) @ pad4 n"

text \<open>
  \<^verbatim>\<open>toISOString().slice(0,10)\<close> of a time on the given day: \<^verbatim>\<open>YYYY-MM-DD\<close>, and for
  a year outside 0..9999 the first ten characters of the form with a sign and six digits.
\<close>

definition iso_date :: "int \<Rightarrow> string" where
  "iso_date day =
     (case civil_from_days day of (y, m, d) \<Rightarrow>
        take 10
          ((if 0 \<le> y \<and> y \<le> 9999 then pad4 y
            else (if y < 0 then CHR ''-'' else CHR ''+'') # pad6 \<bar>y\<bar>)
           @ ''-'' @ pad2 m @ ''-'' @ pad2 d))"

text \<open>\<^verbatim>\<open>const today = new Date().toISOString().slice(0,10);\<close>\<close>

definition today :: "int \<Rightarrow> string" where
  "today now = iso_date (now div msPerDay)"

text \<open>
  \<^verbatim>\<open>function daysAgo(n){ const d=new Date(); d.setDate(d.getDate()-n); return d; }\<close>
  \<^verbatim>\<open>setDate\<close> works on local time: it keeps the local time of day and moves the local
  date back by \<open>n\<close> days, then converts to UTC with the offset in force at that local time.
  \<open>dayKey\<close> is \<^verbatim>\<open>daysAgo(n).toISOString().slice(0,10)\<close>, the UTC day of the result.
\<close>

definition daysAgo :: "zone \<Rightarrow> int \<Rightarrow> nat \<Rightarrow> int" where
  "daysAgo z now n =
     (let l = now + utc_offset z now - int n * msPerDay in l - local_offset z l)"

definition dayKey :: "zone \<Rightarrow> int \<Rightarrow> nat \<Rightarrow> string" where
  "dayKey z now n = iso_date (daysAgo z now n div msPerDay)"

section \<open>Derived statistics\<close>

text \<open>
  \<^verbatim>\<open>useMemo(fn, [sessions])\<close>: the cache holds the identity of the array the value was
  computed for; the value is computed again only when the identity differs.
\<close>

definition useMemo :: "'a \<Rightarrow> nat \<Rightarrow> (nat \<times> 'a) option \<Rightarrow> nat \<times> 'a" where
  "useMemo v dep cache =
     (case cache of None \<Rightarrow> (dep, v) | Some (d, c) \<Rightarrow> if d = dep then (d, c) else (dep, v))"

text \<open>
  \<^verbatim>\<open>const todaysWords = useMemo(()=> sum(sessions.filter(s=>s.date===today), s=>s.words), [sessions]);\<close>
  \<open>todaysWords\<close> is the callback, \<open>todaysWords_render\<close> the memo at a render: it returns
  the new cache, whose second component is the value shown.
\<close>

definition todaysWords :: "string \<Rightarrow> session list \<Rightarrow> jsnum" where
  "todaysWords day ss = sum_js (filter (\<lambda>s. date s = day) ss) words"


text \<open>
  The streak loop:
  \<^verbatim>\<open>let s=0; for(let i=0;i<365;i++){ const d = daysAgo(i).toISOString().slice(0,10);\<close>
  \<^verbatim>\<open>const w = sum(sessions.filter(x=>x.date===d), x=>x.words); if(w>0){ s++; } else break; }\<close>
  inside \<^verbatim>\<open>useMemo(..., [sessions])\<close>.
\<close>

function streak_loop :: "zone \<Rightarrow> int \<Rightarrow> session list \<Rightarrow> nat \<Rightarrow> nat \<Rightarrow> nat" where
  "streak_loop z now ss i s =
     (if i < 365 then
        (let d = dayKey z now i;
             w = sum_js (filter (\<lambda>x. date x = d) ss) words
         in if js_gt0 w then streak_loop z now ss (i + 1) (s + 1) else s)
      else s)"
  by pat_completeness auto
termination
  by (relation "measure (\<lambda>(z, now, ss, i, s). 365 - i)") auto

declare streak_loop.simps [simp del]

definition streak :: "zone \<Rightarrow> int \<Rightarrow> session list \<Rightarrow> nat" where
  "streak z now ss = streak_loop z now ss 0 0"

definition streak_render :: "(nat \<times> nat) option \<Rightarrow> zone \<Rightarrow> int \<Rightarrow> sessions_state \<Rightarrow> nat \<times> nat" where
  "streak_render cache z now st =
     useMemo (streak z now (sessions_val st)) (sessions_ref st) cache"

text \<open>
  The streak as the specification words it: the number of consecutive calendar days,
  walking back day by day from today, whose summed words are positive, within a lookback
  of 365 days.
\<close>

definition spec_streak :: "int \<Rightarrow> session list \<Rightarrow> nat" where
  "spec_streak now ss =
     length (takeWhile (\<lambda>i. js_gt0 (todaysWords (iso_date (now div msPerDay - int i)) ss)) [0..<365])"

text \<open>
  Words per hour:
  \<^verbatim>\<open>const totalWords = sum(sessions, s=>s.words);\<close>
  \<^verbatim>\<open>const mins = sum(sessions, s=>s.minutes) || 1; return Math.round((totalWords/mins)*60);\<close>
  and the card shows \<^verbatim>\<open>isFinite(wph)?wph:0\<close>. Both memos list everything they read, so
  they are the functions of the session list.
\<close>

definition totalWords :: "session list \<Rightarrow> jsnum" where
  "totalWords ss = sum_js ss words"

definition wph :: "session list \<Rightarrow> jsnum" where
  "wph ss =
     (let mins = (let m = sum_js ss minutes in if truthy m then m else Finite 1)
      in Math_round (js_mul (js_div (totalWords ss) mins) (Finite 60)))"

definition wph_display :: "session list \<Rightarrow> jsnum" where
  "wph_display ss = (if isFinite (wph ss) then wph ss else Finite 0)"

text \<open>
  Words per hour as the specification words it: the total of the minutes floored at 1
  (\<^verbatim>\<open>Math.max(1, total)\<close>), and a result that is not finite shown as 0.
\<close>

definition floor_at_1 :: "jsnum \<Rightarrow> jsnum" where
  "floor_at_1 m =
     (case m of Finite a \<Rightarrow> Finite (max 1 a) | NaN \<Rightarrow> NaN | PosInf \<Rightarrow> PosInf | NegInf \<Rightarrow> Finite 1)"

definition spec_wph :: "session list \<Rightarrow> jsnum" where
  "spec_wph ss =
     (let r = Math_round (js_mul (js_div (sum_js ss words) (floor_at_1 (sum_js ss minutes))) (Finite 60))
      in if isFinite r then r else Finite 0)"

text \<open>
  Session lists whose words are integers with magnitudes that total at most \<open>2^53\<close>:
  on these every partial sum is an integer that a double holds exactly.
\<close>

definition is_int :: "jsnum \<Rightarrow> bool" where
  "is_int x = (case x of Finite a \<Rightarrow> of_int \<lfloor>a\<rfloor> = a | y \<Rightarrow> False)"

definition int_of :: "jsnum \<Rightarrow> int" where
  "int_of x = (case x of Finite a \<Rightarrow> \<lfloor>a\<rfloor> | y \<Rightarrow> 0)"

definition safe_words :: "session list \<Rightarrow> bool" where
  "safe_words ss =
     (list_all (\<lambda>s. is_int (words s)) ss \<and> sum_list (map (\<lambda>s. \<bar>int_of (words s)\<bar>) ss) \<le> 2 ^ 53)"


text \<open>
  The zone America/New_York from March 2023 to March 2024, in milliseconds: daylight time
  (UTC-4) until 2023-11-05 06:00 UTC, standard time (UTC-5) until 2024-03-10 07:00 UTC,
  daylight time after; in local time the changes are at 2023-11-05 02:00 and 2024-03-10 03:00.
\<close>

definition zone_new_york :: zone where
  "zone_new_york =
     \<lparr>utc_offset = (\<lambda>t. if t < 1699164000000 then - 14400000
                         else if t < 1710054000000 then - 18000000 else - 14400000),
      local_offset = (\<lambda>l. if l < 1699149600000 then - 14400000
                           else if l < 1710039600000 then - 18000000 else - 14400000)\<rparr>"

section \<open>Input boundaries\<close>

subsection \<open>The log-session dialog\<close>

text \<open>
  The state of \<^verbatim>\<open>LogSessionDialog\<close>: \<^verbatim>\<open>projectId\<close>, \<^verbatim>\<open>date\<close>, \<^verbatim>\<open>minutes\<close>,
  \<^verbatim>\<open>words\<close>, \<^verbatim>\<open>notes\<close>. The two number inputs store what \<^verbatim>\<open>parseInt\<close> gave:
  \<^verbatim>\<open>onChange={(e)=>setMinutes(parseInt(e.target.value||"0"))}\<close> and
  \<^verbatim>\<open>onChange={(e)=>setWords(parseInt(e.target.value||"0"))}\<close>. The argument of the two
  handlers is the number \<^verbatim>\<open>parseInt\<close> returned, \<^verbatim>\<open>NaN\<close> for a text such as \<^verbatim>\<open>.5\<close>.
\<close>

record log_form =
  f_projectId :: string
  f_date :: string
  f_minutes :: jsnum
  f_words :: jsnum
  f_notes :: string

definition minutes_onChange :: "jsnum \<Rightarrow> log_form \<Rightarrow> log_form" where
  "minutes_onChange n f = f\<lparr>f_minutes := n\<rparr>"

definition words_onChange :: "jsnum \<Rightarrow> log_form \<Rightarrow> log_form" where
  "words_onChange n f = f\<lparr>f_words := n\<rparr>"

text \<open>
  The object handed to \<^verbatim>\<open>onSave\<close>:
  \<^verbatim>\<open>{ projectId: projectId || undefined, date, minutes, words, notes }\<close>. It has no id
  yet; \<^verbatim>\<open>logSession\<close> sets one.
\<close>

definition payload :: "log_form \<Rightarrow> session" where
  "payload f =
     \<lparr>sid = [],
      projectId = (if f_projectId f = [] then None else Some (f_projectId f)),
      date = f_date f, minutes = f_minutes f, words = f_words f, snotes = f_notes f\<rparr>"

text \<open>
  \<^verbatim>\<open>function save(){ if(minutes<=0 && words<=0){ toast("Add minutes or words"); return; }\<close>
  \<^verbatim>\<open>onSave({...}); ... }\<close> with \<^verbatim>\<open>onSave={(payload)=> logSession(payload)}\<close>, the only
  caller of \<^verbatim>\<open>logSession\<close>. The result is the toast shown and the session list.
\<close>

definition LogSessionDialog_save :: "string \<Rightarrow> log_form \<Rightarrow> session list \<Rightarrow> string \<times> session list" where
  "LogSessionDialog_save uid f prev =
     (if js_le0 (f_minutes f) \<and> js_le0 (f_words f) then (''Add minutes or words'', prev)
      else (''Session logged'', logSession uid (payload f) prev))"

subsection \<open>The daily-goal input\<close>

text \<open>
  \<^verbatim>\<open>onBlur={() => { const val = parseInt(dailyGoalText, 10);\<close>
  \<^verbatim>\<open>setDailyGoal(isNaN(val) ? 0 : clamp(val, 0, 100000)); ... }}\<close>
  The argument is the result of \<^verbatim>\<open>parseInt\<close>, \<open>None\<close> for \<^verbatim>\<open>NaN\<close>.
\<close>

definition dailyGoal_onBlur :: "int option \<Rightarrow> state_bundle \<Rightarrow> state_bundle" where
  "dailyGoal_onBlur val st =
     st\<lparr>dailyGoal := (case val of None \<Rightarrow> 0 | Some v \<Rightarrow> clamp v 0 100000)\<rparr>"

section \<open>State store: projects\<close>

text \<open>
  \<^verbatim>\<open>function addProject(p){ setProjects(prev=>[...prev, { ...p, id: uid(),\<close>
  \<^verbatim>\<open>createdAt: new Date().toISOString(), status: "Drafting" }]); toast("Project created"); }\<close>
  The id drawn and the time read are arguments. Every other property of \<^verbatim>\<open>p\<close> is copied.
\<close>

definition addProject :: "string \<Rightarrow> string \<Rightarrow> project \<Rightarrow> project list \<Rightarrow> project list" where
  "addProject uid now p prev = prev @ [p\<lparr>pid := uid, createdAt := now, pstatus := Drafting\<rparr>]"

text \<open>
  A patch holds the properties the callers of \<^verbatim>\<open>updateProject\<close> set; \<open>None\<close> is a
  property the patch does not have. \<^verbatim>\<open>{...p,...patch}\<close> overwrites the ones it has.
\<close>

record project_patch =
  patch_title :: "string option"
  patch_description :: "string option"
  patch_deadline :: "string option"
  patch_targetWords :: "jsnum option"
  patch_status :: "status option"
  patch_archived :: "bool option"

definition merge_patch :: "project \<Rightarrow> project_patch \<Rightarrow> project" where
  "merge_patch p patch =
     p\<lparr>title := (case patch_title patch of None \<Rightarrow> title p | Some v \<Rightarrow> v),
       description := (case patch_description patch of None \<Rightarrow> description p | Some v \<Rightarrow> Some v),
       deadline := (case patch_deadline patch of None \<Rightarrow> deadline p | Some v \<Rightarrow> Some v),
       targetWords := (case patch_targetWords patch of None \<Rightarrow> targetWords p | Some v \<Rightarrow> v),
       pstatus := (case patch_status patch of None \<Rightarrow> pstatus p | Some v \<Rightarrow> v),
       archived := (case patch_archived patch of None \<Rightarrow> archived p | Some v \<Rightarrow> Some v)\<rparr>"

text \<open>
  \<^verbatim>\<open>function updateProject(id, patch){ setProjects(prev=>prev.map(p=>p.id===id?{...p,...patch}:p)); }\<close>
\<close>

definition updateProject :: "string \<Rightarrow> project_patch \<Rightarrow> project list \<Rightarrow> project list" where
  "updateProject i patch prev = map (\<lambda>p. if pid p = i then merge_patch p patch else p) prev"

text \<open>The archive button: \<^verbatim>\<open>onUpdate({ archived: true })\<close>.\<close>

definition archive_patch :: project_patch where
  "archive_patch =
     \<lparr>patch_title = None, patch_description = None, patch_deadline = None,
      patch_targetWords = None, patch_status = None, patch_archived = Some True\<rparr>"

text \<open>
  The active list: \<^verbatim>\<open>projects.filter(p=>!p.archived)\<close>. An absent or false
  \<^verbatim>\<open>archived\<close> is falsy.
\<close>

definition activeProjects :: "project list \<Rightarrow> project list" where
  "activeProjects ps = filter (\<lambda>p. archived p \<noteq> Some True) ps"

subsection \<open>The new-project dialog and the inline target edit\<close>

text \<open>
  The state of \<^verbatim>\<open>NewProjectDialog\<close>: \<^verbatim>\<open>title\<close>, \<^verbatim>\<open>description\<close>,
  \<^verbatim>\<open>targetWords\<close>, \<^verbatim>\<open>deadline\<close>. The number input stores what \<^verbatim>\<open>parseInt\<close> gave:
  \<^verbatim>\<open>onChange={(e)=>setTargetWords(parseInt(e.target.value||"0"))}\<close>.
\<close>

record new_project_form =
  np_title :: string
  np_description :: string
  np_targetWords :: jsnum
  np_deadline :: string

definition targetWords_onChange :: "jsnum \<Rightarrow> new_project_form \<Rightarrow> new_project_form" where
  "targetWords_onChange n g = g\<lparr>np_targetWords := n\<rparr>"

text \<open>
  \<^verbatim>\<open>!title.trim()\<close>: the title is empty once white space is trimmed, that is, it holds
  white space only. Of the characters \<^verbatim>\<open>trim\<close> removes, the ones below 256 are listed.
\<close>

definition js_blank :: "string \<Rightarrow> bool" where
  "js_blank t =
     list_all (\<lambda>c. c \<in> set [CHR 0x09, CHR 0x0A, CHR 0x0B, CHR 0x0C, CHR 0x0D, CHR 0x20, CHR 0xA0]) t"

text \<open>
  The object handed to \<^verbatim>\<open>onCreate\<close>: \<^verbatim>\<open>{ title, description, targetWords, deadline }\<close>.
  It has no \<^verbatim>\<open>id\<close>, \<^verbatim>\<open>createdAt\<close>, \<^verbatim>\<open>status\<close> or \<^verbatim>\<open>archived\<close>; \<^verbatim>\<open>addProject\<close>
  sets the first three, whatever stands in their place here.
\<close>

definition np_payload :: "new_project_form \<Rightarrow> project" where
  "np_payload g =
     \<lparr>pid = [], title = np_title g, description = Some (np_description g),
      targetWords = np_targetWords g, deadline = Some (np_deadline g),
      pstatus = Drafting, createdAt = [], archived = None\<rparr>"

text \<open>
  \<^verbatim>\<open>function create(){ if(!title.trim()) return toast("Title is required");\<close>
  \<^verbatim>\<open>onCreate({ title, description, targetWords, deadline }); reset(); setOpen(false); }\<close>
  with \<^verbatim>\<open>onCreate={addProject}\<close>, the only caller of \<^verbatim>\<open>addProject\<close>. The result is the
  toast shown and the project list.
\<close>

definition NewProjectDialog_create ::
  "string \<Rightarrow> string \<Rightarrow> new_project_form \<Rightarrow> project list \<Rightarrow> string \<times> project list" where
  "NewProjectDialog_create uid now g prev =
     (if js_blank (np_title g) then (''Title is required'', prev)
      else (''Project created'', addProject uid now (np_payload g) prev))"

text \<open>
  \<^verbatim>\<open>InlineEdit\<close>: \<^verbatim>\<open>onChange={(e)=>setVal(parseInt(e.target.value||"0"))}\<close> and the Save
  button \<^verbatim>\<open>onChange(val)\<close>, which is \<^verbatim>\<open>updateProject(p.id, {targetWords: val})\<close>.
\<close>

definition InlineEdit_save :: "string \<Rightarrow> jsnum \<Rightarrow> project list \<Rightarrow> project list" where
  "InlineEdit_save i val prev =
     updateProject i
       \<lparr>patch_title = None, patch_description = None, patch_deadline = None,
        patch_targetWords = Some val, patch_status = None, patch_archived = None\<rparr> prev"

section \<open>Timer\<close>

text \<open>
  The timer's state: \<^verbatim>\<open>timerRunning\<close>, \<^verbatim>\<open>timerSeconds\<close>, \<^verbatim>\<open>customMins\<close>,
  \<^verbatim>\<open>startSecondsRef.current\<close> and \<^verbatim>\<open>autoOpenLog\<close>.
\<close>

record timer =
  timerRunning :: bool
  timerSeconds :: int
  customMins :: int
  startSeconds :: int
  autoOpenLog :: bool

text \<open>The initial values of the \<^verbatim>\<open>useState\<close> and \<^verbatim>\<open>useRef\<close> calls.\<close>

definition timer_init :: timer where
  "timer_init =
     \<lparr>timerRunning = False, timerSeconds = 25 * 60, customMins = 25,
      startSeconds = 25 * 60, autoOpenLog = False\<rparr>"

text \<open>
  The Start and Pause buttons, \<^verbatim>\<open>setTimerRunning(true)\<close> and \<^verbatim>\<open>setTimerRunning(false)\<close>;
  the checkbox, \<^verbatim>\<open>setAutoOpenLog(Boolean(v))\<close>; the closing of the log dialog,
  \<^verbatim>\<open>onCloseExternal={()=> setAutoOpenLog(false)}\<close>.
\<close>

definition start_button :: "timer \<Rightarrow> timer" where
  "start_button t = t\<lparr>timerRunning := True\<rparr>"

definition pause_button :: "timer \<Rightarrow> timer" where
  "pause_button t = t\<lparr>timerRunning := False\<rparr>"

definition checkbox :: "bool \<Rightarrow> timer \<Rightarrow> timer" where
  "checkbox v t = t\<lparr>autoOpenLog := v\<rparr>"

definition close_dialog :: "timer \<Rightarrow> timer" where
  "close_dialog t = t\<lparr>autoOpenLog := False\<rparr>"

text \<open>The interval callback \<^verbatim>\<open>setTimerSeconds(s=>s-1)\<close>, which runs while the timer runs.\<close>

definition tick :: "timer \<Rightarrow> timer" where
  "tick t = (if timerRunning t then t\<lparr>timerSeconds := timerSeconds t - 1\<rparr> else t)"

text \<open>
  \<^verbatim>\<open>useEffect(()=>{ if(timerSeconds<=0){ setTimerRunning(false); setTimerSeconds(0);\<close>
  \<^verbatim>\<open>setAutoOpenLog(true); toast(...); } },[timerSeconds]);\<close>
\<close>

definition expiry_effect :: "timer \<Rightarrow> timer" where
  "expiry_effect t =
     (if timerSeconds t \<le> 0
      then t\<lparr>timerRunning := False, timerSeconds := 0, autoOpenLog := True\<rparr>
      else t)"

text \<open>
  \<^verbatim>\<open>function resetTimer(mins=25){ setTimerRunning(false);startSecondsRef.current = mins*60;\<close>
  \<^verbatim>\<open>setTimerSeconds(mins*60); }\<close>
\<close>

definition resetTimer :: "int \<Rightarrow> timer \<Rightarrow> timer" where
  "resetTimer mins t = t\<lparr>timerRunning := False, startSeconds := mins * 60, timerSeconds := mins * 60\<rparr>"

text \<open>The Reset button and the two presets: \<^verbatim>\<open>resetTimer(25)\<close>, \<^verbatim>\<open>resetTimer(50)\<close>, \<^verbatim>\<open>resetTimer(15)\<close>.\<close>

definition reset_button :: "timer \<Rightarrow> timer" where
  "reset_button t = resetTimer 25 t"

definition preset_50 :: "timer \<Rightarrow> timer" where
  "preset_50 t = resetTimer 50 t"

definition preset_15 :: "timer \<Rightarrow> timer" where
  "preset_15 t = resetTimer 15 t"

text \<open>
  The Set button: \<^verbatim>\<open>const n = parseInt(customMinsText, 10);\<close>
  \<^verbatim>\<open>const safe = isNaN(n) ? customMins : Math.max(1, n); setCustomMins(safe); resetTimer(safe);\<close>
\<close>

definition custom_set :: "int option \<Rightarrow> timer \<Rightarrow> timer" where
  "custom_set n t =
     (let safe = (case n of None \<Rightarrow> customMins t | Some v \<Rightarrow> max 1 v)
      in resetTimer safe (t\<lparr>customMins := safe\<rparr>))"

text \<open>The signal given to the dialog: \<^verbatim>\<open>openExternally={autoOpenLog && timerSeconds===0}\<close>.\<close>

definition openExternally :: "timer \<Rightarrow> bool" where
  "openExternally t = (autoOpenLog t \<and> timerSeconds t = 0)"


text \<open>
  The timer states the component can be in: the initial one and those the buttons, the
  interval callback and the expiry effect lead to.
\<close>

inductive reachable :: "timer \<Rightarrow> bool" where
  r_init: "reachable timer_init"
| r_start: "reachable t \<Longrightarrow> reachable (start_button t)"
| r_pause: "reachable t \<Longrightarrow> reachable (pause_button t)"
| r_tick: "reachable t \<Longrightarrow> reachable (tick t)"
| r_expiry: "reachable t \<Longrightarrow> reachable (expiry_effect t)"
| r_reset: "reachable t \<Longrightarrow> reachable (reset_button t)"
| r_preset_50: "reachable t \<Longrightarrow> reachable (preset_50 t)"
| r_preset_15: "reachable t \<Longrightarrow> reachable (preset_15 t)"
| r_custom: "reachable t \<Longrightarrow> reachable (custom_set n t)"
| r_checkbox: "reachable t \<Longrightarrow> reachable (checkbox v t)"
| r_close: "reachable t \<Longrightarrow> reachable (close_dialog t)"

section \<open>Persistence\<close>

text \<open>
  A stored document is the JSON object \<^verbatim>\<open>{projects, sessions, ideas, dailyGoal}\<close>; each
  property may be absent (\<open>None\<close>). \<^verbatim>\<open>JSON.parse\<close> may also return \<^verbatim>\<open>null\<close>
  (\<open>PNull\<close>), or a number, string or boolean (\<open>PPrim\<close>), which has none of the four
  properties and whose \<^verbatim>\<open>typeof\<close> is not \<^verbatim>\<open>"object"\<close>. The lists hold well-formed
  records and the daily goal is an integer.
\<close>

record document =
  doc_projects :: "project list option"
  doc_sessions :: "session list option"
  doc_ideas :: "idea list option"
  doc_dailyGoal :: "int option"

datatype parsed = PNull | PPrim | PObject document

definition empty_document :: document where
  "empty_document = \<lparr>doc_projects = None, doc_sessions = None, doc_ideas = None, doc_dailyGoal = None\<rparr>"

text \<open>
  \<^verbatim>\<open>x || []\<close> on a list property: an array is truthy, also when empty.
  \<^verbatim>\<open>x || 500\<close> on a number property: absent and 0 are falsy.
\<close>

definition or_list :: "'a list option \<Rightarrow> 'a list" where
  "or_list x = (case x of None \<Rightarrow> [] | Some xs \<Rightarrow> xs)"

definition or_num :: "int option \<Rightarrow> int \<Rightarrow> int" where
  "or_num x d = (case x of None \<Rightarrow> d | Some n \<Rightarrow> if n = 0 then d else n)"

text \<open>
  The four setter calls shared by the import, the cloud load and the initial state:
  \<^verbatim>\<open>d.projects||[]\<close>, \<^verbatim>\<open>d.sessions||[]\<close>, \<^verbatim>\<open>d.ideas||[]\<close>, \<^verbatim>\<open>d.dailyGoal||500\<close>.
\<close>

definition bundle_of :: "document \<Rightarrow> state_bundle" where
  "bundle_of d =
     \<lparr>projects = or_list (doc_projects d), sessions = or_list (doc_sessions d),
      ideas = or_list (doc_ideas d), dailyGoal = or_num (doc_dailyGoal d) 500\<rparr>"

subsection \<open>Export and import\<close>

text \<open>
  \<^verbatim>\<open>JSON.stringify({projects,sessions,ideas,dailyGoal}, null, 2)\<close>: the file holds the
  object with all four properties. \<^verbatim>\<open>JSON.parse\<close> of that text gives the object back.
\<close>

definition exportJSON :: "state_bundle \<Rightarrow> document" where
  "exportJSON st =
     \<lparr>doc_projects = Some (projects st), doc_sessions = Some (sessions st),
      doc_ideas = Some (ideas st), doc_dailyGoal = Some (dailyGoal st)\<rparr>"

text \<open>
  \<^verbatim>\<open>try{ const d = JSON.parse(e.target.result); setProjects(d.projects||[]); ...\<close>
  \<^verbatim>\<open>toast("Data imported"); }catch{ toast("Invalid file"); }\<close>
  The argument is what \<^verbatim>\<open>JSON.parse\<close> did on the file: \<open>None\<close> when it threw. Reading
  a property of \<^verbatim>\<open>null\<close> throws too, before any setter has run.
\<close>

definition importJSON :: "parsed option \<Rightarrow> state_bundle \<Rightarrow> string \<times> state_bundle" where
  "importJSON r st =
     (case r of
        None \<Rightarrow> (''Invalid file'', st)
      | Some PNull \<Rightarrow> (''Invalid file'', st)
      | Some PPrim \<Rightarrow> (''Data imported'', bundle_of empty_document)
      | Some (PObject d) \<Rightarrow> (''Data imported'', bundle_of d))"

subsection \<open>The local cache\<close>

text \<open>
  \<^verbatim>\<open>function loadStore() { try { return JSON.parse(localStorage.getItem(STORE_KEY) || "{}"); }\<close>
  \<^verbatim>\<open>catch { return {}; } }\<close>
  The slot is \<open>None\<close> when the key is absent. \<^verbatim>\<open>JSON.parse\<close> is an argument: it maps a
  text to the value parsed, or to \<open>None\<close> when it throws.
\<close>

definition loadStore :: "(string \<Rightarrow> parsed option) \<Rightarrow> string option \<Rightarrow> parsed" where
  "loadStore JSON_parse slot =
     (case JSON_parse (case slot of None \<Rightarrow> ''{}'' | Some s \<Rightarrow> if s = [] then ''{}'' else s) of
        None \<Rightarrow> PObject empty_document
      | Some v \<Rightarrow> v)"

text \<open>
  The initial state: \<^verbatim>\<open>const d = loadStore(); return ({ projects: d.projects || [], ... })\<close>.
  Nothing catches the \<^verbatim>\<open>TypeError\<close> of a property read on \<^verbatim>\<open>null\<close>.
\<close>

datatype error = TypeError

definition initial :: "(string \<Rightarrow> parsed option) \<Rightarrow> string option \<Rightarrow> error + state_bundle" where
  "initial JSON_parse slot =
     (case loadStore JSON_parse slot of
        PNull \<Rightarrow> Inl TypeError
      | PPrim \<Rightarrow> Inr (bundle_of empty_document)
      | PObject d \<Rightarrow> Inr (bundle_of d))"

subsection \<open>The cloud load on sign-in\<close>

text \<open>
  The result of \<^verbatim>\<open>await supabase.from("app_state").select("data").eq("user_id", userId).single()\<close>:
  \<open>resp_data\<close> is \<open>None\<close> when \<^verbatim>\<open>data\<close> is null and else holds \<^verbatim>\<open>data.data\<close>;
  \<open>resp_error\<close> holds \<^verbatim>\<open>error.code\<close> when there is an error.
\<close>

record response =
  resp_data :: "parsed option"
  resp_error :: "string option"

datatype event =
  RemoteSelect string
| RemoteUpsert string state_bundle string
| ConsoleError string

text \<open>
  The effect of \<^verbatim>\<open>useEffect(() => { if (!userId) return; (async () => { ... })(); }, [userId])\<close>.
  It returns the local state and the remote calls and log lines it made, in order. The
  arguments are the response of the select and the time read for \<^verbatim>\<open>updated_at\<close>.
  \<open>use_cloud\<close> is the part after the error check:
  \<^verbatim>\<open>const cloud = data?.data; if (cloud && typeof cloud === "object") { setProjects(...); ... }\<close>
  \<^verbatim>\<open>else { await supabase.from("app_state").upsert({ user_id: userId, data: {...}, updated_at }); }\<close>
\<close>

definition use_cloud :: "string \<Rightarrow> response \<Rightarrow> string \<Rightarrow> state_bundle \<Rightarrow> state_bundle \<times> event list" where
  "use_cloud u r now st =
     (case resp_data r of
        Some (PObject d) \<Rightarrow> (bundle_of d, [RemoteSelect u])
      | _ \<Rightarrow>
          (st, [RemoteSelect u,
                RemoteUpsert u \<lparr>projects = [], sessions = [], ideas = [], dailyGoal = 500\<rparr> now]))"

definition cloud_load :: "string option \<Rightarrow> response \<Rightarrow> string \<Rightarrow> state_bundle \<Rightarrow> state_bundle \<times> event list" where
  "cloud_load userId r now st =
     (case userId of
        None \<Rightarrow> (st, [])
      | Some u \<Rightarrow>
          if u = [] then (st, [])
          else (case resp_error r of
                  None \<Rightarrow> use_cloud u r now st
                | Some c \<Rightarrow>
                    if c \<noteq> ''PGRST116'' then (st, [RemoteSelect u, ConsoleError c])
                    else use_cloud u r now st))"

definition is_select :: "event \<Rightarrow> bool" where
  "is_select e = (case e of RemoteSelect u \<Rightarrow> True | _ \<Rightarrow> False)"

section \<open>Facts about numbers and sums\<close>

lemma floor_rat_numeral_div: "\<lfloor>numeral a / numeral b :: rat\<rfloor> = numeral a div numeral b"
proof -
  have "\<lfloor>of_int (numeral a) / of_int (numeral b) :: rat\<rfloor> = numeral a div numeral b"
    by (rule floor_divide_of_int_eq)
  then show ?thesis by simp
qed

lemma fl_of_int: "\<bar>k\<bar> \<le> 2 ^ 53 \<Longrightarrow> fl (of_int k) = Finite (of_int k)"
proof -
  assume k: "\<bar>k\<bar> \<le> 2 ^ 53"
  have "\<bar>of_int k :: rat\<bar> = of_int \<bar>k\<bar>" by simp
  also have "\<dots> \<le> of_int (2 ^ 53)" using k by (simp only: of_int_le_iff)
  finally have "\<bar>of_int k :: rat\<bar> \<le> 2 ^ 53" by simp
  moreover have "of_int \<lfloor>of_int k :: rat\<rfloor> = (of_int k :: rat)" by simp
  ultimately show ?thesis by (simp only: fl_def if_True simp_thms)
qed




lemma safe_words_filter: "safe_words ss \<Longrightarrow> safe_words (filter P ss)"
proof -
  assume s: "safe_words ss"
  have "sum_list (map (\<lambda>s. \<bar>int_of (words s)\<bar>) (filter P ss)) \<le> sum_list (map (\<lambda>s. \<bar>int_of (words s)\<bar>) ss)"
  proof (induction ss)
    case Nil
    show ?case by simp
  next
    case (Cons x xs)
    then show ?case by (cases "P x") simp_all
  qed
  moreover have "list_all (\<lambda>s. is_int (words s)) (filter P ss)"
    using s by (simp add: safe_words_def list_all_iff)
  ultimately show ?thesis using s by (simp add: safe_words_def)
qed



lemma fl_numeral: "(numeral k :: int) \<le> 2 ^ 53 \<Longrightarrow> fl (numeral k) = Finite (numeral k)"
  using fl_of_int [of "numeral k"] by simp

lemma fl_neg_numeral: "(numeral k :: int) \<le> 2 ^ 53 \<Longrightarrow> fl (- numeral k) = Finite (- numeral k)"
  using fl_of_int [of "- numeral k"] by simp

lemma fl_zero: "fl 0 = Finite 0"
  using fl_of_int [of 0] by simp

lemma fl_one: "fl 1 = Finite 1"
  using fl_of_int [of 1] by simp

lemma fl_neg_one: "fl (- 1) = Finite (- 1)"
  using fl_of_int [of "- 1"] by simp

lemmas fl_ints = fl_numeral fl_neg_numeral fl_zero fl_one fl_neg_one

lemma floor_rat_neg_numeral_div: "\<lfloor>- (numeral a / numeral b) :: rat\<rfloor> = - numeral a div numeral b"
proof -
  have "\<lfloor>of_int (- numeral a) / of_int (numeral b) :: rat\<rfloor> = - numeral a div numeral b"
    by (rule floor_divide_of_int_eq)
  then show ?thesis by simp
qed

lemmas floor_rat = floor_rat_numeral_div floor_rat_neg_numeral_div

section \<open>Facts about the session list, the memo and the streak loop\<close>




lemma words_sid_update: "words (s\<lparr>sid := u\<rparr>) = words s"
  by simp




lemma streak_loop_step:
  "i < 365 \<Longrightarrow> js_gt0 (todaysWords (dayKey z now i) ss) \<Longrightarrow>
   streak_loop z now ss i s = streak_loop z now ss (i + 1) (s + 1)"
  by (subst streak_loop.simps) (simp add: Let_def todaysWords_def)

lemma streak_loop_stop:
  "\<not> js_gt0 (todaysWords (dayKey z now i) ss) \<Longrightarrow> streak_loop z now ss i s = s"
  by (subst streak_loop.simps) (simp add: Let_def todaysWords_def)

lemma streak_loop_takeWhile:
  "i \<le> 365 \<Longrightarrow>
   streak_loop z now ss i s
     = s + length (takeWhile (\<lambda>i. js_gt0 (todaysWords (dayKey z now i) ss)) [i..<365])"
proof (induction z now ss i s rule: streak_loop.induct)
  case (1 z now ss i s)
  show ?case
  proof (cases "i < 365")
    case False
    with "1.prems" have "i = 365" by simp
    then show ?thesis by (simp add: streak_loop.simps [of z now ss 365 s])
  next
    case True
    then have upt: "[i..<365] = i # [Suc i..<365]" by (simp add: upt_conv_Cons)
    show ?thesis
    proof (cases "js_gt0 (todaysWords (dayKey z now i) ss)")
      case pos: True
      then have w: "js_gt0 (sum_js (filter (\<lambda>x. date x = dayKey z now i) ss) words)"
        by (simp add: todaysWords_def)
      have "streak_loop z now ss (i + 1) (s + 1)
          = (s + 1) + length (takeWhile (\<lambda>i. js_gt0 (todaysWords (dayKey z now i) ss)) [i + 1..<365])"
        using True w by (intro "1.IH") simp_all
      moreover have "streak_loop z now ss i s = streak_loop z now ss (i + 1) (s + 1)"
        using True pos by (rule streak_loop_step)
      ultimately show ?thesis using pos by (simp add: upt)
    next
      case npos: False
      then have "streak_loop z now ss i s = s" by (rule streak_loop_stop)
      then show ?thesis using npos by (simp add: upt)
    qed
  qed
qed

lemma streak_takeWhile:
  "streak z now ss = length (takeWhile (\<lambda>i. js_gt0 (todaysWords (dayKey z now i) ss)) [0..<365])"
proof -
  have "streak_loop z now ss 0 0
      = 0 + length (takeWhile (\<lambda>i. js_gt0 (todaysWords (dayKey z now i) ss)) [0..<365])"
    by (rule streak_loop_takeWhile) simp
  then show ?thesis by (simp only: streak_def add_0)
qed

lemma takeWhile_upt_le: "length (takeWhile P [0..<365]) \<le> 365"
proof -
  have "length (takeWhile P [0..<365]) \<le> length [0..<365]"
    by (rule length_takeWhile_le)
  then show ?thesis by (simp only: length_upt diff_zero)
qed

lemma takeWhile_upt_stop:
  assumes k: "k < 365"
    and pos: "\<And>i. i < k \<Longrightarrow> P i"
    and stop: "\<not> P k"
  shows "length (takeWhile P [0..<365]) = k"
proof -
  have "takeWhile P [0..<365] = take k [0..<365]"
  proof (rule takeWhile_eq_take_P_nth)
    fix i assume "i < k" "i < length [0..<365]"
    then have "[0..<365] ! i = i" by (simp only: length_upt nth_upt add_0 diff_zero)
    with \<open>i < k\<close> show "P ([0..<365] ! i)" using pos by simp
  next
    assume "k < length [0..<365]"
    then have "[0..<365] ! k = k" by (simp only: length_upt nth_upt add_0 diff_zero)
    then show "\<not> P ([0..<365] ! k)" using stop by simp
  qed
  moreover have "length (take k [0..<365]) = k"
  proof -
    have "length (take k [0..<365]) = min (365 - 0) k" by (simp only: length_take length_upt)
    with k show ?thesis by simp
  qed
  ultimately show ?thesis by (simp only:)
qed

lemma dayKey_constant_offset:
  assumes u: "\<forall>t. utc_offset z t = c" and l: "\<forall>t. local_offset z t = c"
  shows "dayKey z now i = iso_date (now div msPerDay - int i)"
proof -
  have "daysAgo z now i = now + (- int i) * msPerDay"
    by (simp add: daysAgo_def Let_def u l)
  moreover have "(now + (- int i) * msPerDay) div msPerDay = now div msPerDay + (- int i)"
    by (rule div_mult_self1 [of msPerDay now "- int i", simplified add.commute [of "(- int i) * msPerDay"], THEN trans])
       (simp_all add: msPerDay_def)
  ultimately show ?thesis by (simp add: dayKey_def)
qed

lemma streak_constant_offset:
  assumes u: "\<forall>t. utc_offset z t = c" and l: "\<forall>t. local_offset z t = c"
  shows "streak z now ss = spec_streak now ss"
  by (simp only: streak_takeWhile spec_streak_def dayKey_constant_offset [OF u l])

lemmas civil_defs = civil_from_days_def civil_year_def civil_month_def civil_day_def month_index_def
  day_of_year_def year_of_era_def day_of_era_def era_of_def

section \<open>Facts about the timer\<close>

lemma reachable_customMins: "reachable t \<Longrightarrow> 1 \<le> customMins t"
proof (induction rule: reachable.induct)
  case r_init
  show ?case by (simp add: timer_init_def)
next
  case (r_custom t n)
  then show ?case by (cases n) (simp_all add: custom_set_def resetTimer_def Let_def)
qed (simp_all add: start_button_def pause_button_def tick_def expiry_effect_def reset_button_def
       preset_50_def preset_15_def resetTimer_def checkbox_def close_dialog_def)

lemma reachable_ticks: "reachable t \<Longrightarrow> reachable ((tick ^^ n) t)"
  by (induction n) (simp_all add: r_tick)

lemma ticks_running:
  "timerRunning t \<Longrightarrow> (tick ^^ n) t = t\<lparr>timerSeconds := timerSeconds t - int n\<rparr>"
  by (induction n) (simp_all add: tick_def)

lemma reachable_expired:
  "reachable \<lparr>timerRunning = False, timerSeconds = 0, customMins = 1, startSeconds = 60, autoOpenLog = True\<rparr>"
proof -
  let ?s = "start_button (custom_set (Some 1) timer_init)"
  have s: "?s = \<lparr>timerRunning = True, timerSeconds = 60, customMins = 1, startSeconds = 60, autoOpenLog = False\<rparr>"
    by (simp add: start_button_def custom_set_def resetTimer_def timer_init_def Let_def)
  have "reachable ?s" by (intro r_start r_custom r_init)
  then have "reachable (expiry_effect ((tick ^^ 60) ?s))" by (intro r_expiry reachable_ticks)
  moreover have "(tick ^^ 60) ?s = ?s\<lparr>timerSeconds := timerSeconds ?s - int 60\<rparr>"
    by (rule ticks_running) (simp add: s)
  ultimately show ?thesis by (simp add: s expiry_effect_def)
qed

section \<open>Facts about the project list\<close>

lemma archived_not_active:
  "filter (\<lambda>q. pid q = i) (activeProjects (updateProject i archive_patch ps)) = []"
  by (induction ps) (simp_all add: activeProjects_def updateProject_def merge_patch_def archive_patch_def)

lemma updateProject_other: "i \<notin> set (map pid ps) \<Longrightarrow> updateProject i patch ps = ps"
  by (induction ps) (auto simp add: updateProject_def)

lemma updateProject_append:
  "updateProject i patch (ps @ qs) = updateProject i patch ps @ updateProject i patch qs"
  by (simp add: updateProject_def)

section \<open>Claims\<close>

text \<open>
  C1. Exporting a bundle and importing the exported content gives the bundle back when its
  daily goal is not 0. A daily goal of 0, which the daily-goal input stores for an empty or
  zero entry, is exported as 0 and imported as 500: there the round trip is not the identity.
\<close>

theorem export_import_round_trip:
  "(dailyGoal b \<noteq> 0 \<longrightarrow>
      importJSON (Some (PObject (exportJSON b))) st = (''Data imported'', b))
   \<and> (dailyGoal b = 0 \<longrightarrow>
      importJSON (Some (PObject (exportJSON b))) st = (''Data imported'', b\<lparr>dailyGoal := 500\<rparr>))"
  by (simp add: importJSON_def exportJSON_def bundle_of_def or_list_def or_num_def)

theorem export_import_round_trip_witness:
  "dailyGoal \<lparr>projects = [], sessions = [], ideas = [], dailyGoal = 700\<rparr> \<noteq> 0
   \<and> snd (importJSON (Some (PObject (exportJSON \<lparr>projects = [], sessions = [], ideas = [], dailyGoal = 700\<rparr>)))
        \<lparr>projects = [], sessions = [], ideas = [], dailyGoal = 700\<rparr>)
     = \<lparr>projects = [], sessions = [], ideas = [], dailyGoal = 700\<rparr>
   \<and> dailyGoal (dailyGoal_onBlur None \<lparr>projects = [], sessions = [], ideas = [], dailyGoal = 500\<rparr>) = 0
   \<and> snd (importJSON (Some (PObject (exportJSON \<lparr>projects = [], sessions = [], ideas = [], dailyGoal = 0\<rparr>)))
        \<lparr>projects = [], sessions = [], ideas = [], dailyGoal = 0\<rparr>)
     = \<lparr>projects = [], sessions = [], ideas = [], dailyGoal = 500\<rparr>"
proof -
  note ok = export_import_round_trip
    [of "\<lparr>projects = [], sessions = [], ideas = [], dailyGoal = 700\<rparr>"
        "\<lparr>projects = [], sessions = [], ideas = [], dailyGoal = 700\<rparr>"]
  note bad = export_import_round_trip
    [of "\<lparr>projects = [], sessions = [], ideas = [], dailyGoal = 0\<rparr>"
        "\<lparr>projects = [], sessions = [], ideas = [], dailyGoal = 0\<rparr>"]
  have a: "dailyGoal \<lparr>projects = [], sessions = [], ideas = [], dailyGoal = 700\<rparr> \<noteq> 0" by simp
  have b: "snd (importJSON (Some (PObject (exportJSON \<lparr>projects = [], sessions = [], ideas = [], dailyGoal = 700\<rparr>)))
        \<lparr>projects = [], sessions = [], ideas = [], dailyGoal = 700\<rparr>)
     = \<lparr>projects = [], sessions = [], ideas = [], dailyGoal = 700\<rparr>"
    using ok by simp
  have c: "dailyGoal (dailyGoal_onBlur None \<lparr>projects = [], sessions = [], ideas = [], dailyGoal = 500\<rparr>) = 0"
    by (simp add: dailyGoal_onBlur_def)
  have d: "snd (importJSON (Some (PObject (exportJSON \<lparr>projects = [], sessions = [], ideas = [], dailyGoal = 0\<rparr>)))
        \<lparr>projects = [], sessions = [], ideas = [], dailyGoal = 0\<rparr>)
     = \<lparr>projects = [], sessions = [], ideas = [], dailyGoal = 500\<rparr>"
    using bad by simp
  show ?thesis by (intro conjI a b c d)
qed

text \<open>
  C2 (counterexample). \<^verbatim>\<open>uid()\<close> is \<^verbatim>\<open>Math.random().toString(36).slice(2)\<close>; when
  \<^verbatim>\<open>Math.random()\<close> returns 0.5 the text is \<^verbatim>\<open>0.i\<close> and the id is \<^verbatim>\<open>i\<close>. Two
  saves that both draw 0.5 are both accepted, and the list then holds two sessions with
  the id \<^verbatim>\<open>i\<close>: the second id is not fresh.
\<close>

theorem logSession_duplicate_id_counterexample:
  "LogSessionDialog_save ''i'' \<lparr>f_projectId = [], f_date = ''2024-03-12'', f_minutes = Finite 25, f_words = Finite 0, f_notes = []\<rparr>
     (snd (LogSessionDialog_save ''i'' \<lparr>f_projectId = ''p1'', f_date = ''2024-03-11'', f_minutes = Finite 30, f_words = Finite 400, f_notes = ''chapter 2''\<rparr> []))
   = (''Session logged'',
      [\<lparr>sid = ''i'', projectId = Some ''p1'', date = ''2024-03-11'', minutes = Finite 30, words = Finite 400, snotes = ''chapter 2''\<rparr>,
       \<lparr>sid = ''i'', projectId = None, date = ''2024-03-12'', minutes = Finite 25, words = Finite 0, snotes = []\<rparr>])
   \<and> \<not> distinct (map sid (snd (LogSessionDialog_save ''i'' \<lparr>f_projectId = [], f_date = ''2024-03-12'', f_minutes = Finite 25, f_words = Finite 0, f_notes = []\<rparr>
     (snd (LogSessionDialog_save ''i'' \<lparr>f_projectId = ''p1'', f_date = ''2024-03-11'', f_minutes = Finite 30, f_words = Finite 400, f_notes = ''chapter 2''\<rparr> [])))))"
  by (simp add: LogSessionDialog_save_def js_le0_def logSession_def payload_def)

text \<open>
  C2 (amended). The save of the log dialog, the only way to \<^verbatim>\<open>logSession\<close>, shows the
  validation notice and leaves the session list as it is exactly when \<^verbatim>\<open>minutes<=0\<close> and
  \<^verbatim>\<open>words<=0\<close> both hold (neither holds for \<^verbatim>\<open>NaN\<close>). Otherwise the session list grows
  at its end by one record: the id \<^verbatim>\<open>uid()\<close> returned, the project (absent when none was
  chosen), the date, the minutes, the words and the notes of the dialog. \<^verbatim>\<open>logSession\<close>
  itself appends its argument with the id replaced, whatever the argument holds. The id
  is not compared with the ids in use: the ids of the list stay distinct when the id drawn
  is not among them, and do not when it is.
\<close>

theorem logSession_validation:
  "(js_le0 (f_minutes f) \<and> js_le0 (f_words f) \<longrightarrow>
      LogSessionDialog_save uid f prev = (''Add minutes or words'', prev))
   \<and> (\<not> (js_le0 (f_minutes f) \<and> js_le0 (f_words f)) \<longrightarrow>
      LogSessionDialog_save uid f prev
        = (''Session logged'',
           prev @ [\<lparr>sid = uid, projectId = (if f_projectId f = [] then None else Some (f_projectId f)),
                date = f_date f, minutes = f_minutes f, words = f_words f, snotes = f_notes f\<rparr>]))
   \<and> (snd (LogSessionDialog_save uid f prev) = prev \<longleftrightarrow> js_le0 (f_minutes f) \<and> js_le0 (f_words f))
   \<and> (fst (LogSessionDialog_save uid f prev) = ''Add minutes or words''
        \<longleftrightarrow> js_le0 (f_minutes f) \<and> js_le0 (f_words f))
   \<and> logSession uid s prev
        = prev @ [\<lparr>sid = uid, projectId = projectId s, date = date s, minutes = minutes s,
                    words = words s, snotes = snotes s\<rparr>]
   \<and> (\<not> (js_le0 (f_minutes f) \<and> js_le0 (f_words f)) \<and> distinct (map sid prev) \<longrightarrow>
        (distinct (map sid (snd (LogSessionDialog_save uid f prev))) \<longleftrightarrow> uid \<notin> set (map sid prev)))"
proof (intro conjI impI)
  let ?rej = "js_le0 (f_minutes f) \<and> js_le0 (f_words f)"
  let ?new = "\<lparr>sid = uid, projectId = (if f_projectId f = [] then None else Some (f_projectId f)),
                date = f_date f, minutes = f_minutes f, words = f_words f, snotes = f_notes f\<rparr>"
  have acc: "\<not> ?rej \<Longrightarrow> LogSessionDialog_save uid f prev = (''Session logged'', prev @ [?new])"
    by (simp add: LogSessionDialog_save_def logSession_def payload_def)
  have rej: "?rej \<Longrightarrow> LogSessionDialog_save uid f prev = (''Add minutes or words'', prev)"
    by (simp add: LogSessionDialog_save_def)
  show "?rej \<Longrightarrow> LogSessionDialog_save uid f prev = (''Add minutes or words'', prev)"
    by (rule rej)
  show "\<not> ?rej \<Longrightarrow> LogSessionDialog_save uid f prev = (''Session logged'', prev @ [?new])"
    by (rule acc)
  show "snd (LogSessionDialog_save uid f prev) = prev \<longleftrightarrow> ?rej"
  proof (cases ?rej)
    case True
    then show ?thesis by (simp add: rej)
  next
    case False
    then show ?thesis by (simp add: acc)
  qed
  show "fst (LogSessionDialog_save uid f prev) = ''Add minutes or words'' \<longleftrightarrow> ?rej"
  proof (cases ?rej)
    case True
    then show ?thesis by (simp add: rej)
  next
    case False
    then show ?thesis by (simp add: acc)
  qed
  show "logSession uid s prev
        = prev @ [\<lparr>sid = uid, projectId = projectId s, date = date s, minutes = minutes s,
                    words = words s, snotes = snotes s\<rparr>]"
    by (simp add: logSession_def)
  {
    assume h: "\<not> ?rej \<and> distinct (map sid prev)"
    then have "snd (LogSessionDialog_save uid f prev) = prev @ [?new]" by (simp add: acc)
    with h show "distinct (map sid (snd (LogSessionDialog_save uid f prev))) \<longleftrightarrow> uid \<notin> set (map sid prev)"
      by simp
  }
qed

theorem logSession_validation_witness:
  "LogSessionDialog_save ''k3x9'' \<lparr>f_projectId = ''p1'', f_date = ''2024-03-12'', f_minutes = Finite 0, f_words = Finite (- 3), f_notes = ''nothing''\<rparr>
     [\<lparr>sid = ''i'', projectId = Some ''p1'', date = ''2024-03-11'', minutes = Finite 30, words = Finite 400, snotes = ''chapter 2''\<rparr>]
   = (''Add minutes or words'', [\<lparr>sid = ''i'', projectId = Some ''p1'', date = ''2024-03-11'', minutes = Finite 30, words = Finite 400, snotes = ''chapter 2''\<rparr>])
   \<and> LogSessionDialog_save ''k3x9'' \<lparr>f_projectId = [], f_date = ''2024-03-12'', f_minutes = Finite 25, f_words = Finite 0, f_notes = []\<rparr>
     [\<lparr>sid = ''i'', projectId = Some ''p1'', date = ''2024-03-11'', minutes = Finite 30, words = Finite 400, snotes = ''chapter 2''\<rparr>]
   = (''Session logged'',
      [\<lparr>sid = ''i'', projectId = Some ''p1'', date = ''2024-03-11'', minutes = Finite 30, words = Finite 400, snotes = ''chapter 2''\<rparr>,
       \<lparr>sid = ''k3x9'', projectId = None, date = ''2024-03-12'', minutes = Finite 25, words = Finite 0, snotes = []\<rparr>])
   \<and> LogSessionDialog_save ''k3x9'' \<lparr>f_projectId = [], f_date = ''2024-03-12'', f_minutes = Finite 0, f_words = NaN, f_notes = ''typed .5''\<rparr> []
   = (''Session logged'', [\<lparr>sid = ''k3x9'', projectId = None, date = ''2024-03-12'', minutes = Finite 0, words = NaN, snotes = ''typed .5''\<rparr>])
   \<and> distinct (map sid (snd (LogSessionDialog_save ''k3x9'' \<lparr>f_projectId = [], f_date = ''2024-03-12'', f_minutes = Finite 25, f_words = Finite 0, f_notes = []\<rparr>
     [\<lparr>sid = ''i'', projectId = Some ''p1'', date = ''2024-03-11'', minutes = Finite 30, words = Finite 400, snotes = ''chapter 2''\<rparr>])))"
proof -
  note tz = logSession_validation [of "\<lparr>f_projectId = ''p1'', f_date = ''2024-03-12'', f_minutes = Finite 0, f_words = Finite (- 3), f_notes = ''nothing''\<rparr>" "''k3x9''" "[\<lparr>sid = ''i'', projectId = Some ''p1'', date = ''2024-03-11'', minutes = Finite 30, words = Finite 400, snotes = ''chapter 2''\<rparr>]" "\<lparr>sid = ''i'', projectId = Some ''p1'', date = ''2024-03-11'', minutes = Finite 30, words = Finite 400, snotes = ''chapter 2''\<rparr>"]
  note t2 = logSession_validation [of "\<lparr>f_projectId = [], f_date = ''2024-03-12'', f_minutes = Finite 25, f_words = Finite 0, f_notes = []\<rparr>" "''k3x9''" "[\<lparr>sid = ''i'', projectId = Some ''p1'', date = ''2024-03-11'', minutes = Finite 30, words = Finite 400, snotes = ''chapter 2''\<rparr>]" "\<lparr>sid = ''i'', projectId = Some ''p1'', date = ''2024-03-11'', minutes = Finite 30, words = Finite 400, snotes = ''chapter 2''\<rparr>"]
  note tn = logSession_validation [of "\<lparr>f_projectId = [], f_date = ''2024-03-12'', f_minutes = Finite 0, f_words = NaN, f_notes = ''typed .5''\<rparr>" "''k3x9''" "[]" "\<lparr>sid = ''i'', projectId = Some ''p1'', date = ''2024-03-11'', minutes = Finite 30, words = Finite 400, snotes = ''chapter 2''\<rparr>"]
  have hz: "js_le0 (f_minutes \<lparr>f_projectId = ''p1'', f_date = ''2024-03-12'', f_minutes = Finite 0, f_words = Finite (- 3), f_notes = ''nothing''\<rparr>) \<and> js_le0 (f_words \<lparr>f_projectId = ''p1'', f_date = ''2024-03-12'', f_minutes = Finite 0, f_words = Finite (- 3), f_notes = ''nothing''\<rparr>)"
    by (simp add: js_le0_def)
  have h2: "\<not> (js_le0 (f_minutes \<lparr>f_projectId = [], f_date = ''2024-03-12'', f_minutes = Finite 25, f_words = Finite 0, f_notes = []\<rparr>) \<and> js_le0 (f_words \<lparr>f_projectId = [], f_date = ''2024-03-12'', f_minutes = Finite 25, f_words = Finite 0, f_notes = []\<rparr>))"
    by (simp add: js_le0_def)
  have hn: "\<not> (js_le0 (f_minutes \<lparr>f_projectId = [], f_date = ''2024-03-12'', f_minutes = Finite 0, f_words = NaN, f_notes = ''typed .5''\<rparr>) \<and> js_le0 (f_words \<lparr>f_projectId = [], f_date = ''2024-03-12'', f_minutes = Finite 0, f_words = NaN, f_notes = ''typed .5''\<rparr>))"
    by (simp add: js_le0_def)
  have h2d: "\<not> (js_le0 (f_minutes \<lparr>f_projectId = [], f_date = ''2024-03-12'', f_minutes = Finite 25, f_words = Finite 0, f_notes = []\<rparr>) \<and> js_le0 (f_words \<lparr>f_projectId = [], f_date = ''2024-03-12'', f_minutes = Finite 25, f_words = Finite 0, f_notes = []\<rparr>))
      \<and> distinct (map sid [\<lparr>sid = ''i'', projectId = Some ''p1'', date = ''2024-03-11'', minutes = Finite 30, words = Finite 400, snotes = ''chapter 2''\<rparr>])"
    using h2 by simp
  have a: "LogSessionDialog_save ''k3x9'' \<lparr>f_projectId = ''p1'', f_date = ''2024-03-12'', f_minutes = Finite 0, f_words = Finite (- 3), f_notes = ''nothing''\<rparr>
     [\<lparr>sid = ''i'', projectId = Some ''p1'', date = ''2024-03-11'', minutes = Finite 30, words = Finite 400, snotes = ''chapter 2''\<rparr>]
   = (''Add minutes or words'', [\<lparr>sid = ''i'', projectId = Some ''p1'', date = ''2024-03-11'', minutes = Finite 30, words = Finite 400, snotes = ''chapter 2''\<rparr>])"
    by (rule tz [THEN conjunct1, THEN mp, OF hz])
  have b: "LogSessionDialog_save ''k3x9'' \<lparr>f_projectId = [], f_date = ''2024-03-12'', f_minutes = Finite 25, f_words = Finite 0, f_notes = []\<rparr>
     [\<lparr>sid = ''i'', projectId = Some ''p1'', date = ''2024-03-11'', minutes = Finite 30, words = Finite 400, snotes = ''chapter 2''\<rparr>]
   = (''Session logged'',
      [\<lparr>sid = ''i'', projectId = Some ''p1'', date = ''2024-03-11'', minutes = Finite 30, words = Finite 400, snotes = ''chapter 2''\<rparr>,
       \<lparr>sid = ''k3x9'', projectId = None, date = ''2024-03-12'', minutes = Finite 25, words = Finite 0, snotes = []\<rparr>])"
    using t2 [THEN conjunct2, THEN conjunct1, THEN mp, OF h2] by simp
  have c: "LogSessionDialog_save ''k3x9'' \<lparr>f_projectId = [], f_date = ''2024-03-12'', f_minutes = Finite 0, f_words = NaN, f_notes = ''typed .5''\<rparr> []
   = (''Session logged'', [\<lparr>sid = ''k3x9'', projectId = None, date = ''2024-03-12'', minutes = Finite 0, words = NaN, snotes = ''typed .5''\<rparr>])"
    using tn [THEN conjunct2, THEN conjunct1, THEN mp, OF hn] by simp
  have d: "distinct (map sid (snd (LogSessionDialog_save ''k3x9'' \<lparr>f_projectId = [], f_date = ''2024-03-12'', f_minutes = Finite 25, f_words = Finite 0, f_notes = []\<rparr>
     [\<lparr>sid = ''i'', projectId = Some ''p1'', date = ''2024-03-11'', minutes = Finite 30, words = Finite 400, snotes = ''chapter 2''\<rparr>])))"
    using t2 [THEN conjunct2, THEN conjunct2, THEN conjunct2, THEN conjunct2, THEN conjunct2, THEN mp, OF h2d]
    by simp
  show ?thesis by (intro conjI a b c d)
qed

text \<open>
  C3 (counterexample). The words input stores \<^verbatim>\<open>parseInt\<close> of its text with no clamp.
  With -5 typed into it and the default 25 minutes, the save is accepted (the minutes are
  positive) and the session list holds a session with -5 words.
\<close>

theorem negative_words_counterexample:
  "LogSessionDialog_save ''k3x9'' (words_onChange (Finite (- 5)) \<lparr>f_projectId = [], f_date = ''2024-03-12'', f_minutes = Finite 25, f_words = Finite 0, f_notes = []\<rparr>) []
   = (''Session logged'', [\<lparr>sid = ''k3x9'', projectId = None, date = ''2024-03-12'', minutes = Finite 25, words = Finite (- 5), snotes = []\<rparr>])
   \<and> words (last (snd (LogSessionDialog_save ''k3x9'' (words_onChange (Finite (- 5)) \<lparr>f_projectId = [], f_date = ''2024-03-12'', f_minutes = Finite 25, f_words = Finite 0, f_notes = []\<rparr>) [])))
       = Finite (- 5)"
  by (simp add: LogSessionDialog_save_def words_onChange_def js_le0_def logSession_def payload_def)

text \<open>
  C3 (amended). The daily goal the daily-goal input stores is an integer from 0 to 100000:
  0 when the text has no number, and else the number brought into that range. The minutes,
  words and target-words inputs store what \<^verbatim>\<open>parseInt\<close> returned, with no clamp: a
  session saved from the log dialog holds the minutes and the words last entered, and a
  project created from the new-project dialog or edited inline holds the target last
  entered, whether that number is positive, zero, negative or \<^verbatim>\<open>NaN\<close>.
\<close>

theorem input_boundaries:
  "0 \<le> dailyGoal (dailyGoal_onBlur val st) \<and> dailyGoal (dailyGoal_onBlur val st) \<le> 100000
   \<and> dailyGoal (dailyGoal_onBlur None st) = 0
   \<and> (0 \<le> v \<and> v \<le> 100000 \<longrightarrow> dailyGoal (dailyGoal_onBlur (Some v) st) = v)
   \<and> (v < 0 \<longrightarrow> dailyGoal (dailyGoal_onBlur (Some v) st) = 0)
   \<and> (100000 < v \<longrightarrow> dailyGoal (dailyGoal_onBlur (Some v) st) = 100000)
   \<and> (\<not> (js_le0 m \<and> js_le0 w) \<longrightarrow>
        LogSessionDialog_save uid (words_onChange w (minutes_onChange m f)) sprev
          = (''Session logged'',
             sprev @ [\<lparr>sid = uid, projectId = (if f_projectId f = [] then None else Some (f_projectId f)),
                      date = f_date f, minutes = m, words = w, snotes = f_notes f\<rparr>]))
   \<and> (\<not> js_blank (np_title g) \<longrightarrow>
        NewProjectDialog_create uid now (targetWords_onChange n g) pprev
          = (''Project created'',
             pprev @ [\<lparr>pid = uid, title = np_title g, description = Some (np_description g),
                      targetWords = n, deadline = Some (np_deadline g), pstatus = Drafting,
                      createdAt = now, archived = None\<rparr>]))
   \<and> map targetWords (InlineEdit_save i n pprev) = map (\<lambda>p. if pid p = i then n else targetWords p) pprev"
proof (intro conjI impI)
  show "0 \<le> dailyGoal (dailyGoal_onBlur val st)"
    by (cases val) (simp_all add: dailyGoal_onBlur_def clamp_def)
  show "dailyGoal (dailyGoal_onBlur val st) \<le> 100000"
    by (cases val) (simp_all add: dailyGoal_onBlur_def clamp_def)
  show "dailyGoal (dailyGoal_onBlur None st) = 0"
    by (simp add: dailyGoal_onBlur_def)
  show "0 \<le> v \<and> v \<le> 100000 \<Longrightarrow> dailyGoal (dailyGoal_onBlur (Some v) st) = v"
    by (simp add: dailyGoal_onBlur_def clamp_def)
  show "v < 0 \<Longrightarrow> dailyGoal (dailyGoal_onBlur (Some v) st) = 0"
    by (simp add: dailyGoal_onBlur_def clamp_def)
  show "100000 < v \<Longrightarrow> dailyGoal (dailyGoal_onBlur (Some v) st) = 100000"
    by (simp add: dailyGoal_onBlur_def clamp_def)
  show "\<not> (js_le0 m \<and> js_le0 w) \<Longrightarrow>
        LogSessionDialog_save uid (words_onChange w (minutes_onChange m f)) sprev
          = (''Session logged'',
             sprev @ [\<lparr>sid = uid, projectId = (if f_projectId f = [] then None else Some (f_projectId f)),
                      date = f_date f, minutes = m, words = w, snotes = f_notes f\<rparr>])"
    by (simp add: LogSessionDialog_save_def words_onChange_def minutes_onChange_def
          logSession_def payload_def)
  show "\<not> js_blank (np_title g) \<Longrightarrow>
        NewProjectDialog_create uid now (targetWords_onChange n g) pprev
          = (''Project created'',
             pprev @ [\<lparr>pid = uid, title = np_title g, description = Some (np_description g),
                      targetWords = n, deadline = Some (np_deadline g), pstatus = Drafting,
                      createdAt = now, archived = None\<rparr>])"
    by (simp add: NewProjectDialog_create_def targetWords_onChange_def addProject_def np_payload_def)
  show "map targetWords (InlineEdit_save i n pprev) = map (\<lambda>p. if pid p = i then n else targetWords p) pprev"
    by (simp add: InlineEdit_save_def updateProject_def merge_patch_def)
qed

theorem input_boundaries_witness:
  "dailyGoal (dailyGoal_onBlur (Some 250000) \<lparr>projects = [], sessions = [], ideas = [], dailyGoal = 500\<rparr>) = 100000
   \<and> dailyGoal (dailyGoal_onBlur (Some (- 3)) \<lparr>projects = [], sessions = [], ideas = [], dailyGoal = 500\<rparr>) = 0
   \<and> dailyGoal (dailyGoal_onBlur (Some 700) \<lparr>projects = [], sessions = [], ideas = [], dailyGoal = 500\<rparr>) = 700
   \<and> LogSessionDialog_save ''k3x9'' (words_onChange (Finite (- 5)) (minutes_onChange NaN \<lparr>f_projectId = [], f_date = ''2024-03-12'', f_minutes = Finite 25, f_words = Finite 0, f_notes = []\<rparr>)) []
      = (''Session logged'', [\<lparr>sid = ''k3x9'', projectId = None, date = ''2024-03-12'', minutes = NaN, words = Finite (- 5), snotes = []\<rparr>])
   \<and> NewProjectDialog_create ''p07q'' ''2024-03-12T23:30:00.000Z'' (targetWords_onChange (Finite (- 100)) \<lparr>np_title = ''Novel'', np_description = [], np_targetWords = Finite 5000, np_deadline = []\<rparr>) []
      = (''Project created'', [\<lparr>pid = ''p07q'', title = ''Novel'', description = Some [], targetWords = Finite (- 100), deadline = Some [],
        pstatus = Drafting, createdAt = ''2024-03-12T23:30:00.000Z'', archived = None\<rparr>])
   \<and> map targetWords (InlineEdit_save ''p07q'' NaN [\<lparr>pid = ''p07q'', title = ''Novel'', description = Some [], targetWords = Finite (- 100), deadline = Some [],
        pstatus = Drafting, createdAt = ''2024-03-12T23:30:00.000Z'', archived = None\<rparr>]) = [NaN]"
proof -
  note th = input_boundaries [where val = "Some 250000" and v = 250000 and st = "\<lparr>projects = [], sessions = [], ideas = [], dailyGoal = 500\<rparr>"
      and m = NaN and w = "Finite (- 5)" and uid = "''k3x9''" and f = "\<lparr>f_projectId = [], f_date = ''2024-03-12'', f_minutes = Finite 25, f_words = Finite 0, f_notes = []\<rparr>" and sprev = "[]"
      and g = "\<lparr>np_title = ''Novel'', np_description = [], np_targetWords = Finite 5000, np_deadline = []\<rparr>" and now = "''2024-03-12T23:30:00.000Z''" and n = "Finite (- 100)" and pprev = "[]" and i = "[]"]
  note tl = input_boundaries [where val = "Some (- 3)" and v = "- 3" and st = "\<lparr>projects = [], sessions = [], ideas = [], dailyGoal = 500\<rparr>"
      and m = NaN and w = "Finite (- 5)" and uid = "''k3x9''" and f = "\<lparr>f_projectId = [], f_date = ''2024-03-12'', f_minutes = Finite 25, f_words = Finite 0, f_notes = []\<rparr>" and sprev = "[]"
      and g = "\<lparr>np_title = ''Novel'', np_description = [], np_targetWords = Finite 5000, np_deadline = []\<rparr>" and now = "''2024-03-12T23:30:00.000Z''" and n = "Finite (- 100)" and pprev = "[]" and i = "[]"]
  note tm = input_boundaries [where val = "Some 700" and v = 700 and st = "\<lparr>projects = [], sessions = [], ideas = [], dailyGoal = 500\<rparr>"
      and m = NaN and w = "Finite (- 5)" and uid = "''k3x9''" and f = "\<lparr>f_projectId = [], f_date = ''2024-03-12'', f_minutes = Finite 25, f_words = Finite 0, f_notes = []\<rparr>" and sprev = "[]"
      and g = "\<lparr>np_title = ''Novel'', np_description = [], np_targetWords = Finite 5000, np_deadline = []\<rparr>" and now = "''2024-03-12T23:30:00.000Z''" and n = "Finite (- 100)" and pprev = "[]" and i = "[]"]
  note tp = input_boundaries [where val = "None" and v = 0 and st = "\<lparr>projects = [], sessions = [], ideas = [], dailyGoal = 500\<rparr>"
      and m = NaN and w = "Finite (- 5)" and uid = "''p07q''" and f = "\<lparr>f_projectId = [], f_date = ''2024-03-12'', f_minutes = Finite 25, f_words = Finite 0, f_notes = []\<rparr>" and sprev = "[]"
      and g = "\<lparr>np_title = ''Novel'', np_description = [], np_targetWords = Finite 5000, np_deadline = []\<rparr>" and now = "''2024-03-12T23:30:00.000Z''" and n = "Finite (- 100)" and pprev = "[]" and i = "[]"]
  note te = input_boundaries [where val = "None" and v = 0 and st = "\<lparr>projects = [], sessions = [], ideas = [], dailyGoal = 500\<rparr>"
      and m = NaN and w = "Finite (- 5)" and uid = "''k3x9''" and f = "\<lparr>f_projectId = [], f_date = ''2024-03-12'', f_minutes = Finite 25, f_words = Finite 0, f_notes = []\<rparr>" and sprev = "[]"
      and g = "\<lparr>np_title = ''Novel'', np_description = [], np_targetWords = Finite 5000, np_deadline = []\<rparr>" and now = "''2024-03-12T23:30:00.000Z''" and n = NaN and pprev = "[\<lparr>pid = ''p07q'', title = ''Novel'', description = Some [], targetWords = Finite (- 100), deadline = Some [],
        pstatus = Drafting, createdAt = ''2024-03-12T23:30:00.000Z'', archived = None\<rparr>]" and i = "''p07q''"]
  have a: "dailyGoal (dailyGoal_onBlur (Some 250000) \<lparr>projects = [], sessions = [], ideas = [], dailyGoal = 500\<rparr>) = 100000"
    by (rule th [THEN conjunct2, THEN conjunct2, THEN conjunct2, THEN conjunct2, THEN conjunct2, THEN conjunct1, THEN mp]) simp
  have b: "dailyGoal (dailyGoal_onBlur (Some (- 3)) \<lparr>projects = [], sessions = [], ideas = [], dailyGoal = 500\<rparr>) = 0"
    by (rule tl [THEN conjunct2, THEN conjunct2, THEN conjunct2, THEN conjunct2, THEN conjunct1, THEN mp]) simp
  have c: "dailyGoal (dailyGoal_onBlur (Some 700) \<lparr>projects = [], sessions = [], ideas = [], dailyGoal = 500\<rparr>) = 700"
    by (rule tm [THEN conjunct2, THEN conjunct2, THEN conjunct2, THEN conjunct1, THEN mp]) simp
  have hs: "\<not> (js_le0 NaN \<and> js_le0 (Finite (- 5)))" by (simp add: js_le0_def)
  have d: "LogSessionDialog_save ''k3x9'' (words_onChange (Finite (- 5)) (minutes_onChange NaN \<lparr>f_projectId = [], f_date = ''2024-03-12'', f_minutes = Finite 25, f_words = Finite 0, f_notes = []\<rparr>)) []
      = (''Session logged'', [\<lparr>sid = ''k3x9'', projectId = None, date = ''2024-03-12'', minutes = NaN, words = Finite (- 5), snotes = []\<rparr>])"
    using th [THEN conjunct2, THEN conjunct2, THEN conjunct2, THEN conjunct2, THEN conjunct2, THEN conjunct2,
              THEN conjunct1, THEN mp, OF hs]
    by simp
  have hp: "\<not> js_blank (np_title \<lparr>np_title = ''Novel'', np_description = [], np_targetWords = Finite 5000, np_deadline = []\<rparr>)" by (simp add: js_blank_def)
  have e: "NewProjectDialog_create ''p07q'' ''2024-03-12T23:30:00.000Z'' (targetWords_onChange (Finite (- 100)) \<lparr>np_title = ''Novel'', np_description = [], np_targetWords = Finite 5000, np_deadline = []\<rparr>) []
      = (''Project created'', [\<lparr>pid = ''p07q'', title = ''Novel'', description = Some [], targetWords = Finite (- 100), deadline = Some [],
        pstatus = Drafting, createdAt = ''2024-03-12T23:30:00.000Z'', archived = None\<rparr>])"
    using tp [THEN conjunct2, THEN conjunct2, THEN conjunct2, THEN conjunct2, THEN conjunct2, THEN conjunct2,
              THEN conjunct2, THEN conjunct1, THEN mp, OF hp]
    by simp
  have f: "map targetWords (InlineEdit_save ''p07q'' NaN [\<lparr>pid = ''p07q'', title = ''Novel'', description = Some [], targetWords = Finite (- 100), deadline = Some [],
        pstatus = Drafting, createdAt = ''2024-03-12T23:30:00.000Z'', archived = None\<rparr>]) = [NaN]"
    using te [THEN conjunct2, THEN conjunct2, THEN conjunct2, THEN conjunct2, THEN conjunct2, THEN conjunct2,
              THEN conjunct2, THEN conjunct2]
    by simp
  show ?thesis by (intro conjI a b c d e f)
qed

text \<open>
  C4. In every timer state, the Reset button, a preset and the custom Set action leave the
  timer not running with the countdown reseeded to the configured minutes: 25 for Reset, 50
  or 15 for a preset, the entered number raised to at least 1 for Set, and the current custom
  minutes for Set with no number entered. The countdown is then positive (for Set with
  no number, in every state the component can reach), so the signal given to the log
  dialog, \<^verbatim>\<open>autoOpenLog && timerSeconds===0\<close>, is false after the reset and the expiry
  effect does not raise it again. The state variable \<^verbatim>\<open>autoOpenLog\<close> itself is not
  written by the reset; closing the log dialog clears it.
\<close>

theorem resetTimer_idle:
  "(\<forall>r \<in> {reset_button t, preset_50 t, preset_15 t, custom_set (Some v) t}.
       \<not> timerRunning r \<and> timerSeconds r = startSeconds r \<and> 60 \<le> timerSeconds r
       \<and> \<not> openExternally r \<and> expiry_effect r = r \<and> autoOpenLog r = autoOpenLog t)
   \<and> timerSeconds (reset_button t) = 25 * 60
   \<and> timerSeconds (preset_50 t) = 50 * 60
   \<and> timerSeconds (preset_15 t) = 15 * 60
   \<and> timerSeconds (custom_set (Some v) t) = max 1 v * 60
   \<and> customMins (custom_set (Some v) t) = max 1 v
   \<and> timerSeconds (custom_set None t) = customMins t * 60
   \<and> customMins (custom_set None t) = customMins t
   \<and> \<not> timerRunning (custom_set None t)
   \<and> (reachable t \<longrightarrow>
        60 \<le> timerSeconds (custom_set None t) \<and> \<not> openExternally (custom_set None t)
        \<and> expiry_effect (custom_set None t) = custom_set None t)
   \<and> (openExternally t \<longrightarrow> autoOpenLog (reset_button t) \<and> \<not> autoOpenLog (close_dialog (reset_button t)))"
proof (intro conjI ballI impI)
  fix r
  assume "r \<in> {reset_button t, preset_50 t, preset_15 t, custom_set (Some v) t}"
  then consider "r = reset_button t" | "r = preset_50 t" | "r = preset_15 t" | "r = custom_set (Some v) t"
    by auto
  then have "(\<not> timerRunning r \<and> timerSeconds r = startSeconds r \<and> 60 \<le> timerSeconds r
       \<and> \<not> openExternally r \<and> expiry_effect r = r \<and> autoOpenLog r = autoOpenLog t)"
    by cases
      (simp_all add: reset_button_def preset_50_def preset_15_def custom_set_def resetTimer_def
         openExternally_def expiry_effect_def Let_def max_def)
  then show "\<not> timerRunning r" and "timerSeconds r = startSeconds r" and "60 \<le> timerSeconds r"
    and "\<not> openExternally r" and "expiry_effect r = r" and "autoOpenLog r = autoOpenLog t"
    by simp_all
next
  show "timerSeconds (reset_button t) = 25 * 60" by (simp add: reset_button_def resetTimer_def)
  show "timerSeconds (preset_50 t) = 50 * 60" by (simp add: preset_50_def resetTimer_def)
  show "timerSeconds (preset_15 t) = 15 * 60" by (simp add: preset_15_def resetTimer_def)
  show "timerSeconds (custom_set (Some v) t) = max 1 v * 60"
    by (simp add: custom_set_def resetTimer_def Let_def)
  show "customMins (custom_set (Some v) t) = max 1 v"
    by (simp add: custom_set_def resetTimer_def Let_def)
  show "timerSeconds (custom_set None t) = customMins t * 60"
    by (simp add: custom_set_def resetTimer_def Let_def)
  show "customMins (custom_set None t) = customMins t"
    by (simp add: custom_set_def resetTimer_def Let_def)
  show "\<not> timerRunning (custom_set None t)"
    by (simp add: custom_set_def resetTimer_def Let_def)
  {
    assume "reachable t"
    then have c: "1 \<le> customMins t" by (rule reachable_customMins)
    then show "60 \<le> timerSeconds (custom_set None t)"
      by (simp add: custom_set_def resetTimer_def Let_def)
    from c show "\<not> openExternally (custom_set None t)"
      by (simp add: custom_set_def resetTimer_def Let_def openExternally_def)
    from c show "expiry_effect (custom_set None t) = custom_set None t"
      by (simp add: custom_set_def resetTimer_def Let_def expiry_effect_def)
  }
  {
    assume "openExternally t"
    then show "autoOpenLog (reset_button t)"
      by (simp add: openExternally_def reset_button_def resetTimer_def)
  }
  show "\<not> autoOpenLog (close_dialog (reset_button t))"
    by (simp add: close_dialog_def)
qed

theorem resetTimer_idle_witness:
  "reachable \<lparr>timerRunning = False, timerSeconds = 0, customMins = 1, startSeconds = 60, autoOpenLog = True\<rparr>
   \<and> openExternally \<lparr>timerRunning = False, timerSeconds = 0, customMins = 1, startSeconds = 60, autoOpenLog = True\<rparr>
   \<and> reset_button \<lparr>timerRunning = False, timerSeconds = 0, customMins = 1, startSeconds = 60, autoOpenLog = True\<rparr>
       = \<lparr>timerRunning = False, timerSeconds = 1500, customMins = 1, startSeconds = 1500, autoOpenLog = True\<rparr>
   \<and> \<not> timerRunning (reset_button \<lparr>timerRunning = False, timerSeconds = 0, customMins = 1, startSeconds = 60, autoOpenLog = True\<rparr>)
   \<and> \<not> openExternally (reset_button \<lparr>timerRunning = False, timerSeconds = 0, customMins = 1, startSeconds = 60, autoOpenLog = True\<rparr>)
   \<and> \<not> openExternally (preset_50 \<lparr>timerRunning = False, timerSeconds = 0, customMins = 1, startSeconds = 60, autoOpenLog = True\<rparr>)
   \<and> timerSeconds (custom_set (Some 0) \<lparr>timerRunning = False, timerSeconds = 0, customMins = 1, startSeconds = 60, autoOpenLog = True\<rparr>) = 60
   \<and> \<not> openExternally (custom_set (Some 0) \<lparr>timerRunning = False, timerSeconds = 0, customMins = 1, startSeconds = 60, autoOpenLog = True\<rparr>)
   \<and> timerSeconds (custom_set None \<lparr>timerRunning = False, timerSeconds = 0, customMins = 1, startSeconds = 60, autoOpenLog = True\<rparr>) = 60
   \<and> \<not> openExternally (custom_set None \<lparr>timerRunning = False, timerSeconds = 0, customMins = 1, startSeconds = 60, autoOpenLog = True\<rparr>)
   \<and> autoOpenLog (reset_button \<lparr>timerRunning = False, timerSeconds = 0, customMins = 1, startSeconds = 60, autoOpenLog = True\<rparr>)
   \<and> \<not> autoOpenLog (close_dialog (reset_button \<lparr>timerRunning = False, timerSeconds = 0, customMins = 1, startSeconds = 60, autoOpenLog = True\<rparr>))"
proof -
  note th = resetTimer_idle [of "\<lparr>timerRunning = False, timerSeconds = 0, customMins = 1, startSeconds = 60, autoOpenLog = True\<rparr>" 0]
  note all = th [THEN conjunct1]
  have re: "reachable \<lparr>timerRunning = False, timerSeconds = 0, customMins = 1, startSeconds = 60, autoOpenLog = True\<rparr>"
    by (rule reachable_expired)
  have op: "openExternally \<lparr>timerRunning = False, timerSeconds = 0, customMins = 1, startSeconds = 60, autoOpenLog = True\<rparr>"
    by (simp add: openExternally_def)
  have m1: "reset_button \<lparr>timerRunning = False, timerSeconds = 0, customMins = 1, startSeconds = 60, autoOpenLog = True\<rparr> \<in> {reset_button \<lparr>timerRunning = False, timerSeconds = 0, customMins = 1, startSeconds = 60, autoOpenLog = True\<rparr>, preset_50 \<lparr>timerRunning = False, timerSeconds = 0, customMins = 1, startSeconds = 60, autoOpenLog = True\<rparr>, preset_15 \<lparr>timerRunning = False, timerSeconds = 0, customMins = 1, startSeconds = 60, autoOpenLog = True\<rparr>, custom_set (Some 0) \<lparr>timerRunning = False, timerSeconds = 0, customMins = 1, startSeconds = 60, autoOpenLog = True\<rparr>}"
    by (rule insertI1)
  have m2: "preset_50 \<lparr>timerRunning = False, timerSeconds = 0, customMins = 1, startSeconds = 60, autoOpenLog = True\<rparr> \<in> {reset_button \<lparr>timerRunning = False, timerSeconds = 0, customMins = 1, startSeconds = 60, autoOpenLog = True\<rparr>, preset_50 \<lparr>timerRunning = False, timerSeconds = 0, customMins = 1, startSeconds = 60, autoOpenLog = True\<rparr>, preset_15 \<lparr>timerRunning = False, timerSeconds = 0, customMins = 1, startSeconds = 60, autoOpenLog = True\<rparr>, custom_set (Some 0) \<lparr>timerRunning = False, timerSeconds = 0, customMins = 1, startSeconds = 60, autoOpenLog = True\<rparr>}"
    by (intro insertI1 insertI2)
  have m4: "custom_set (Some 0) \<lparr>timerRunning = False, timerSeconds = 0, customMins = 1, startSeconds = 60, autoOpenLog = True\<rparr> \<in> {reset_button \<lparr>timerRunning = False, timerSeconds = 0, customMins = 1, startSeconds = 60, autoOpenLog = True\<rparr>, preset_50 \<lparr>timerRunning = False, timerSeconds = 0, customMins = 1, startSeconds = 60, autoOpenLog = True\<rparr>, preset_15 \<lparr>timerRunning = False, timerSeconds = 0, customMins = 1, startSeconds = 60, autoOpenLog = True\<rparr>, custom_set (Some 0) \<lparr>timerRunning = False, timerSeconds = 0, customMins = 1, startSeconds = 60, autoOpenLog = True\<rparr>}"
    by (intro insertI1 insertI2)
  have eq: "reset_button \<lparr>timerRunning = False, timerSeconds = 0, customMins = 1, startSeconds = 60, autoOpenLog = True\<rparr>
       = \<lparr>timerRunning = False, timerSeconds = 1500, customMins = 1, startSeconds = 1500, autoOpenLog = True\<rparr>"
    by (simp add: reset_button_def resetTimer_def)
  have a1: "\<not> timerRunning (reset_button \<lparr>timerRunning = False, timerSeconds = 0, customMins = 1, startSeconds = 60, autoOpenLog = True\<rparr>)"
    using all [THEN bspec, OF m1] by (rule conjunct1)
  have a2: "\<not> openExternally (reset_button \<lparr>timerRunning = False, timerSeconds = 0, customMins = 1, startSeconds = 60, autoOpenLog = True\<rparr>)"
    using all [THEN bspec, OF m1] by (elim conjE)
  have a3: "\<not> openExternally (preset_50 \<lparr>timerRunning = False, timerSeconds = 0, customMins = 1, startSeconds = 60, autoOpenLog = True\<rparr>)"
    using all [THEN bspec, OF m2] by (elim conjE)
  have a4: "timerSeconds (custom_set (Some 0) \<lparr>timerRunning = False, timerSeconds = 0, customMins = 1, startSeconds = 60, autoOpenLog = True\<rparr>) = 60"
    using th [THEN conjunct2, THEN conjunct2, THEN conjunct2, THEN conjunct2, THEN conjunct1] by simp
  have a5: "\<not> openExternally (custom_set (Some 0) \<lparr>timerRunning = False, timerSeconds = 0, customMins = 1, startSeconds = 60, autoOpenLog = True\<rparr>)"
    using all [THEN bspec, OF m4] by (elim conjE)
  have a6: "timerSeconds (custom_set None \<lparr>timerRunning = False, timerSeconds = 0, customMins = 1, startSeconds = 60, autoOpenLog = True\<rparr>) = 60"
    using th [THEN conjunct2, THEN conjunct2, THEN conjunct2, THEN conjunct2, THEN conjunct2, THEN conjunct2, THEN conjunct1]
    by simp
  note rc = th [THEN conjunct2, THEN conjunct2, THEN conjunct2, THEN conjunct2, THEN conjunct2, THEN conjunct2,
                THEN conjunct2, THEN conjunct2, THEN conjunct2, THEN conjunct1, THEN mp, OF re]
  have a7: "\<not> openExternally (custom_set None \<lparr>timerRunning = False, timerSeconds = 0, customMins = 1, startSeconds = 60, autoOpenLog = True\<rparr>)"
    using rc by (elim conjE)
  note oc = th [THEN conjunct2, THEN conjunct2, THEN conjunct2, THEN conjunct2, THEN conjunct2, THEN conjunct2,
                THEN conjunct2, THEN conjunct2, THEN conjunct2, THEN conjunct2, THEN mp, OF op]
  have a8: "autoOpenLog (reset_button \<lparr>timerRunning = False, timerSeconds = 0, customMins = 1, startSeconds = 60, autoOpenLog = True\<rparr>)"
    using oc by (rule conjunct1)
  have a9: "\<not> autoOpenLog (close_dialog (reset_button \<lparr>timerRunning = False, timerSeconds = 0, customMins = 1, startSeconds = 60, autoOpenLog = True\<rparr>))"
    using oc by (rule conjunct2)
  show ?thesis by (intro conjI re op eq a1 a2 a3 a4 a5 a6 a7 a8 a9)
qed

text \<open>
  C5. On sign-in the load effect makes exactly one remote read. If the read returns a
  document, the local state is set from the document alone, nothing kept from the local
  state: for the document of a bundle whose daily goal is not 0 the local state becomes
  that bundle. If the read returns the not-found code PGRST116 and no data, the empty
  initial bundle is written to the remote store and the local state stays. Any other error
  is only logged: no write, and the local state stays. For the document of a bundle whose
  daily goal is 0 the fallback \<^verbatim>\<open>cloud.dailyGoal || 500\<close> takes the stored 0 for an
  absent value: the local daily goal becomes 500 and the remote bundle does not replace
  the local state.
\<close>

theorem cloud_load_on_sign_in:
  "u \<noteq> [] \<longrightarrow>
     length (filter is_select (snd (cloud_load (Some u) r now st))) = 1
     \<and> (resp_error r = None \<and> resp_data r = Some (PObject d) \<longrightarrow>
          cloud_load (Some u) r now st
            = (\<lparr>projects = or_list (doc_projects d), sessions = or_list (doc_sessions d),
                 ideas = or_list (doc_ideas d), dailyGoal = or_num (doc_dailyGoal d) 500\<rparr>,
               [RemoteSelect u]))
     \<and> (resp_error r = None \<and> resp_data r = Some (PObject (exportJSON b)) \<and> dailyGoal b \<noteq> 0 \<longrightarrow>
          cloud_load (Some u) r now st = (b, [RemoteSelect u]))
     \<and> (resp_error r = Some ''PGRST116'' \<and> resp_data r = None \<longrightarrow>
          cloud_load (Some u) r now st
            = (st, [RemoteSelect u,
                    RemoteUpsert u \<lparr>projects = [], sessions = [], ideas = [], dailyGoal = 500\<rparr> now]))
     \<and> (resp_error r = Some c \<and> c \<noteq> ''PGRST116'' \<longrightarrow>
          cloud_load (Some u) r now st = (st, [RemoteSelect u, ConsoleError c]))
     \<and> (resp_error r = None \<and> resp_data r = Some (PObject (exportJSON b)) \<and> dailyGoal b = 0 \<longrightarrow>
          cloud_load (Some u) r now st = (b\<lparr>dailyGoal := 500\<rparr>, [RemoteSelect u]))"
proof (intro impI conjI)
  assume u: "u \<noteq> []"
  have sel: "length (filter is_select (snd (use_cloud u r now st))) = 1"
    by (simp add: use_cloud_def is_select_def split: option.split parsed.split)
  show "length (filter is_select (snd (cloud_load (Some u) r now st))) = 1"
  proof (cases "resp_error r")
    case None
    with u sel show ?thesis by (simp add: cloud_load_def)
  next
    case (Some e)
    with u sel show ?thesis by (simp add: cloud_load_def is_select_def)
  qed
  {
    assume "resp_error r = None \<and> resp_data r = Some (PObject d)"
    with u show "cloud_load (Some u) r now st
            = (\<lparr>projects = or_list (doc_projects d), sessions = or_list (doc_sessions d),
                 ideas = or_list (doc_ideas d), dailyGoal = or_num (doc_dailyGoal d) 500\<rparr>,
               [RemoteSelect u])"
      by (simp add: cloud_load_def use_cloud_def bundle_of_def)
  }
  {
    assume "resp_error r = None \<and> resp_data r = Some (PObject (exportJSON b)) \<and> dailyGoal b \<noteq> 0"
    with u show "cloud_load (Some u) r now st = (b, [RemoteSelect u])"
      by (simp add: cloud_load_def use_cloud_def bundle_of_def exportJSON_def or_list_def or_num_def)
  }
  {
    assume "resp_error r = Some ''PGRST116'' \<and> resp_data r = None"
    with u show "cloud_load (Some u) r now st
            = (st, [RemoteSelect u,
                    RemoteUpsert u \<lparr>projects = [], sessions = [], ideas = [], dailyGoal = 500\<rparr> now])"
      by (simp add: cloud_load_def use_cloud_def)
  }
  {
    assume "resp_error r = Some c \<and> c \<noteq> ''PGRST116''"
    with u show "cloud_load (Some u) r now st = (st, [RemoteSelect u, ConsoleError c])"
      by (simp add: cloud_load_def)
  }
  {
    assume "resp_error r = None \<and> resp_data r = Some (PObject (exportJSON b)) \<and> dailyGoal b = 0"
    with u show "cloud_load (Some u) r now st = (b\<lparr>dailyGoal := 500\<rparr>, [RemoteSelect u])"
      by (simp add: cloud_load_def use_cloud_def bundle_of_def exportJSON_def or_list_def or_num_def)
  }
qed

theorem cloud_load_on_sign_in_witness:
  "''user-1'' \<noteq> []
   \<and> length (filter is_select (snd (cloud_load (Some ''user-1'')
      \<lparr>resp_data = Some (PObject
      \<lparr>doc_projects = Some [\<lparr>pid = ''r1'', title = ''Novel'', description = None, targetWords = Finite 5000, deadline = None,
          pstatus = Drafting, createdAt = ''2024-03-01T09:00:00.000Z'', archived = None\<rparr>,
         \<lparr>pid = ''r2'', title = ''Essay'', description = None, targetWords = Finite 5000, deadline = None,
          pstatus = Drafting, createdAt = ''2024-03-01T09:00:00.000Z'', archived = None\<rparr>,
         \<lparr>pid = ''r3'', title = ''Poems'', description = None, targetWords = Finite 5000, deadline = None,
          pstatus = Drafting, createdAt = ''2024-03-01T09:00:00.000Z'', archived = None\<rparr>],
       doc_sessions = None, doc_ideas = None, doc_dailyGoal = Some 700\<rparr>), resp_error = None\<rparr>
      ''2024-03-03T10:00:00.000Z''
      \<lparr>projects = [\<lparr>pid = ''l9'', title = ''Draft'', description = None, targetWords = Finite 5000, deadline = None,
          pstatus = Drafting, createdAt = ''2024-03-01T09:00:00.000Z'', archived = None\<rparr>], sessions = [], ideas = [], dailyGoal = 500\<rparr>))) = 1
   \<and> cloud_load (Some ''user-1'')
      \<lparr>resp_data = Some (PObject
      \<lparr>doc_projects = Some [\<lparr>pid = ''r1'', title = ''Novel'', description = None, targetWords = Finite 5000, deadline = None,
          pstatus = Drafting, createdAt = ''2024-03-01T09:00:00.000Z'', archived = None\<rparr>,
         \<lparr>pid = ''r2'', title = ''Essay'', description = None, targetWords = Finite 5000, deadline = None,
          pstatus = Drafting, createdAt = ''2024-03-01T09:00:00.000Z'', archived = None\<rparr>,
         \<lparr>pid = ''r3'', title = ''Poems'', description = None, targetWords = Finite 5000, deadline = None,
          pstatus = Drafting, createdAt = ''2024-03-01T09:00:00.000Z'', archived = None\<rparr>],
       doc_sessions = None, doc_ideas = None, doc_dailyGoal = Some 700\<rparr>), resp_error = None\<rparr>
      ''2024-03-03T10:00:00.000Z''
      \<lparr>projects = [\<lparr>pid = ''l9'', title = ''Draft'', description = None, targetWords = Finite 5000, deadline = None,
          pstatus = Drafting, createdAt = ''2024-03-01T09:00:00.000Z'', archived = None\<rparr>], sessions = [], ideas = [], dailyGoal = 500\<rparr>
     = (\<lparr>projects = [\<lparr>pid = ''r1'', title = ''Novel'', description = None, targetWords = Finite 5000, deadline = None,
          pstatus = Drafting, createdAt = ''2024-03-01T09:00:00.000Z'', archived = None\<rparr>,
         \<lparr>pid = ''r2'', title = ''Essay'', description = None, targetWords = Finite 5000, deadline = None,
          pstatus = Drafting, createdAt = ''2024-03-01T09:00:00.000Z'', archived = None\<rparr>,
         \<lparr>pid = ''r3'', title = ''Poems'', description = None, targetWords = Finite 5000, deadline = None,
          pstatus = Drafting, createdAt = ''2024-03-01T09:00:00.000Z'', archived = None\<rparr>], sessions = [], ideas = [], dailyGoal = 700\<rparr>,
        [RemoteSelect ''user-1''])
   \<and> cloud_load (Some ''user-1'')
      \<lparr>resp_data = None, resp_error = Some ''PGRST116''\<rparr>
      ''2024-03-03T10:00:00.000Z''
      \<lparr>projects = [\<lparr>pid = ''l9'', title = ''Draft'', description = None, targetWords = Finite 5000, deadline = None,
          pstatus = Drafting, createdAt = ''2024-03-01T09:00:00.000Z'', archived = None\<rparr>], sessions = [], ideas = [], dailyGoal = 500\<rparr>
     = (\<lparr>projects = [\<lparr>pid = ''l9'', title = ''Draft'', description = None, targetWords = Finite 5000, deadline = None,
          pstatus = Drafting, createdAt = ''2024-03-01T09:00:00.000Z'', archived = None\<rparr>], sessions = [], ideas = [], dailyGoal = 500\<rparr>,
        [RemoteSelect ''user-1'', RemoteUpsert ''user-1'' \<lparr>projects = [], sessions = [], ideas = [], dailyGoal = 500\<rparr> ''2024-03-03T10:00:00.000Z''])
   \<and> cloud_load (Some ''user-1'')
      \<lparr>resp_data = None, resp_error = Some ''PGRST301''\<rparr>
      ''2024-03-03T10:00:00.000Z''
      \<lparr>projects = [\<lparr>pid = ''l9'', title = ''Draft'', description = None, targetWords = Finite 5000, deadline = None,
          pstatus = Drafting, createdAt = ''2024-03-01T09:00:00.000Z'', archived = None\<rparr>], sessions = [], ideas = [], dailyGoal = 500\<rparr>
     = (\<lparr>projects = [\<lparr>pid = ''l9'', title = ''Draft'', description = None, targetWords = Finite 5000, deadline = None,
          pstatus = Drafting, createdAt = ''2024-03-01T09:00:00.000Z'', archived = None\<rparr>], sessions = [], ideas = [], dailyGoal = 500\<rparr>,
        [RemoteSelect ''user-1'', ConsoleError ''PGRST301''])
   \<and> cloud_load (Some ''user-1'')
      \<lparr>resp_data = Some (PObject (exportJSON \<lparr>projects = [], sessions = [], ideas = [], dailyGoal = 700\<rparr>)), resp_error = None\<rparr>
      ''2024-03-03T10:00:00.000Z''
      \<lparr>projects = [\<lparr>pid = ''l9'', title = ''Draft'', description = None, targetWords = Finite 5000, deadline = None,
          pstatus = Drafting, createdAt = ''2024-03-01T09:00:00.000Z'', archived = None\<rparr>], sessions = [], ideas = [], dailyGoal = 500\<rparr>
     = (\<lparr>projects = [], sessions = [], ideas = [], dailyGoal = 700\<rparr>, [RemoteSelect ''user-1''])
   \<and> cloud_load (Some ''user-1'')
      \<lparr>resp_data = Some (PObject (exportJSON \<lparr>projects = [\<lparr>pid = ''r1'', title = ''Novel'', description = None, targetWords = Finite 5000, deadline = None,
          pstatus = Drafting, createdAt = ''2024-03-01T09:00:00.000Z'', archived = None\<rparr>], sessions = [], ideas = [], dailyGoal = 0\<rparr>)), resp_error = None\<rparr>
      ''2024-03-03T10:00:00.000Z''
      \<lparr>projects = [\<lparr>pid = ''l9'', title = ''Draft'', description = None, targetWords = Finite 5000, deadline = None,
          pstatus = Drafting, createdAt = ''2024-03-01T09:00:00.000Z'', archived = None\<rparr>], sessions = [], ideas = [], dailyGoal = 700\<rparr>
     = (\<lparr>projects = [\<lparr>pid = ''r1'', title = ''Novel'', description = None, targetWords = Finite 5000, deadline = None,
          pstatus = Drafting, createdAt = ''2024-03-01T09:00:00.000Z'', archived = None\<rparr>], sessions = [], ideas = [], dailyGoal = 500\<rparr>, [RemoteSelect ''user-1''])"
proof -
  have hu: "''user-1'' \<noteq> []" by simp
  note tf = cloud_load_on_sign_in
    [of "''user-1''"
      "\<lparr>resp_data = Some (PObject
      \<lparr>doc_projects = Some [\<lparr>pid = ''r1'', title = ''Novel'', description = None, targetWords = Finite 5000, deadline = None,
          pstatus = Drafting, createdAt = ''2024-03-01T09:00:00.000Z'', archived = None\<rparr>,
         \<lparr>pid = ''r2'', title = ''Essay'', description = None, targetWords = Finite 5000, deadline = None,
          pstatus = Drafting, createdAt = ''2024-03-01T09:00:00.000Z'', archived = None\<rparr>,
         \<lparr>pid = ''r3'', title = ''Poems'', description = None, targetWords = Finite 5000, deadline = None,
          pstatus = Drafting, createdAt = ''2024-03-01T09:00:00.000Z'', archived = None\<rparr>],
       doc_sessions = None, doc_ideas = None, doc_dailyGoal = Some 700\<rparr>), resp_error = None\<rparr>"
      "''2024-03-03T10:00:00.000Z''"
      "\<lparr>projects = [\<lparr>pid = ''l9'', title = ''Draft'', description = None, targetWords = Finite 5000, deadline = None,
          pstatus = Drafting, createdAt = ''2024-03-01T09:00:00.000Z'', archived = None\<rparr>], sessions = [], ideas = [], dailyGoal = 500\<rparr>"
      "\<lparr>doc_projects = Some [\<lparr>pid = ''r1'', title = ''Novel'', description = None, targetWords = Finite 5000, deadline = None,
          pstatus = Drafting, createdAt = ''2024-03-01T09:00:00.000Z'', archived = None\<rparr>,
         \<lparr>pid = ''r2'', title = ''Essay'', description = None, targetWords = Finite 5000, deadline = None,
          pstatus = Drafting, createdAt = ''2024-03-01T09:00:00.000Z'', archived = None\<rparr>,
         \<lparr>pid = ''r3'', title = ''Poems'', description = None, targetWords = Finite 5000, deadline = None,
          pstatus = Drafting, createdAt = ''2024-03-01T09:00:00.000Z'', archived = None\<rparr>],
       doc_sessions = None, doc_ideas = None, doc_dailyGoal = Some 700\<rparr>"
      "\<lparr>projects = [], sessions = [], ideas = [], dailyGoal = 500\<rparr>" "[]"]
  note tn = cloud_load_on_sign_in
    [of "''user-1''"
      "\<lparr>resp_data = None, resp_error = Some ''PGRST116''\<rparr>"
      "''2024-03-03T10:00:00.000Z''"
      "\<lparr>projects = [\<lparr>pid = ''l9'', title = ''Draft'', description = None, targetWords = Finite 5000, deadline = None,
          pstatus = Drafting, createdAt = ''2024-03-01T09:00:00.000Z'', archived = None\<rparr>], sessions = [], ideas = [], dailyGoal = 500\<rparr>"
      "\<lparr>doc_projects = Some [\<lparr>pid = ''r1'', title = ''Novel'', description = None, targetWords = Finite 5000, deadline = None,
          pstatus = Drafting, createdAt = ''2024-03-01T09:00:00.000Z'', archived = None\<rparr>,
         \<lparr>pid = ''r2'', title = ''Essay'', description = None, targetWords = Finite 5000, deadline = None,
          pstatus = Drafting, createdAt = ''2024-03-01T09:00:00.000Z'', archived = None\<rparr>,
         \<lparr>pid = ''r3'', title = ''Poems'', description = None, targetWords = Finite 5000, deadline = None,
          pstatus = Drafting, createdAt = ''2024-03-01T09:00:00.000Z'', archived = None\<rparr>],
       doc_sessions = None, doc_ideas = None, doc_dailyGoal = Some 700\<rparr>"
      "\<lparr>projects = [], sessions = [], ideas = [], dailyGoal = 500\<rparr>" "[]"]
  note te = cloud_load_on_sign_in
    [of "''user-1''"
      "\<lparr>resp_data = None, resp_error = Some ''PGRST301''\<rparr>"
      "''2024-03-03T10:00:00.000Z''"
      "\<lparr>projects = [\<lparr>pid = ''l9'', title = ''Draft'', description = None, targetWords = Finite 5000, deadline = None,
          pstatus = Drafting, createdAt = ''2024-03-01T09:00:00.000Z'', archived = None\<rparr>], sessions = [], ideas = [], dailyGoal = 500\<rparr>"
      "\<lparr>doc_projects = Some [\<lparr>pid = ''r1'', title = ''Novel'', description = None, targetWords = Finite 5000, deadline = None,
          pstatus = Drafting, createdAt = ''2024-03-01T09:00:00.000Z'', archived = None\<rparr>,
         \<lparr>pid = ''r2'', title = ''Essay'', description = None, targetWords = Finite 5000, deadline = None,
          pstatus = Drafting, createdAt = ''2024-03-01T09:00:00.000Z'', archived = None\<rparr>,
         \<lparr>pid = ''r3'', title = ''Poems'', description = None, targetWords = Finite 5000, deadline = None,
          pstatus = Drafting, createdAt = ''2024-03-01T09:00:00.000Z'', archived = None\<rparr>],
       doc_sessions = None, doc_ideas = None, doc_dailyGoal = Some 700\<rparr>"
      "\<lparr>projects = [], sessions = [], ideas = [], dailyGoal = 500\<rparr>" "''PGRST301''"]
  note tb = cloud_load_on_sign_in
    [of "''user-1''"
      "\<lparr>resp_data = Some (PObject (exportJSON \<lparr>projects = [], sessions = [], ideas = [], dailyGoal = 700\<rparr>)), resp_error = None\<rparr>"
      "''2024-03-03T10:00:00.000Z''"
      "\<lparr>projects = [\<lparr>pid = ''l9'', title = ''Draft'', description = None, targetWords = Finite 5000, deadline = None,
          pstatus = Drafting, createdAt = ''2024-03-01T09:00:00.000Z'', archived = None\<rparr>], sessions = [], ideas = [], dailyGoal = 500\<rparr>"
      "\<lparr>doc_projects = Some [\<lparr>pid = ''r1'', title = ''Novel'', description = None, targetWords = Finite 5000, deadline = None,
          pstatus = Drafting, createdAt = ''2024-03-01T09:00:00.000Z'', archived = None\<rparr>,
         \<lparr>pid = ''r2'', title = ''Essay'', description = None, targetWords = Finite 5000, deadline = None,
          pstatus = Drafting, createdAt = ''2024-03-01T09:00:00.000Z'', archived = None\<rparr>,
         \<lparr>pid = ''r3'', title = ''Poems'', description = None, targetWords = Finite 5000, deadline = None,
          pstatus = Drafting, createdAt = ''2024-03-01T09:00:00.000Z'', archived = None\<rparr>],
       doc_sessions = None, doc_ideas = None, doc_dailyGoal = Some 700\<rparr>"
      "\<lparr>projects = [], sessions = [], ideas = [], dailyGoal = 700\<rparr>" "[]"]
  have hf: "resp_error \<lparr>resp_data = Some (PObject
      \<lparr>doc_projects = Some [\<lparr>pid = ''r1'', title = ''Novel'', description = None, targetWords = Finite 5000, deadline = None,
          pstatus = Drafting, createdAt = ''2024-03-01T09:00:00.000Z'', archived = None\<rparr>,
         \<lparr>pid = ''r2'', title = ''Essay'', description = None, targetWords = Finite 5000, deadline = None,
          pstatus = Drafting, createdAt = ''2024-03-01T09:00:00.000Z'', archived = None\<rparr>,
         \<lparr>pid = ''r3'', title = ''Poems'', description = None, targetWords = Finite 5000, deadline = None,
          pstatus = Drafting, createdAt = ''2024-03-01T09:00:00.000Z'', archived = None\<rparr>],
       doc_sessions = None, doc_ideas = None, doc_dailyGoal = Some 700\<rparr>), resp_error = None\<rparr> = None
      \<and> resp_data \<lparr>resp_data = Some (PObject
      \<lparr>doc_projects = Some [\<lparr>pid = ''r1'', title = ''Novel'', description = None, targetWords = Finite 5000, deadline = None,
          pstatus = Drafting, createdAt = ''2024-03-01T09:00:00.000Z'', archived = None\<rparr>,
         \<lparr>pid = ''r2'', title = ''Essay'', description = None, targetWords = Finite 5000, deadline = None,
          pstatus = Drafting, createdAt = ''2024-03-01T09:00:00.000Z'', archived = None\<rparr>,
         \<lparr>pid = ''r3'', title = ''Poems'', description = None, targetWords = Finite 5000, deadline = None,
          pstatus = Drafting, createdAt = ''2024-03-01T09:00:00.000Z'', archived = None\<rparr>],
       doc_sessions = None, doc_ideas = None, doc_dailyGoal = Some 700\<rparr>), resp_error = None\<rparr> = Some (PObject
      \<lparr>doc_projects = Some [\<lparr>pid = ''r1'', title = ''Novel'', description = None, targetWords = Finite 5000, deadline = None,
          pstatus = Drafting, createdAt = ''2024-03-01T09:00:00.000Z'', archived = None\<rparr>,
         \<lparr>pid = ''r2'', title = ''Essay'', description = None, targetWords = Finite 5000, deadline = None,
          pstatus = Drafting, createdAt = ''2024-03-01T09:00:00.000Z'', archived = None\<rparr>,
         \<lparr>pid = ''r3'', title = ''Poems'', description = None, targetWords = Finite 5000, deadline = None,
          pstatus = Drafting, createdAt = ''2024-03-01T09:00:00.000Z'', archived = None\<rparr>],
       doc_sessions = None, doc_ideas = None, doc_dailyGoal = Some 700\<rparr>)"
    by simp
  have hn: "resp_error \<lparr>resp_data = None, resp_error = Some ''PGRST116''\<rparr> = Some ''PGRST116'' \<and> resp_data \<lparr>resp_data = None, resp_error = Some ''PGRST116''\<rparr> = None"
    by simp
  have he: "resp_error \<lparr>resp_data = None, resp_error = Some ''PGRST301''\<rparr> = Some ''PGRST301'' \<and> ''PGRST301'' \<noteq> ''PGRST116''"
    by simp
  have one: "length (filter is_select (snd (cloud_load (Some ''user-1'')
      \<lparr>resp_data = Some (PObject
      \<lparr>doc_projects = Some [\<lparr>pid = ''r1'', title = ''Novel'', description = None, targetWords = Finite 5000, deadline = None,
          pstatus = Drafting, createdAt = ''2024-03-01T09:00:00.000Z'', archived = None\<rparr>,
         \<lparr>pid = ''r2'', title = ''Essay'', description = None, targetWords = Finite 5000, deadline = None,
          pstatus = Drafting, createdAt = ''2024-03-01T09:00:00.000Z'', archived = None\<rparr>,
         \<lparr>pid = ''r3'', title = ''Poems'', description = None, targetWords = Finite 5000, deadline = None,
          pstatus = Drafting, createdAt = ''2024-03-01T09:00:00.000Z'', archived = None\<rparr>],
       doc_sessions = None, doc_ideas = None, doc_dailyGoal = Some 700\<rparr>), resp_error = None\<rparr>
      ''2024-03-03T10:00:00.000Z''
      \<lparr>projects = [\<lparr>pid = ''l9'', title = ''Draft'', description = None, targetWords = Finite 5000, deadline = None,
          pstatus = Drafting, createdAt = ''2024-03-01T09:00:00.000Z'', archived = None\<rparr>], sessions = [], ideas = [], dailyGoal = 500\<rparr>))) = 1"
    by (rule tf [THEN mp, OF hu, THEN conjunct1])
  have found: "cloud_load (Some ''user-1'')
      \<lparr>resp_data = Some (PObject
      \<lparr>doc_projects = Some [\<lparr>pid = ''r1'', title = ''Novel'', description = None, targetWords = Finite 5000, deadline = None,
          pstatus = Drafting, createdAt = ''2024-03-01T09:00:00.000Z'', archived = None\<rparr>,
         \<lparr>pid = ''r2'', title = ''Essay'', description = None, targetWords = Finite 5000, deadline = None,
          pstatus = Drafting, createdAt = ''2024-03-01T09:00:00.000Z'', archived = None\<rparr>,
         \<lparr>pid = ''r3'', title = ''Poems'', description = None, targetWords = Finite 5000, deadline = None,
          pstatus = Drafting, createdAt = ''2024-03-01T09:00:00.000Z'', archived = None\<rparr>],
       doc_sessions = None, doc_ideas = None, doc_dailyGoal = Some 700\<rparr>), resp_error = None\<rparr>
      ''2024-03-03T10:00:00.000Z''
      \<lparr>projects = [\<lparr>pid = ''l9'', title = ''Draft'', description = None, targetWords = Finite 5000, deadline = None,
          pstatus = Drafting, createdAt = ''2024-03-01T09:00:00.000Z'', archived = None\<rparr>], sessions = [], ideas = [], dailyGoal = 500\<rparr>
     = (\<lparr>projects = [\<lparr>pid = ''r1'', title = ''Novel'', description = None, targetWords = Finite 5000, deadline = None,
          pstatus = Drafting, createdAt = ''2024-03-01T09:00:00.000Z'', archived = None\<rparr>,
         \<lparr>pid = ''r2'', title = ''Essay'', description = None, targetWords = Finite 5000, deadline = None,
          pstatus = Drafting, createdAt = ''2024-03-01T09:00:00.000Z'', archived = None\<rparr>,
         \<lparr>pid = ''r3'', title = ''Poems'', description = None, targetWords = Finite 5000, deadline = None,
          pstatus = Drafting, createdAt = ''2024-03-01T09:00:00.000Z'', archived = None\<rparr>], sessions = [], ideas = [], dailyGoal = 700\<rparr>,
        [RemoteSelect ''user-1''])"
    using tf [THEN mp, OF hu, THEN conjunct2, THEN conjunct1, THEN mp, OF hf]
    by (simp add: or_list_def or_num_def)
  have nf: "cloud_load (Some ''user-1'')
      \<lparr>resp_data = None, resp_error = Some ''PGRST116''\<rparr>
      ''2024-03-03T10:00:00.000Z''
      \<lparr>projects = [\<lparr>pid = ''l9'', title = ''Draft'', description = None, targetWords = Finite 5000, deadline = None,
          pstatus = Drafting, createdAt = ''2024-03-01T09:00:00.000Z'', archived = None\<rparr>], sessions = [], ideas = [], dailyGoal = 500\<rparr>
     = (\<lparr>projects = [\<lparr>pid = ''l9'', title = ''Draft'', description = None, targetWords = Finite 5000, deadline = None,
          pstatus = Drafting, createdAt = ''2024-03-01T09:00:00.000Z'', archived = None\<rparr>], sessions = [], ideas = [], dailyGoal = 500\<rparr>,
        [RemoteSelect ''user-1'', RemoteUpsert ''user-1'' \<lparr>projects = [], sessions = [], ideas = [], dailyGoal = 500\<rparr> ''2024-03-03T10:00:00.000Z''])"
    by (rule tn [THEN mp, OF hu, THEN conjunct2, THEN conjunct2, THEN conjunct2, THEN conjunct1, THEN mp, OF hn])
  have er: "cloud_load (Some ''user-1'')
      \<lparr>resp_data = None, resp_error = Some ''PGRST301''\<rparr>
      ''2024-03-03T10:00:00.000Z''
      \<lparr>projects = [\<lparr>pid = ''l9'', title = ''Draft'', description = None, targetWords = Finite 5000, deadline = None,
          pstatus = Drafting, createdAt = ''2024-03-01T09:00:00.000Z'', archived = None\<rparr>], sessions = [], ideas = [], dailyGoal = 500\<rparr>
     = (\<lparr>projects = [\<lparr>pid = ''l9'', title = ''Draft'', description = None, targetWords = Finite 5000, deadline = None,
          pstatus = Drafting, createdAt = ''2024-03-01T09:00:00.000Z'', archived = None\<rparr>], sessions = [], ideas = [], dailyGoal = 500\<rparr>,
        [RemoteSelect ''user-1'', ConsoleError ''PGRST301''])"
    by (rule te [THEN mp, OF hu, THEN conjunct2, THEN conjunct2, THEN conjunct2, THEN conjunct2, THEN conjunct1, THEN mp, OF he])
  have hb: "resp_error \<lparr>resp_data = Some (PObject (exportJSON \<lparr>projects = [], sessions = [], ideas = [], dailyGoal = 700\<rparr>)), resp_error = None\<rparr> = None
      \<and> resp_data \<lparr>resp_data = Some (PObject (exportJSON \<lparr>projects = [], sessions = [], ideas = [], dailyGoal = 700\<rparr>)), resp_error = None\<rparr> = Some (PObject (exportJSON \<lparr>projects = [], sessions = [], ideas = [], dailyGoal = 700\<rparr>))
      \<and> dailyGoal \<lparr>projects = [], sessions = [], ideas = [], dailyGoal = 700\<rparr> \<noteq> 0"
    by simp
  have rb: "cloud_load (Some ''user-1'')
      \<lparr>resp_data = Some (PObject (exportJSON \<lparr>projects = [], sessions = [], ideas = [], dailyGoal = 700\<rparr>)), resp_error = None\<rparr>
      ''2024-03-03T10:00:00.000Z''
      \<lparr>projects = [\<lparr>pid = ''l9'', title = ''Draft'', description = None, targetWords = Finite 5000, deadline = None,
          pstatus = Drafting, createdAt = ''2024-03-01T09:00:00.000Z'', archived = None\<rparr>], sessions = [], ideas = [], dailyGoal = 500\<rparr>
     = (\<lparr>projects = [], sessions = [], ideas = [], dailyGoal = 700\<rparr>, [RemoteSelect ''user-1''])"
    by (rule tb [THEN mp, OF hu, THEN conjunct2, THEN conjunct2, THEN conjunct1, THEN mp, OF hb])
  note tz = cloud_load_on_sign_in
    [of "''user-1''"
      "\<lparr>resp_data = Some (PObject (exportJSON \<lparr>projects = [\<lparr>pid = ''r1'', title = ''Novel'', description = None, targetWords = Finite 5000, deadline = None,
          pstatus = Drafting, createdAt = ''2024-03-01T09:00:00.000Z'', archived = None\<rparr>], sessions = [], ideas = [], dailyGoal = 0\<rparr>)), resp_error = None\<rparr>"
      "''2024-03-03T10:00:00.000Z''"
      "\<lparr>projects = [\<lparr>pid = ''l9'', title = ''Draft'', description = None, targetWords = Finite 5000, deadline = None,
          pstatus = Drafting, createdAt = ''2024-03-01T09:00:00.000Z'', archived = None\<rparr>], sessions = [], ideas = [], dailyGoal = 700\<rparr>"
      "empty_document"
      "\<lparr>projects = [\<lparr>pid = ''r1'', title = ''Novel'', description = None, targetWords = Finite 5000, deadline = None,
          pstatus = Drafting, createdAt = ''2024-03-01T09:00:00.000Z'', archived = None\<rparr>], sessions = [], ideas = [], dailyGoal = 0\<rparr>" "[]"]
  have hz: "resp_error \<lparr>resp_data = Some (PObject (exportJSON \<lparr>projects = [\<lparr>pid = ''r1'', title = ''Novel'', description = None, targetWords = Finite 5000, deadline = None,
          pstatus = Drafting, createdAt = ''2024-03-01T09:00:00.000Z'', archived = None\<rparr>], sessions = [], ideas = [], dailyGoal = 0\<rparr>)), resp_error = None\<rparr> = None
      \<and> resp_data \<lparr>resp_data = Some (PObject (exportJSON \<lparr>projects = [\<lparr>pid = ''r1'', title = ''Novel'', description = None, targetWords = Finite 5000, deadline = None,
          pstatus = Drafting, createdAt = ''2024-03-01T09:00:00.000Z'', archived = None\<rparr>], sessions = [], ideas = [], dailyGoal = 0\<rparr>)), resp_error = None\<rparr> = Some (PObject (exportJSON \<lparr>projects = [\<lparr>pid = ''r1'', title = ''Novel'', description = None, targetWords = Finite 5000, deadline = None,
          pstatus = Drafting, createdAt = ''2024-03-01T09:00:00.000Z'', archived = None\<rparr>], sessions = [], ideas = [], dailyGoal = 0\<rparr>))
      \<and> dailyGoal \<lparr>projects = [\<lparr>pid = ''r1'', title = ''Novel'', description = None, targetWords = Finite 5000, deadline = None,
          pstatus = Drafting, createdAt = ''2024-03-01T09:00:00.000Z'', archived = None\<rparr>], sessions = [], ideas = [], dailyGoal = 0\<rparr> = 0"
    by simp
  have rz: "cloud_load (Some ''user-1'')
      \<lparr>resp_data = Some (PObject (exportJSON \<lparr>projects = [\<lparr>pid = ''r1'', title = ''Novel'', description = None, targetWords = Finite 5000, deadline = None,
          pstatus = Drafting, createdAt = ''2024-03-01T09:00:00.000Z'', archived = None\<rparr>], sessions = [], ideas = [], dailyGoal = 0\<rparr>)), resp_error = None\<rparr>
      ''2024-03-03T10:00:00.000Z''
      \<lparr>projects = [\<lparr>pid = ''l9'', title = ''Draft'', description = None, targetWords = Finite 5000, deadline = None,
          pstatus = Drafting, createdAt = ''2024-03-01T09:00:00.000Z'', archived = None\<rparr>], sessions = [], ideas = [], dailyGoal = 700\<rparr>
     = (\<lparr>projects = [\<lparr>pid = ''r1'', title = ''Novel'', description = None, targetWords = Finite 5000, deadline = None,
          pstatus = Drafting, createdAt = ''2024-03-01T09:00:00.000Z'', archived = None\<rparr>], sessions = [], ideas = [], dailyGoal = 500\<rparr>, [RemoteSelect ''user-1''])"
    using tz [THEN mp, OF hu, THEN conjunct2, THEN conjunct2, THEN conjunct2, THEN conjunct2, THEN conjunct2, THEN mp, OF hz]
    by simp
  show ?thesis by (intro conjI hu one found nf er rb rz)
qed

text \<open>
  C6. The streak computed by the loop is the number of leading day keys daysAgo(0),
  daysAgo(1), ... whose summed words are positive; it stops at the first key whose sum is
  not positive and never exceeds 365. In a zone whose offset does not change the keys are
  the consecutive calendar days back from today inclusive, the streak is the number of
  consecutive days with positive words, and positive words today and yesterday with none
  the day before give 2. In New York at 19:30 on 2024-03-12 the keys are 2024-03-12,
  2024-03-11, 2024-03-10, 2024-03-10, 2024-03-09: the day of the change to daylight time
  comes twice, and sessions on three consecutive days give a streak of 4, not 3. At a
  render with the session array unchanged the memo returns the streak of the earlier render.
\<close>

theorem streak_follows_day_keys:
  "streak z now ss = length (takeWhile (\<lambda>i. js_gt0 (todaysWords (dayKey z now i) ss)) [0..<365])
   \<and> streak z now ss \<le> 365
   \<and> ((\<forall>t. utc_offset z t = c) \<and> (\<forall>l. local_offset z l = c) \<longrightarrow>
        dayKey z now i = iso_date (now div msPerDay - int i) \<and> streak z now ss = spec_streak now ss)
   \<and> ((\<forall>t. utc_offset z t = c) \<and> (\<forall>l. local_offset z l = c)
        \<and> js_gt0 (todaysWords (iso_date (now div msPerDay)) ss)
        \<and> js_gt0 (todaysWords (iso_date (now div msPerDay - 1)) ss)
        \<and> \<not> js_gt0 (todaysWords (iso_date (now div msPerDay - 2)) ss) \<longrightarrow> streak z now ss = 2)
   \<and> map (dayKey zone_new_york 1710286200000) [0, 1, 2, 3, 4]
        = [''2024-03-12'', ''2024-03-11'', ''2024-03-10'', ''2024-03-10'', ''2024-03-09'']
   \<and> streak zone_new_york 1710286200000
       [\<lparr>sid = ''k3x9'', projectId = None, date = ''2024-03-12'', minutes = Finite 30, words = Finite 300, snotes = []\<rparr>,
        \<lparr>sid = ''p07q'', projectId = None, date = ''2024-03-11'', minutes = Finite 45, words = Finite 250, snotes = []\<rparr>,
        \<lparr>sid = ''z81m'', projectId = None, date = ''2024-03-10'', minutes = Finite 20, words = Finite 400, snotes = []\<rparr>] = 4
   \<and> spec_streak 1710286200000
       [\<lparr>sid = ''k3x9'', projectId = None, date = ''2024-03-12'', minutes = Finite 30, words = Finite 300, snotes = []\<rparr>,
        \<lparr>sid = ''p07q'', projectId = None, date = ''2024-03-11'', minutes = Finite 45, words = Finite 250, snotes = []\<rparr>,
        \<lparr>sid = ''z81m'', projectId = None, date = ''2024-03-10'', minutes = Finite 20, words = Finite 400, snotes = []\<rparr>] = 3
   \<and> snd (streak_render (Some (sessions_ref st, v)) z now st) = v"
proof (intro conjI impI)
  show "streak z now ss = length (takeWhile (\<lambda>i. js_gt0 (todaysWords (dayKey z now i) ss)) [0..<365])"
    by (rule streak_takeWhile)
  show "streak z now ss \<le> 365"
    by (simp only: streak_takeWhile takeWhile_upt_le)
  show "snd (streak_render (Some (sessions_ref st, v)) z now st) = v"
    by (simp add: streak_render_def useMemo_def)
next
  assume "(\<forall>t. utc_offset z t = c) \<and> (\<forall>l. local_offset z l = c)"
  then have u: "\<forall>t. utc_offset z t = c" and l: "\<forall>l. local_offset z l = c" by simp_all
  show "dayKey z now i = iso_date (now div msPerDay - int i)"
    using u l by (rule dayKey_constant_offset)
  show "streak z now ss = spec_streak now ss"
    using u l by (rule streak_constant_offset)
next
  assume a: "(\<forall>t. utc_offset z t = c) \<and> (\<forall>l. local_offset z l = c)
        \<and> js_gt0 (todaysWords (iso_date (now div msPerDay)) ss)
        \<and> js_gt0 (todaysWords (iso_date (now div msPerDay - 1)) ss)
        \<and> \<not> js_gt0 (todaysWords (iso_date (now div msPerDay - 2)) ss)"
  then have u: "\<forall>t. utc_offset z t = c" and l: "\<forall>l. local_offset z l = c" by simp_all
  have "length (takeWhile (\<lambda>i. js_gt0 (todaysWords (iso_date (now div msPerDay - int i)) ss)) [0..<365]) = 2"
  proof (rule takeWhile_upt_stop)
    show "(2::nat) < 365" by simp
    show "\<not> js_gt0 (todaysWords (iso_date (now div msPerDay - int 2)) ss)" using a by simp
    fix i :: nat assume "i < 2"
    then have "i = 0 \<or> i = 1" by arith
    then show "js_gt0 (todaysWords (iso_date (now div msPerDay - int i)) ss)" using a by auto
  qed
  then have "spec_streak now ss = 2" by (simp only: spec_streak_def)
  then show "streak z now ss = 2" by (simp only: streak_constant_offset [OF u l])
next
  have k0: "dayKey zone_new_york 1710286200000 0 = ''2024-03-12''"
    by (simp add: today_def dayKey_def daysAgo_def zone_new_york_def Let_def msPerDay_def iso_date_def civil_defs pad4_def pad2_def digit_def)
  have k1: "dayKey zone_new_york 1710286200000 1 = ''2024-03-11''"
    by (simp add: today_def dayKey_def daysAgo_def zone_new_york_def Let_def msPerDay_def iso_date_def civil_defs pad4_def pad2_def digit_def)
  have k2: "dayKey zone_new_york 1710286200000 2 = ''2024-03-10''"
    by (simp add: today_def dayKey_def daysAgo_def zone_new_york_def Let_def msPerDay_def iso_date_def civil_defs pad4_def pad2_def digit_def)
  have k3: "dayKey zone_new_york 1710286200000 3 = ''2024-03-10''"
    by (simp add: today_def dayKey_def daysAgo_def zone_new_york_def Let_def msPerDay_def iso_date_def civil_defs pad4_def pad2_def digit_def)
  have k4: "dayKey zone_new_york 1710286200000 4 = ''2024-03-09''"
    by (simp add: today_def dayKey_def daysAgo_def zone_new_york_def Let_def msPerDay_def iso_date_def civil_defs pad4_def pad2_def digit_def)
  show "map (dayKey zone_new_york 1710286200000) [0, 1, 2, 3, 4]
        = [''2024-03-12'', ''2024-03-11'', ''2024-03-10'', ''2024-03-10'', ''2024-03-09'']"
    by (simp only: list.map k0 k1 k2 k3 k4)
  have g0: "js_gt0 (todaysWords (dayKey zone_new_york 1710286200000 0)
       [\<lparr>sid = ''k3x9'', projectId = None, date = ''2024-03-12'', minutes = Finite 30, words = Finite 300, snotes = []\<rparr>,
        \<lparr>sid = ''p07q'', projectId = None, date = ''2024-03-11'', minutes = Finite 45, words = Finite 250, snotes = []\<rparr>,
        \<lparr>sid = ''z81m'', projectId = None, date = ''2024-03-10'', minutes = Finite 20, words = Finite 400, snotes = []\<rparr>])"
    by (simp only: k0) (simp add: todaysWords_def sum_js_def fl_ints js_gt0_def)
  have g1: "js_gt0 (todaysWords (dayKey zone_new_york 1710286200000 1)
       [\<lparr>sid = ''k3x9'', projectId = None, date = ''2024-03-12'', minutes = Finite 30, words = Finite 300, snotes = []\<rparr>,
        \<lparr>sid = ''p07q'', projectId = None, date = ''2024-03-11'', minutes = Finite 45, words = Finite 250, snotes = []\<rparr>,
        \<lparr>sid = ''z81m'', projectId = None, date = ''2024-03-10'', minutes = Finite 20, words = Finite 400, snotes = []\<rparr>])"
    by (simp only: k1) (simp add: todaysWords_def sum_js_def fl_ints js_gt0_def)
  have g2: "js_gt0 (todaysWords (dayKey zone_new_york 1710286200000 2)
       [\<lparr>sid = ''k3x9'', projectId = None, date = ''2024-03-12'', minutes = Finite 30, words = Finite 300, snotes = []\<rparr>,
        \<lparr>sid = ''p07q'', projectId = None, date = ''2024-03-11'', minutes = Finite 45, words = Finite 250, snotes = []\<rparr>,
        \<lparr>sid = ''z81m'', projectId = None, date = ''2024-03-10'', minutes = Finite 20, words = Finite 400, snotes = []\<rparr>])"
    by (simp only: k2) (simp add: todaysWords_def sum_js_def fl_ints js_gt0_def)
  have g3: "js_gt0 (todaysWords (dayKey zone_new_york 1710286200000 3)
       [\<lparr>sid = ''k3x9'', projectId = None, date = ''2024-03-12'', minutes = Finite 30, words = Finite 300, snotes = []\<rparr>,
        \<lparr>sid = ''p07q'', projectId = None, date = ''2024-03-11'', minutes = Finite 45, words = Finite 250, snotes = []\<rparr>,
        \<lparr>sid = ''z81m'', projectId = None, date = ''2024-03-10'', minutes = Finite 20, words = Finite 400, snotes = []\<rparr>])"
    by (simp only: k3) (simp add: todaysWords_def sum_js_def fl_ints js_gt0_def)
  have g4: "\<not> js_gt0 (todaysWords (dayKey zone_new_york 1710286200000 4)
       [\<lparr>sid = ''k3x9'', projectId = None, date = ''2024-03-12'', minutes = Finite 30, words = Finite 300, snotes = []\<rparr>,
        \<lparr>sid = ''p07q'', projectId = None, date = ''2024-03-11'', minutes = Finite 45, words = Finite 250, snotes = []\<rparr>,
        \<lparr>sid = ''z81m'', projectId = None, date = ''2024-03-10'', minutes = Finite 20, words = Finite 400, snotes = []\<rparr>])"
    by (simp only: k4) (simp add: todaysWords_def sum_js_def fl_ints js_gt0_def)
  have l0: "streak_loop zone_new_york 1710286200000
       [\<lparr>sid = ''k3x9'', projectId = None, date = ''2024-03-12'', minutes = Finite 30, words = Finite 300, snotes = []\<rparr>,
        \<lparr>sid = ''p07q'', projectId = None, date = ''2024-03-11'', minutes = Finite 45, words = Finite 250, snotes = []\<rparr>,
        \<lparr>sid = ''z81m'', projectId = None, date = ''2024-03-10'', minutes = Finite 20, words = Finite 400, snotes = []\<rparr>] 0 0
     = streak_loop zone_new_york 1710286200000
       [\<lparr>sid = ''k3x9'', projectId = None, date = ''2024-03-12'', minutes = Finite 30, words = Finite 300, snotes = []\<rparr>,
        \<lparr>sid = ''p07q'', projectId = None, date = ''2024-03-11'', minutes = Finite 45, words = Finite 250, snotes = []\<rparr>,
        \<lparr>sid = ''z81m'', projectId = None, date = ''2024-03-10'', minutes = Finite 20, words = Finite 400, snotes = []\<rparr>] 1 1"
  proof -
    have "(0::nat) < 365" by simp
    from streak_loop_step [OF this g0, of 0]
    have "streak_loop zone_new_york 1710286200000
       [\<lparr>sid = ''k3x9'', projectId = None, date = ''2024-03-12'', minutes = Finite 30, words = Finite 300, snotes = []\<rparr>,
        \<lparr>sid = ''p07q'', projectId = None, date = ''2024-03-11'', minutes = Finite 45, words = Finite 250, snotes = []\<rparr>,
        \<lparr>sid = ''z81m'', projectId = None, date = ''2024-03-10'', minutes = Finite 20, words = Finite 400, snotes = []\<rparr>] 0 0
     = streak_loop zone_new_york 1710286200000
       [\<lparr>sid = ''k3x9'', projectId = None, date = ''2024-03-12'', minutes = Finite 30, words = Finite 300, snotes = []\<rparr>,
        \<lparr>sid = ''p07q'', projectId = None, date = ''2024-03-11'', minutes = Finite 45, words = Finite 250, snotes = []\<rparr>,
        \<lparr>sid = ''z81m'', projectId = None, date = ''2024-03-10'', minutes = Finite 20, words = Finite 400, snotes = []\<rparr>] (0 + 1) (0 + 1)" .
    moreover have "(0::nat) + 1 = 1" by simp
    ultimately show ?thesis by (simp only:)
  qed
  have l1: "streak_loop zone_new_york 1710286200000
       [\<lparr>sid = ''k3x9'', projectId = None, date = ''2024-03-12'', minutes = Finite 30, words = Finite 300, snotes = []\<rparr>,
        \<lparr>sid = ''p07q'', projectId = None, date = ''2024-03-11'', minutes = Finite 45, words = Finite 250, snotes = []\<rparr>,
        \<lparr>sid = ''z81m'', projectId = None, date = ''2024-03-10'', minutes = Finite 20, words = Finite 400, snotes = []\<rparr>] 1 1
     = streak_loop zone_new_york 1710286200000
       [\<lparr>sid = ''k3x9'', projectId = None, date = ''2024-03-12'', minutes = Finite 30, words = Finite 300, snotes = []\<rparr>,
        \<lparr>sid = ''p07q'', projectId = None, date = ''2024-03-11'', minutes = Finite 45, words = Finite 250, snotes = []\<rparr>,
        \<lparr>sid = ''z81m'', projectId = None, date = ''2024-03-10'', minutes = Finite 20, words = Finite 400, snotes = []\<rparr>] 2 2"
  proof -
    have "(1::nat) < 365" by simp
    from streak_loop_step [OF this g1, of 1]
    have "streak_loop zone_new_york 1710286200000
       [\<lparr>sid = ''k3x9'', projectId = None, date = ''2024-03-12'', minutes = Finite 30, words = Finite 300, snotes = []\<rparr>,
        \<lparr>sid = ''p07q'', projectId = None, date = ''2024-03-11'', minutes = Finite 45, words = Finite 250, snotes = []\<rparr>,
        \<lparr>sid = ''z81m'', projectId = None, date = ''2024-03-10'', minutes = Finite 20, words = Finite 400, snotes = []\<rparr>] 1 1
     = streak_loop zone_new_york 1710286200000
       [\<lparr>sid = ''k3x9'', projectId = None, date = ''2024-03-12'', minutes = Finite 30, words = Finite 300, snotes = []\<rparr>,
        \<lparr>sid = ''p07q'', projectId = None, date = ''2024-03-11'', minutes = Finite 45, words = Finite 250, snotes = []\<rparr>,
        \<lparr>sid = ''z81m'', projectId = None, date = ''2024-03-10'', minutes = Finite 20, words = Finite 400, snotes = []\<rparr>] (1 + 1) (1 + 1)" .
    moreover have "(1::nat) + 1 = 2" by simp
    ultimately show ?thesis by (simp only:)
  qed
  have l2: "streak_loop zone_new_york 1710286200000
       [\<lparr>sid = ''k3x9'', projectId = None, date = ''2024-03-12'', minutes = Finite 30, words = Finite 300, snotes = []\<rparr>,
        \<lparr>sid = ''p07q'', projectId = None, date = ''2024-03-11'', minutes = Finite 45, words = Finite 250, snotes = []\<rparr>,
        \<lparr>sid = ''z81m'', projectId = None, date = ''2024-03-10'', minutes = Finite 20, words = Finite 400, snotes = []\<rparr>] 2 2
     = streak_loop zone_new_york 1710286200000
       [\<lparr>sid = ''k3x9'', projectId = None, date = ''2024-03-12'', minutes = Finite 30, words = Finite 300, snotes = []\<rparr>,
        \<lparr>sid = ''p07q'', projectId = None, date = ''2024-03-11'', minutes = Finite 45, words = Finite 250, snotes = []\<rparr>,
        \<lparr>sid = ''z81m'', projectId = None, date = ''2024-03-10'', minutes = Finite 20, words = Finite 400, snotes = []\<rparr>] 3 3"
  proof -
    have "(2::nat) < 365" by simp
    from streak_loop_step [OF this g2, of 2]
    have "streak_loop zone_new_york 1710286200000
       [\<lparr>sid = ''k3x9'', projectId = None, date = ''2024-03-12'', minutes = Finite 30, words = Finite 300, snotes = []\<rparr>,
        \<lparr>sid = ''p07q'', projectId = None, date = ''2024-03-11'', minutes = Finite 45, words = Finite 250, snotes = []\<rparr>,
        \<lparr>sid = ''z81m'', projectId = None, date = ''2024-03-10'', minutes = Finite 20, words = Finite 400, snotes = []\<rparr>] 2 2
     = streak_loop zone_new_york 1710286200000
       [\<lparr>sid = ''k3x9'', projectId = None, date = ''2024-03-12'', minutes = Finite 30, words = Finite 300, snotes = []\<rparr>,
        \<lparr>sid = ''p07q'', projectId = None, date = ''2024-03-11'', minutes = Finite 45, words = Finite 250, snotes = []\<rparr>,
        \<lparr>sid = ''z81m'', projectId = None, date = ''2024-03-10'', minutes = Finite 20, words = Finite 400, snotes = []\<rparr>] (2 + 1) (2 + 1)" .
    moreover have "(2::nat) + 1 = 3" by simp
    ultimately show ?thesis by (simp only:)
  qed
  have l3: "streak_loop zone_new_york 1710286200000
       [\<lparr>sid = ''k3x9'', projectId = None, date = ''2024-03-12'', minutes = Finite 30, words = Finite 300, snotes = []\<rparr>,
        \<lparr>sid = ''p07q'', projectId = None, date = ''2024-03-11'', minutes = Finite 45, words = Finite 250, snotes = []\<rparr>,
        \<lparr>sid = ''z81m'', projectId = None, date = ''2024-03-10'', minutes = Finite 20, words = Finite 400, snotes = []\<rparr>] 3 3
     = streak_loop zone_new_york 1710286200000
       [\<lparr>sid = ''k3x9'', projectId = None, date = ''2024-03-12'', minutes = Finite 30, words = Finite 300, snotes = []\<rparr>,
        \<lparr>sid = ''p07q'', projectId = None, date = ''2024-03-11'', minutes = Finite 45, words = Finite 250, snotes = []\<rparr>,
        \<lparr>sid = ''z81m'', projectId = None, date = ''2024-03-10'', minutes = Finite 20, words = Finite 400, snotes = []\<rparr>] 4 4"
  proof -
    have "(3::nat) < 365" by simp
    from streak_loop_step [OF this g3, of 3]
    have "streak_loop zone_new_york 1710286200000
       [\<lparr>sid = ''k3x9'', projectId = None, date = ''2024-03-12'', minutes = Finite 30, words = Finite 300, snotes = []\<rparr>,
        \<lparr>sid = ''p07q'', projectId = None, date = ''2024-03-11'', minutes = Finite 45, words = Finite 250, snotes = []\<rparr>,
        \<lparr>sid = ''z81m'', projectId = None, date = ''2024-03-10'', minutes = Finite 20, words = Finite 400, snotes = []\<rparr>] 3 3
     = streak_loop zone_new_york 1710286200000
       [\<lparr>sid = ''k3x9'', projectId = None, date = ''2024-03-12'', minutes = Finite 30, words = Finite 300, snotes = []\<rparr>,
        \<lparr>sid = ''p07q'', projectId = None, date = ''2024-03-11'', minutes = Finite 45, words = Finite 250, snotes = []\<rparr>,
        \<lparr>sid = ''z81m'', projectId = None, date = ''2024-03-10'', minutes = Finite 20, words = Finite 400, snotes = []\<rparr>] (3 + 1) (3 + 1)" .
    moreover have "(3::nat) + 1 = 4" by simp
    ultimately show ?thesis by (simp only:)
  qed
  have l4: "streak_loop zone_new_york 1710286200000
       [\<lparr>sid = ''k3x9'', projectId = None, date = ''2024-03-12'', minutes = Finite 30, words = Finite 300, snotes = []\<rparr>,
        \<lparr>sid = ''p07q'', projectId = None, date = ''2024-03-11'', minutes = Finite 45, words = Finite 250, snotes = []\<rparr>,
        \<lparr>sid = ''z81m'', projectId = None, date = ''2024-03-10'', minutes = Finite 20, words = Finite 400, snotes = []\<rparr>] 4 4 = 4"
    using g4 by (rule streak_loop_stop)
  show "streak zone_new_york 1710286200000
       [\<lparr>sid = ''k3x9'', projectId = None, date = ''2024-03-12'', minutes = Finite 30, words = Finite 300, snotes = []\<rparr>,
        \<lparr>sid = ''p07q'', projectId = None, date = ''2024-03-11'', minutes = Finite 45, words = Finite 250, snotes = []\<rparr>,
        \<lparr>sid = ''z81m'', projectId = None, date = ''2024-03-10'', minutes = Finite 20, words = Finite 400, snotes = []\<rparr>] = 4"
    by (simp only: streak_def l0 l1 l2 l3 l4)
  have s0: "iso_date (1710286200000 div msPerDay - int 0) = ''2024-03-12''"
    by (simp add: msPerDay_def iso_date_def civil_defs pad4_def pad2_def digit_def)
  have s1: "iso_date (1710286200000 div msPerDay - int 1) = ''2024-03-11''"
    by (simp add: msPerDay_def iso_date_def civil_defs pad4_def pad2_def digit_def)
  have s2: "iso_date (1710286200000 div msPerDay - int 2) = ''2024-03-10''"
    by (simp add: msPerDay_def iso_date_def civil_defs pad4_def pad2_def digit_def)
  have s3: "iso_date (1710286200000 div msPerDay - int 3) = ''2024-03-09''"
    by (simp add: msPerDay_def iso_date_def civil_defs pad4_def pad2_def digit_def)
  have q0: "js_gt0 (todaysWords (iso_date (1710286200000 div msPerDay - int 0))
       [\<lparr>sid = ''k3x9'', projectId = None, date = ''2024-03-12'', minutes = Finite 30, words = Finite 300, snotes = []\<rparr>,
        \<lparr>sid = ''p07q'', projectId = None, date = ''2024-03-11'', minutes = Finite 45, words = Finite 250, snotes = []\<rparr>,
        \<lparr>sid = ''z81m'', projectId = None, date = ''2024-03-10'', minutes = Finite 20, words = Finite 400, snotes = []\<rparr>])"
    by (simp only: s0) (simp add: todaysWords_def sum_js_def fl_ints js_gt0_def)
  have q1: "js_gt0 (todaysWords (iso_date (1710286200000 div msPerDay - int 1))
       [\<lparr>sid = ''k3x9'', projectId = None, date = ''2024-03-12'', minutes = Finite 30, words = Finite 300, snotes = []\<rparr>,
        \<lparr>sid = ''p07q'', projectId = None, date = ''2024-03-11'', minutes = Finite 45, words = Finite 250, snotes = []\<rparr>,
        \<lparr>sid = ''z81m'', projectId = None, date = ''2024-03-10'', minutes = Finite 20, words = Finite 400, snotes = []\<rparr>])"
    by (simp only: s1) (simp add: todaysWords_def sum_js_def fl_ints js_gt0_def)
  have q2: "js_gt0 (todaysWords (iso_date (1710286200000 div msPerDay - int 2))
       [\<lparr>sid = ''k3x9'', projectId = None, date = ''2024-03-12'', minutes = Finite 30, words = Finite 300, snotes = []\<rparr>,
        \<lparr>sid = ''p07q'', projectId = None, date = ''2024-03-11'', minutes = Finite 45, words = Finite 250, snotes = []\<rparr>,
        \<lparr>sid = ''z81m'', projectId = None, date = ''2024-03-10'', minutes = Finite 20, words = Finite 400, snotes = []\<rparr>])"
    by (simp only: s2) (simp add: todaysWords_def sum_js_def fl_ints js_gt0_def)
  have q3: "\<not> js_gt0 (todaysWords (iso_date (1710286200000 div msPerDay - int 3))
       [\<lparr>sid = ''k3x9'', projectId = None, date = ''2024-03-12'', minutes = Finite 30, words = Finite 300, snotes = []\<rparr>,
        \<lparr>sid = ''p07q'', projectId = None, date = ''2024-03-11'', minutes = Finite 45, words = Finite 250, snotes = []\<rparr>,
        \<lparr>sid = ''z81m'', projectId = None, date = ''2024-03-10'', minutes = Finite 20, words = Finite 400, snotes = []\<rparr>])"
    by (simp only: s3) (simp add: todaysWords_def sum_js_def fl_ints js_gt0_def)
  have "length (takeWhile (\<lambda>i. js_gt0 (todaysWords (iso_date (1710286200000 div msPerDay - int i))
       [\<lparr>sid = ''k3x9'', projectId = None, date = ''2024-03-12'', minutes = Finite 30, words = Finite 300, snotes = []\<rparr>,
        \<lparr>sid = ''p07q'', projectId = None, date = ''2024-03-11'', minutes = Finite 45, words = Finite 250, snotes = []\<rparr>,
        \<lparr>sid = ''z81m'', projectId = None, date = ''2024-03-10'', minutes = Finite 20, words = Finite 400, snotes = []\<rparr>])) [0..<365]) = 3"
  proof (rule takeWhile_upt_stop)
    show "(3::nat) < 365" by simp
    show "\<not> js_gt0 (todaysWords (iso_date (1710286200000 div msPerDay - int 3))
       [\<lparr>sid = ''k3x9'', projectId = None, date = ''2024-03-12'', minutes = Finite 30, words = Finite 300, snotes = []\<rparr>,
        \<lparr>sid = ''p07q'', projectId = None, date = ''2024-03-11'', minutes = Finite 45, words = Finite 250, snotes = []\<rparr>,
        \<lparr>sid = ''z81m'', projectId = None, date = ''2024-03-10'', minutes = Finite 20, words = Finite 400, snotes = []\<rparr>])" by (rule q3)
    fix i :: nat assume "i < 3"
    then have "i = 0 \<or> i = 1 \<or> i = 2" by arith
    then show "js_gt0 (todaysWords (iso_date (1710286200000 div msPerDay - int i))
       [\<lparr>sid = ''k3x9'', projectId = None, date = ''2024-03-12'', minutes = Finite 30, words = Finite 300, snotes = []\<rparr>,
        \<lparr>sid = ''p07q'', projectId = None, date = ''2024-03-11'', minutes = Finite 45, words = Finite 250, snotes = []\<rparr>,
        \<lparr>sid = ''z81m'', projectId = None, date = ''2024-03-10'', minutes = Finite 20, words = Finite 400, snotes = []\<rparr>])"
      using q0 q1 q2 by blast
  qed
  then show "spec_streak 1710286200000
       [\<lparr>sid = ''k3x9'', projectId = None, date = ''2024-03-12'', minutes = Finite 30, words = Finite 300, snotes = []\<rparr>,
        \<lparr>sid = ''p07q'', projectId = None, date = ''2024-03-11'', minutes = Finite 45, words = Finite 250, snotes = []\<rparr>,
        \<lparr>sid = ''z81m'', projectId = None, date = ''2024-03-10'', minutes = Finite 20, words = Finite 400, snotes = []\<rparr>] = 3"
    by (simp only: spec_streak_def)
qed

theorem streak_follows_day_keys_witness:
  "(\<forall>t. utc_offset \<lparr>utc_offset = (\<lambda>t. 3600000), local_offset = (\<lambda>l. 3600000)\<rparr> t = 3600000)
   \<and> (\<forall>l. local_offset \<lparr>utc_offset = (\<lambda>t. 3600000), local_offset = (\<lambda>l. 3600000)\<rparr> l = 3600000)
   \<and> js_gt0 (todaysWords (iso_date (1710286200000 div msPerDay))
       [\<lparr>sid = ''k3x9'', projectId = None, date = ''2024-03-12'', minutes = Finite 30, words = Finite 300, snotes = []\<rparr>,
        \<lparr>sid = ''p07q'', projectId = None, date = ''2024-03-11'', minutes = Finite 45, words = Finite 250, snotes = []\<rparr>])
   \<and> js_gt0 (todaysWords (iso_date (1710286200000 div msPerDay - 1))
       [\<lparr>sid = ''k3x9'', projectId = None, date = ''2024-03-12'', minutes = Finite 30, words = Finite 300, snotes = []\<rparr>,
        \<lparr>sid = ''p07q'', projectId = None, date = ''2024-03-11'', minutes = Finite 45, words = Finite 250, snotes = []\<rparr>])
   \<and> \<not> js_gt0 (todaysWords (iso_date (1710286200000 div msPerDay - 2))
       [\<lparr>sid = ''k3x9'', projectId = None, date = ''2024-03-12'', minutes = Finite 30, words = Finite 300, snotes = []\<rparr>,
        \<lparr>sid = ''p07q'', projectId = None, date = ''2024-03-11'', minutes = Finite 45, words = Finite 250, snotes = []\<rparr>])
   \<and> dayKey \<lparr>utc_offset = (\<lambda>t. 3600000), local_offset = (\<lambda>l. 3600000)\<rparr> 1710286200000 1 = iso_date (1710286200000 div msPerDay - int 1)
   \<and> streak \<lparr>utc_offset = (\<lambda>t. 3600000), local_offset = (\<lambda>l. 3600000)\<rparr> 1710286200000
       [\<lparr>sid = ''k3x9'', projectId = None, date = ''2024-03-12'', minutes = Finite 30, words = Finite 300, snotes = []\<rparr>,
        \<lparr>sid = ''p07q'', projectId = None, date = ''2024-03-11'', minutes = Finite 45, words = Finite 250, snotes = []\<rparr>] = 2"
proof -
  note t = streak_follows_day_keys
    [of "\<lparr>utc_offset = (\<lambda>t. 3600000), local_offset = (\<lambda>l. 3600000)\<rparr>" 1710286200000
        "[\<lparr>sid = ''k3x9'', projectId = None, date = ''2024-03-12'', minutes = Finite 30, words = Finite 300, snotes = []\<rparr>,
        \<lparr>sid = ''p07q'', projectId = None, date = ''2024-03-11'', minutes = Finite 45, words = Finite 250, snotes = []\<rparr>]" 3600000 1]
  have u: "\<forall>t. utc_offset \<lparr>utc_offset = (\<lambda>t. 3600000), local_offset = (\<lambda>l. 3600000)\<rparr> t = 3600000" by simp
  have l: "\<forall>l. local_offset \<lparr>utc_offset = (\<lambda>t. 3600000), local_offset = (\<lambda>l. 3600000)\<rparr> l = 3600000" by simp
  have s0: "iso_date (1710286200000 div msPerDay) = ''2024-03-12''"
    by (simp add: msPerDay_def iso_date_def civil_defs pad4_def pad2_def digit_def)
  have s1: "iso_date (1710286200000 div msPerDay - 1) = ''2024-03-11''"
    by (simp add: msPerDay_def iso_date_def civil_defs pad4_def pad2_def digit_def)
  have s2: "iso_date (1710286200000 div msPerDay - 2) = ''2024-03-10''"
    by (simp add: msPerDay_def iso_date_def civil_defs pad4_def pad2_def digit_def)
  have h0: "js_gt0 (todaysWords (iso_date (1710286200000 div msPerDay))
       [\<lparr>sid = ''k3x9'', projectId = None, date = ''2024-03-12'', minutes = Finite 30, words = Finite 300, snotes = []\<rparr>,
        \<lparr>sid = ''p07q'', projectId = None, date = ''2024-03-11'', minutes = Finite 45, words = Finite 250, snotes = []\<rparr>])"
    by (simp only: s0) (simp add: todaysWords_def sum_js_def fl_ints js_gt0_def)
  have h1: "js_gt0 (todaysWords (iso_date (1710286200000 div msPerDay - 1))
       [\<lparr>sid = ''k3x9'', projectId = None, date = ''2024-03-12'', minutes = Finite 30, words = Finite 300, snotes = []\<rparr>,
        \<lparr>sid = ''p07q'', projectId = None, date = ''2024-03-11'', minutes = Finite 45, words = Finite 250, snotes = []\<rparr>])"
    by (simp only: s1) (simp add: todaysWords_def sum_js_def fl_ints js_gt0_def)
  have h2: "\<not> js_gt0 (todaysWords (iso_date (1710286200000 div msPerDay - 2))
       [\<lparr>sid = ''k3x9'', projectId = None, date = ''2024-03-12'', minutes = Finite 30, words = Finite 300, snotes = []\<rparr>,
        \<lparr>sid = ''p07q'', projectId = None, date = ''2024-03-11'', minutes = Finite 45, words = Finite 250, snotes = []\<rparr>])"
    by (simp only: s2) (simp add: todaysWords_def sum_js_def fl_ints js_gt0_def)
  have k: "dayKey \<lparr>utc_offset = (\<lambda>t. 3600000), local_offset = (\<lambda>l. 3600000)\<rparr> 1710286200000 1 = iso_date (1710286200000 div msPerDay - int 1)"
    by (rule t [THEN conjunct2, THEN conjunct2, THEN conjunct1, THEN mp, OF conjI [OF u l], THEN conjunct1])
  have r: "streak \<lparr>utc_offset = (\<lambda>t. 3600000), local_offset = (\<lambda>l. 3600000)\<rparr> 1710286200000
       [\<lparr>sid = ''k3x9'', projectId = None, date = ''2024-03-12'', minutes = Finite 30, words = Finite 300, snotes = []\<rparr>,
        \<lparr>sid = ''p07q'', projectId = None, date = ''2024-03-11'', minutes = Finite 45, words = Finite 250, snotes = []\<rparr>] = 2"
    by (rule t [THEN conjunct2, THEN conjunct2, THEN conjunct2, THEN conjunct1, THEN mp,
                OF conjI [OF u conjI [OF l conjI [OF h0 conjI [OF h1 h2]]]]])
  show ?thesis by (intro conjI u l h0 h1 h2 k r)
qed

text \<open>
  C7 (counterexample). With one session of -1 minutes and 5 words the total of the minutes
  is negative: the code divides by -1 and shows -300, where a floor of 1 on the total
  gives 300.
\<close>

theorem wph_floor_counterexample:
  "wph_display [\<lparr>sid = ''k3x9'', projectId = None, date = ''2024-03-12'', minutes = Finite (- 1), words = Finite 5, snotes = []\<rparr>] = Finite (- 300)
   \<and> spec_wph [\<lparr>sid = ''k3x9'', projectId = None, date = ''2024-03-12'', minutes = Finite (- 1), words = Finite 5, snotes = []\<rparr>] = Finite 300"
proof -
  have "wph [\<lparr>sid = ''k3x9'', projectId = None, date = ''2024-03-12'', minutes = Finite (- 1), words = Finite 5, snotes = []\<rparr>] = Finite (- 300)"
    by (simp add: wph_def totalWords_def sum_js_def truthy_def Let_def fl_ints Math_round_def floor_rat)
  then have a: "wph_display [\<lparr>sid = ''k3x9'', projectId = None, date = ''2024-03-12'', minutes = Finite (- 1), words = Finite 5, snotes = []\<rparr>] = Finite (- 300)"
    by (simp add: wph_display_def isFinite_def)
  have b: "spec_wph [\<lparr>sid = ''k3x9'', projectId = None, date = ''2024-03-12'', minutes = Finite (- 1), words = Finite 5, snotes = []\<rparr>] = Finite 300"
    by (simp add: spec_wph_def sum_js_def floor_at_1_def Let_def fl_ints Math_round_def isFinite_def floor_rat)
  show ?thesis by (intro conjI a b)
qed

text \<open>
  C7 (amended). Words per hour is Math.round((totalWords / m) * 60) in double arithmetic,
  where totalWords is the sum of all words logged and m is the sum of all minutes logged,
  replaced by 1 when that sum is 0 or NaN (a negative sum is used as it is); a result that
  is not finite is shown as 0. When the sum of the minutes is 0 or at least 1, m is the sum
  floored at 1. Sessions totalling 1000 words and 100 minutes give 600; 49 words over 24
  minutes give 122, the double product being just below 122.5.
\<close>

theorem wph_zero_guard:
  "wph ss = Math_round (js_mul (js_div (sum_js ss words)
                (if truthy (sum_js ss minutes) then sum_js ss minutes else Finite 1)) (Finite 60))
   \<and> (sum_js ss minutes = Finite 0 \<or> sum_js ss minutes = NaN \<longrightarrow>
        wph ss = Math_round (js_mul (js_div (sum_js ss words) (Finite 1)) (Finite 60)))
   \<and> (sum_js ss minutes = Finite a \<and> (a = 0 \<or> 1 \<le> a) \<longrightarrow> wph_display ss = spec_wph ss)
   \<and> (sum_js ss words = NaN \<longrightarrow> wph_display ss = Finite 0)
   \<and> (sum_js ss words = Finite 1000 \<and> sum_js ss minutes = Finite 100 \<longrightarrow> wph_display ss = Finite 600)
   \<and> (sum_js ss words = Finite 49 \<and> sum_js ss minutes = Finite 24 \<longrightarrow> wph_display ss = Finite 122)"
proof (intro conjI impI)
  show g: "wph ss = Math_round (js_mul (js_div (sum_js ss words)
                (if truthy (sum_js ss minutes) then sum_js ss minutes else Finite 1)) (Finite 60))"
    by (simp add: wph_def totalWords_def Let_def)
  {
    assume "sum_js ss minutes = Finite 0 \<or> sum_js ss minutes = NaN"
    then have "\<not> truthy (sum_js ss minutes)" by (auto simp: truthy_def)
    then show "wph ss = Math_round (js_mul (js_div (sum_js ss words) (Finite 1)) (Finite 60))"
      by (simp add: g)
  }
  {
    assume a: "sum_js ss minutes = Finite a \<and> (a = 0 \<or> 1 \<le> a)"
    then have "(if truthy (sum_js ss minutes) then sum_js ss minutes else Finite 1)
             = floor_at_1 (sum_js ss minutes)"
      by (auto simp: truthy_def floor_at_1_def)
    then show "wph_display ss = spec_wph ss"
      by (simp add: wph_display_def spec_wph_def g Let_def)
  }
  {
    assume "sum_js ss words = NaN"
    then have "wph ss = NaN"
      by (cases "if truthy (sum_js ss minutes) then sum_js ss minutes else Finite 1")
         (simp_all add: g Math_round_def)
    then show "wph_display ss = Finite 0" by (simp add: wph_display_def isFinite_def)
  }
  {
    assume "sum_js ss words = Finite 1000 \<and> sum_js ss minutes = Finite 100"
    then have "wph ss = Finite 600"
      by (simp add: g truthy_def fl_ints Math_round_def floor_rat)
    then show "wph_display ss = Finite 600" by (simp add: wph_display_def isFinite_def)
  }
  {
    assume h: "sum_js ss words = Finite 49 \<and> sum_js ss minutes = Finite 24"
    have c1: "\<not> (of_int \<lfloor>49 / 24 :: rat\<rfloor> = (49 / 24 :: rat) \<and> \<bar>49 / 24 :: rat\<bar> \<le> 2 ^ 53)"
      by (simp add: floor_rat_numeral_div del: of_int_floor_cancel)
    have e1: "max (ilog2 \<bar>49 / 24\<bar>) (- 1022) = 1" by (simp add: ilog2_def exp_up.simps)
    have r1: "round_at 1 (49 / 24) = Finite (4597424619607381 / 2251799813685248)"
      by (simp add: round_at_def pow2_def round_half_even_def Let_def floor_rat_numeral_div)
    from c1 have "fl (49 / 24) = round_at (max (ilog2 \<bar>49 / 24\<bar>) (- 1022)) (49 / 24)"
      by (simp only: fl_def if_False)
    then have f1: "fl (49 / 24) = Finite (4597424619607381 / 2251799813685248)"
      by (simp only: e1 r1)
    have c2: "\<not> (of_int \<lfloor>68961369294110715 / 562949953421312 :: rat\<rfloor> = (68961369294110715 / 562949953421312 :: rat)
                \<and> \<bar>68961369294110715 / 562949953421312 :: rat\<bar> \<le> 2 ^ 53)"
      by (simp add: floor_rat_numeral_div del: of_int_floor_cancel)
    have e2: "max (ilog2 \<bar>68961369294110715 / 562949953421312\<bar>) (- 1022) = 6"
      by (simp add: ilog2_def exp_up.simps)
    have r2: "round_at 6 (68961369294110715 / 562949953421312) = Finite (8620171161763839 / 70368744177664)"
      by (simp add: round_at_def pow2_def round_half_even_def Let_def floor_rat_numeral_div)
    from c2 have "fl (68961369294110715 / 562949953421312)
        = round_at (max (ilog2 \<bar>68961369294110715 / 562949953421312\<bar>) (- 1022)) (68961369294110715 / 562949953421312)"
      by (simp only: fl_def if_False)
    then have f2: "fl (68961369294110715 / 562949953421312) = Finite (8620171161763839 / 70368744177664)"
      by (simp only: e2 r2)
    have p: "(4597424619607381 / 2251799813685248 :: rat) * 60 = 68961369294110715 / 562949953421312"
      by simp
    have d: "js_div (Finite 49) (Finite 24) = Finite (4597424619607381 / 2251799813685248)"
      by (simp add: f1)
    have m: "js_mul (Finite (4597424619607381 / 2251799813685248)) (Finite 60) = Finite (8620171161763839 / 70368744177664)"
      by (simp only: js_mul.simps p f2)
    have rd: "Math_round (Finite (8620171161763839 / 70368744177664)) = Finite 122"
      by (simp add: Math_round_def floor_rat_numeral_div)
    have t: "truthy (Finite 24)" by (simp add: truthy_def)
    have "wph ss = Finite 122"
      using h by (simp only: g if_True t d m rd)
    then show "wph_display ss = Finite 122" by (simp add: wph_display_def isFinite_def)
  }
qed

theorem wph_zero_guard_witness:
  "sum_js [\<lparr>sid = ''k3x9'', projectId = None, date = ''2024-03-12'', minutes = Finite 60, words = Finite 700, snotes = []\<rparr>,
      \<lparr>sid = ''p07q'', projectId = None, date = ''2024-03-11'', minutes = Finite 40, words = Finite 300, snotes = []\<rparr>] words = Finite 1000
   \<and> sum_js [\<lparr>sid = ''k3x9'', projectId = None, date = ''2024-03-12'', minutes = Finite 60, words = Finite 700, snotes = []\<rparr>,
      \<lparr>sid = ''p07q'', projectId = None, date = ''2024-03-11'', minutes = Finite 40, words = Finite 300, snotes = []\<rparr>] minutes = Finite 100
   \<and> wph_display [\<lparr>sid = ''k3x9'', projectId = None, date = ''2024-03-12'', minutes = Finite 60, words = Finite 700, snotes = []\<rparr>,
      \<lparr>sid = ''p07q'', projectId = None, date = ''2024-03-11'', minutes = Finite 40, words = Finite 300, snotes = []\<rparr>] = Finite 600
   \<and> spec_wph [\<lparr>sid = ''k3x9'', projectId = None, date = ''2024-03-12'', minutes = Finite 60, words = Finite 700, snotes = []\<rparr>,
      \<lparr>sid = ''p07q'', projectId = None, date = ''2024-03-11'', minutes = Finite 40, words = Finite 300, snotes = []\<rparr>] = Finite 600
   \<and> sum_js [\<lparr>sid = ''k3x9'', projectId = None, date = ''2024-03-12'', minutes = Finite 24, words = Finite 49, snotes = []\<rparr>] words = Finite 49
   \<and> sum_js [\<lparr>sid = ''k3x9'', projectId = None, date = ''2024-03-12'', minutes = Finite 24, words = Finite 49, snotes = []\<rparr>] minutes = Finite 24
   \<and> wph_display [\<lparr>sid = ''k3x9'', projectId = None, date = ''2024-03-12'', minutes = Finite 24, words = Finite 49, snotes = []\<rparr>] = Finite 122
   \<and> sum_js [\<lparr>sid = ''k3x9'', projectId = None, date = ''2024-03-12'', minutes = Finite 0, words = NaN, snotes = []\<rparr>] words = NaN
   \<and> sum_js [\<lparr>sid = ''k3x9'', projectId = None, date = ''2024-03-12'', minutes = Finite 0, words = NaN, snotes = []\<rparr>] minutes = Finite 0
   \<and> wph_display [\<lparr>sid = ''k3x9'', projectId = None, date = ''2024-03-12'', minutes = Finite 0, words = NaN, snotes = []\<rparr>] = Finite 0"
proof -
  note tw = wph_zero_guard [of "[\<lparr>sid = ''k3x9'', projectId = None, date = ''2024-03-12'', minutes = Finite 60, words = Finite 700, snotes = []\<rparr>,
      \<lparr>sid = ''p07q'', projectId = None, date = ''2024-03-11'', minutes = Finite 40, words = Finite 300, snotes = []\<rparr>]" 100]
  note tv = wph_zero_guard [of "[\<lparr>sid = ''k3x9'', projectId = None, date = ''2024-03-12'', minutes = Finite 24, words = Finite 49, snotes = []\<rparr>]" 24]
  note tn = wph_zero_guard [of "[\<lparr>sid = ''k3x9'', projectId = None, date = ''2024-03-12'', minutes = Finite 0, words = NaN, snotes = []\<rparr>]" 0]
  have w1: "sum_js [\<lparr>sid = ''k3x9'', projectId = None, date = ''2024-03-12'', minutes = Finite 60, words = Finite 700, snotes = []\<rparr>,
      \<lparr>sid = ''p07q'', projectId = None, date = ''2024-03-11'', minutes = Finite 40, words = Finite 300, snotes = []\<rparr>] words = Finite 1000"
    by (simp add: sum_js_def fl_ints)
  have w2: "sum_js [\<lparr>sid = ''k3x9'', projectId = None, date = ''2024-03-12'', minutes = Finite 60, words = Finite 700, snotes = []\<rparr>,
      \<lparr>sid = ''p07q'', projectId = None, date = ''2024-03-11'', minutes = Finite 40, words = Finite 300, snotes = []\<rparr>] minutes = Finite 100"
    by (simp add: sum_js_def fl_ints)
  have w2': "sum_js [\<lparr>sid = ''k3x9'', projectId = None, date = ''2024-03-12'', minutes = Finite 60, words = Finite 700, snotes = []\<rparr>,
      \<lparr>sid = ''p07q'', projectId = None, date = ''2024-03-11'', minutes = Finite 40, words = Finite 300, snotes = []\<rparr>] minutes = Finite 100 \<and> ((100::rat) = 0 \<or> (1::rat) \<le> 100)"
    using w2 by simp
  have w3: "wph_display [\<lparr>sid = ''k3x9'', projectId = None, date = ''2024-03-12'', minutes = Finite 60, words = Finite 700, snotes = []\<rparr>,
      \<lparr>sid = ''p07q'', projectId = None, date = ''2024-03-11'', minutes = Finite 40, words = Finite 300, snotes = []\<rparr>] = Finite 600"
    by (rule tw [THEN conjunct2, THEN conjunct2, THEN conjunct2, THEN conjunct2, THEN conjunct1, THEN mp, OF conjI [OF w1 w2]])
  have w4: "wph_display [\<lparr>sid = ''k3x9'', projectId = None, date = ''2024-03-12'', minutes = Finite 60, words = Finite 700, snotes = []\<rparr>,
      \<lparr>sid = ''p07q'', projectId = None, date = ''2024-03-11'', minutes = Finite 40, words = Finite 300, snotes = []\<rparr>] = spec_wph [\<lparr>sid = ''k3x9'', projectId = None, date = ''2024-03-12'', minutes = Finite 60, words = Finite 700, snotes = []\<rparr>,
      \<lparr>sid = ''p07q'', projectId = None, date = ''2024-03-11'', minutes = Finite 40, words = Finite 300, snotes = []\<rparr>]"
    by (rule tw [THEN conjunct2, THEN conjunct2, THEN conjunct1, THEN mp, OF w2'])
  have w5: "spec_wph [\<lparr>sid = ''k3x9'', projectId = None, date = ''2024-03-12'', minutes = Finite 60, words = Finite 700, snotes = []\<rparr>,
      \<lparr>sid = ''p07q'', projectId = None, date = ''2024-03-11'', minutes = Finite 40, words = Finite 300, snotes = []\<rparr>] = Finite 600"
    by (simp only: w4 [symmetric] w3)
  have v1: "sum_js [\<lparr>sid = ''k3x9'', projectId = None, date = ''2024-03-12'', minutes = Finite 24, words = Finite 49, snotes = []\<rparr>] words = Finite 49"
    by (simp add: sum_js_def fl_ints)
  have v2: "sum_js [\<lparr>sid = ''k3x9'', projectId = None, date = ''2024-03-12'', minutes = Finite 24, words = Finite 49, snotes = []\<rparr>] minutes = Finite 24"
    by (simp add: sum_js_def fl_ints)
  have v3: "wph_display [\<lparr>sid = ''k3x9'', projectId = None, date = ''2024-03-12'', minutes = Finite 24, words = Finite 49, snotes = []\<rparr>] = Finite 122"
    by (rule tv [THEN conjunct2, THEN conjunct2, THEN conjunct2, THEN conjunct2, THEN conjunct2, THEN mp, OF conjI [OF v1 v2]])
  have n1: "sum_js [\<lparr>sid = ''k3x9'', projectId = None, date = ''2024-03-12'', minutes = Finite 0, words = NaN, snotes = []\<rparr>] words = NaN"
    by (simp add: sum_js_def)
  have n2: "sum_js [\<lparr>sid = ''k3x9'', projectId = None, date = ''2024-03-12'', minutes = Finite 0, words = NaN, snotes = []\<rparr>] minutes = Finite 0"
    by (simp add: sum_js_def fl_ints)
  have n3: "wph_display [\<lparr>sid = ''k3x9'', projectId = None, date = ''2024-03-12'', minutes = Finite 0, words = NaN, snotes = []\<rparr>] = Finite 0"
    by (rule tn [THEN conjunct2, THEN conjunct2, THEN conjunct2, THEN conjunct1, THEN mp, OF n1])
  show ?thesis by (intro conjI w1 w2 w3 w5 v1 v2 v3 n1 n2 n3)
qed




text \<open>
  C9 (counterexample). \<^verbatim>\<open>uid()\<close> is \<^verbatim>\<open>Math.random().toString(36).slice(2)\<close>, the id
  \<^verbatim>\<open>i\<close> when \<^verbatim>\<open>Math.random()\<close> returns 0.5. Two projects created with that draw both
  get the id \<^verbatim>\<open>i\<close>: the second id is not fresh.
\<close>

theorem addProject_duplicate_id_counterexample:
  "NewProjectDialog_create ''i'' ''2024-03-12T23:31:00.000Z'' \<lparr>np_title = ''Essay'', np_description = ''for the review'', np_targetWords = Finite 1200, np_deadline = ''2024-06-01''\<rparr>
     (snd (NewProjectDialog_create ''i'' ''2024-03-12T23:30:00.000Z'' \<lparr>np_title = ''Novel'', np_description = [], np_targetWords = Finite 5000, np_deadline = []\<rparr> []))
   = (''Project created'',
      [\<lparr>pid = ''i'', title = ''Novel'', description = Some [], targetWords = Finite 5000, deadline = Some [],
        pstatus = Drafting, createdAt = ''2024-03-12T23:30:00.000Z'', archived = None\<rparr>,
       \<lparr>pid = ''i'', title = ''Essay'', description = Some ''for the review'', targetWords = Finite 1200, deadline = Some ''2024-06-01'',
        pstatus = Drafting, createdAt = ''2024-03-12T23:31:00.000Z'', archived = None\<rparr>])
   \<and> \<not> distinct (map pid (snd (NewProjectDialog_create ''i'' ''2024-03-12T23:31:00.000Z'' \<lparr>np_title = ''Essay'', np_description = ''for the review'', np_targetWords = Finite 1200, np_deadline = ''2024-06-01''\<rparr>
     (snd (NewProjectDialog_create ''i'' ''2024-03-12T23:30:00.000Z'' \<lparr>np_title = ''Novel'', np_description = [], np_targetWords = Finite 5000, np_deadline = []\<rparr> [])))))"
  by (simp add: NewProjectDialog_create_def js_blank_def addProject_def np_payload_def)

text \<open>
  C9 (amended). \<^verbatim>\<open>addProject(p)\<close> always appends to the project list one record: the
  properties of \<open>p\<close> with the id \<^verbatim>\<open>uid()\<close> returned, the time read as creation timestamp
  and the status Drafting, whatever status \<open>p\<close> holds. The id is not compared with the ids
  in use: the ids stay distinct when the id drawn is not among them. The new-project
  dialog, the only caller, passes the title, description, target and deadline of its
  fields, and nothing else, once the title is not blank. The new project is then in the
  active list, and after \<^verbatim>\<open>archived\<close> is set true on its id no project with that id is.
\<close>

theorem addProject_appends_drafting:
  "addProject uid now p prev
     = prev @ [\<lparr>pid = uid, title = title p, description = description p, targetWords = targetWords p,
                  deadline = deadline p, pstatus = Drafting, createdAt = now, archived = archived p\<rparr>]
   \<and> pstatus (last (addProject uid now p prev)) = Drafting
   \<and> (archived p \<noteq> Some True \<longrightarrow> last (addProject uid now p prev) \<in> set (activeProjects (addProject uid now p prev)))
   \<and> (js_blank (np_title g) \<longrightarrow> NewProjectDialog_create uid now g prev = (''Title is required'', prev))
   \<and> (\<not> js_blank (np_title g) \<longrightarrow>
        NewProjectDialog_create uid now g prev
          = (''Project created'',
             prev @ [\<lparr>pid = uid, title = np_title g, description = Some (np_description g),
                      targetWords = np_targetWords g, deadline = Some (np_deadline g),
                      pstatus = Drafting, createdAt = now, archived = None\<rparr>])
        \<and> last (snd (NewProjectDialog_create uid now g prev))
             \<in> set (activeProjects (snd (NewProjectDialog_create uid now g prev))))
   \<and> filter (\<lambda>q. pid q = uid) (activeProjects (updateProject uid archive_patch (addProject uid now p prev))) = []
   \<and> (uid \<notin> set (map pid prev) \<longrightarrow>
        activeProjects (updateProject uid archive_patch (addProject uid now p prev)) = activeProjects prev)
   \<and> (distinct (map pid prev) \<longrightarrow>
        (distinct (map pid (addProject uid now p prev)) \<longleftrightarrow> uid \<notin> set (map pid prev)))"
proof (intro conjI impI)
  let ?new = "\<lparr>pid = uid, title = title p, description = description p, targetWords = targetWords p,
                  deadline = deadline p, pstatus = Drafting, createdAt = now, archived = archived p\<rparr>"
  have ap: "addProject uid now p prev = prev @ [?new]"
    by (simp add: addProject_def)
  show "addProject uid now p prev = prev @ [?new]" by (rule ap)
  show "pstatus (last (addProject uid now p prev)) = Drafting" by (simp add: ap)
  show "archived p \<noteq> Some True \<Longrightarrow> last (addProject uid now p prev) \<in> set (activeProjects (addProject uid now p prev))"
    by (simp add: ap activeProjects_def)
  show "js_blank (np_title g) \<Longrightarrow> NewProjectDialog_create uid now g prev = (''Title is required'', prev)"
    by (simp add: NewProjectDialog_create_def)
  {
    assume nb: "\<not> js_blank (np_title g)"
    then show c: "NewProjectDialog_create uid now g prev
          = (''Project created'',
             prev @ [\<lparr>pid = uid, title = np_title g, description = Some (np_description g),
                      targetWords = np_targetWords g, deadline = Some (np_deadline g),
                      pstatus = Drafting, createdAt = now, archived = None\<rparr>])"
      by (simp add: NewProjectDialog_create_def addProject_def np_payload_def)
    show "last (snd (NewProjectDialog_create uid now g prev))
             \<in> set (activeProjects (snd (NewProjectDialog_create uid now g prev)))"
      by (simp add: c activeProjects_def)
  }
  show "filter (\<lambda>q. pid q = uid) (activeProjects (updateProject uid archive_patch (addProject uid now p prev))) = []"
    by (rule archived_not_active)
  {
    assume "uid \<notin> set (map pid prev)"
    then have "updateProject uid archive_patch prev = prev"
      by (rule updateProject_other)
    moreover have "activeProjects (updateProject uid archive_patch [?new]) = []"
      by (simp add: activeProjects_def updateProject_def merge_patch_def archive_patch_def)
    ultimately show "activeProjects (updateProject uid archive_patch (addProject uid now p prev)) = activeProjects prev"
      by (simp add: ap updateProject_append activeProjects_def)
  }
  {
    assume "distinct (map pid prev)"
    then show "distinct (map pid (addProject uid now p prev)) \<longleftrightarrow> uid \<notin> set (map pid prev)"
      by (simp add: ap)
  }
qed

theorem addProject_appends_drafting_witness:
  "addProject ''k3x9'' ''2024-03-12T23:30:00.000Z'' \<lparr>pid = [], title = ''Novel'', description = None, targetWords = Finite 5000, deadline = None,
        pstatus = Complete, createdAt = [], archived = None\<rparr> [\<lparr>pid = ''p07q'', title = ''Poems'', description = None, targetWords = Finite 800, deadline = None,
        pstatus = Editing, createdAt = ''2024-03-01T09:00:00.000Z'', archived = None\<rparr>]
     = [\<lparr>pid = ''p07q'', title = ''Poems'', description = None, targetWords = Finite 800, deadline = None,
        pstatus = Editing, createdAt = ''2024-03-01T09:00:00.000Z'', archived = None\<rparr>,
        \<lparr>pid = ''k3x9'', title = ''Novel'', description = None, targetWords = Finite 5000, deadline = None,
        pstatus = Drafting, createdAt = ''2024-03-12T23:30:00.000Z'', archived = None\<rparr>]
   \<and> NewProjectDialog_create ''k3x9'' ''2024-03-12T23:30:00.000Z'' \<lparr>np_title = ''  '', np_description = [], np_targetWords = Finite 5000, np_deadline = []\<rparr> [\<lparr>pid = ''p07q'', title = ''Poems'', description = None, targetWords = Finite 800, deadline = None,
        pstatus = Editing, createdAt = ''2024-03-01T09:00:00.000Z'', archived = None\<rparr>]
     = (''Title is required'', [\<lparr>pid = ''p07q'', title = ''Poems'', description = None, targetWords = Finite 800, deadline = None,
        pstatus = Editing, createdAt = ''2024-03-01T09:00:00.000Z'', archived = None\<rparr>])
   \<and> NewProjectDialog_create ''k3x9'' ''2024-03-12T23:30:00.000Z'' \<lparr>np_title = ''Novel'', np_description = [], np_targetWords = Finite 5000, np_deadline = []\<rparr> [\<lparr>pid = ''p07q'', title = ''Poems'', description = None, targetWords = Finite 800, deadline = None,
        pstatus = Editing, createdAt = ''2024-03-01T09:00:00.000Z'', archived = None\<rparr>]
     = (''Project created'',
        [\<lparr>pid = ''p07q'', title = ''Poems'', description = None, targetWords = Finite 800, deadline = None,
        pstatus = Editing, createdAt = ''2024-03-01T09:00:00.000Z'', archived = None\<rparr>,
         \<lparr>pid = ''k3x9'', title = ''Novel'', description = Some [], targetWords = Finite 5000, deadline = Some [],
        pstatus = Drafting, createdAt = ''2024-03-12T23:30:00.000Z'', archived = None\<rparr>])
   \<and> \<lparr>pid = ''k3x9'', title = ''Novel'', description = Some [], targetWords = Finite 5000, deadline = Some [],
        pstatus = Drafting, createdAt = ''2024-03-12T23:30:00.000Z'', archived = None\<rparr> \<in> set (activeProjects (snd (NewProjectDialog_create ''k3x9'' ''2024-03-12T23:30:00.000Z'' \<lparr>np_title = ''Novel'', np_description = [], np_targetWords = Finite 5000, np_deadline = []\<rparr> [\<lparr>pid = ''p07q'', title = ''Poems'', description = None, targetWords = Finite 800, deadline = None,
        pstatus = Editing, createdAt = ''2024-03-01T09:00:00.000Z'', archived = None\<rparr>])))
   \<and> activeProjects (updateProject ''k3x9'' archive_patch
        (addProject ''k3x9'' ''2024-03-12T23:30:00.000Z'' (np_payload \<lparr>np_title = ''Novel'', np_description = [], np_targetWords = Finite 5000, np_deadline = []\<rparr>) [\<lparr>pid = ''p07q'', title = ''Poems'', description = None, targetWords = Finite 800, deadline = None,
        pstatus = Editing, createdAt = ''2024-03-01T09:00:00.000Z'', archived = None\<rparr>]))
     = [\<lparr>pid = ''p07q'', title = ''Poems'', description = None, targetWords = Finite 800, deadline = None,
        pstatus = Editing, createdAt = ''2024-03-01T09:00:00.000Z'', archived = None\<rparr>]
   \<and> distinct (map pid (addProject ''k3x9'' ''2024-03-12T23:30:00.000Z'' (np_payload \<lparr>np_title = ''Novel'', np_description = [], np_targetWords = Finite 5000, np_deadline = []\<rparr>) [\<lparr>pid = ''p07q'', title = ''Poems'', description = None, targetWords = Finite 800, deadline = None,
        pstatus = Editing, createdAt = ''2024-03-01T09:00:00.000Z'', archived = None\<rparr>]))"
proof -
  note ti = addProject_appends_drafting [where uid = "''k3x9''" and now = "''2024-03-12T23:30:00.000Z''"
      and p = "\<lparr>pid = [], title = ''Novel'', description = None, targetWords = Finite 5000, deadline = None,
        pstatus = Complete, createdAt = [], archived = None\<rparr>" and prev = "[\<lparr>pid = ''p07q'', title = ''Poems'', description = None, targetWords = Finite 800, deadline = None,
        pstatus = Editing, createdAt = ''2024-03-01T09:00:00.000Z'', archived = None\<rparr>]" and g = "\<lparr>np_title = ''  '', np_description = [], np_targetWords = Finite 5000, np_deadline = []\<rparr>"]
  note tg = addProject_appends_drafting [where uid = "''k3x9''" and now = "''2024-03-12T23:30:00.000Z''"
      and p = "np_payload \<lparr>np_title = ''Novel'', np_description = [], np_targetWords = Finite 5000, np_deadline = []\<rparr>" and prev = "[\<lparr>pid = ''p07q'', title = ''Poems'', description = None, targetWords = Finite 800, deadline = None,
        pstatus = Editing, createdAt = ''2024-03-01T09:00:00.000Z'', archived = None\<rparr>]" and g = "\<lparr>np_title = ''Novel'', np_description = [], np_targetWords = Finite 5000, np_deadline = []\<rparr>"]
  have a: "addProject ''k3x9'' ''2024-03-12T23:30:00.000Z'' \<lparr>pid = [], title = ''Novel'', description = None, targetWords = Finite 5000, deadline = None,
        pstatus = Complete, createdAt = [], archived = None\<rparr> [\<lparr>pid = ''p07q'', title = ''Poems'', description = None, targetWords = Finite 800, deadline = None,
        pstatus = Editing, createdAt = ''2024-03-01T09:00:00.000Z'', archived = None\<rparr>]
     = [\<lparr>pid = ''p07q'', title = ''Poems'', description = None, targetWords = Finite 800, deadline = None,
        pstatus = Editing, createdAt = ''2024-03-01T09:00:00.000Z'', archived = None\<rparr>,
        \<lparr>pid = ''k3x9'', title = ''Novel'', description = None, targetWords = Finite 5000, deadline = None,
        pstatus = Drafting, createdAt = ''2024-03-12T23:30:00.000Z'', archived = None\<rparr>]"
    using ti [THEN conjunct1] by simp
  have hb: "js_blank (np_title \<lparr>np_title = ''  '', np_description = [], np_targetWords = Finite 5000, np_deadline = []\<rparr>)" by (simp add: js_blank_def)
  have b: "NewProjectDialog_create ''k3x9'' ''2024-03-12T23:30:00.000Z'' \<lparr>np_title = ''  '', np_description = [], np_targetWords = Finite 5000, np_deadline = []\<rparr> [\<lparr>pid = ''p07q'', title = ''Poems'', description = None, targetWords = Finite 800, deadline = None,
        pstatus = Editing, createdAt = ''2024-03-01T09:00:00.000Z'', archived = None\<rparr>]
     = (''Title is required'', [\<lparr>pid = ''p07q'', title = ''Poems'', description = None, targetWords = Finite 800, deadline = None,
        pstatus = Editing, createdAt = ''2024-03-01T09:00:00.000Z'', archived = None\<rparr>])"
    by (rule ti [THEN conjunct2, THEN conjunct2, THEN conjunct2, THEN conjunct1, THEN mp, OF hb])
  have hn: "\<not> js_blank (np_title \<lparr>np_title = ''Novel'', np_description = [], np_targetWords = Finite 5000, np_deadline = []\<rparr>)" by (simp add: js_blank_def)
  note cr = tg [THEN conjunct2, THEN conjunct2, THEN conjunct2, THEN conjunct2, THEN conjunct1, THEN mp, OF hn]
  have c: "NewProjectDialog_create ''k3x9'' ''2024-03-12T23:30:00.000Z'' \<lparr>np_title = ''Novel'', np_description = [], np_targetWords = Finite 5000, np_deadline = []\<rparr> [\<lparr>pid = ''p07q'', title = ''Poems'', description = None, targetWords = Finite 800, deadline = None,
        pstatus = Editing, createdAt = ''2024-03-01T09:00:00.000Z'', archived = None\<rparr>]
     = (''Project created'',
        [\<lparr>pid = ''p07q'', title = ''Poems'', description = None, targetWords = Finite 800, deadline = None,
        pstatus = Editing, createdAt = ''2024-03-01T09:00:00.000Z'', archived = None\<rparr>,
         \<lparr>pid = ''k3x9'', title = ''Novel'', description = Some [], targetWords = Finite 5000, deadline = Some [],
        pstatus = Drafting, createdAt = ''2024-03-12T23:30:00.000Z'', archived = None\<rparr>])"
    using cr [THEN conjunct1] by simp
  have d: "\<lparr>pid = ''k3x9'', title = ''Novel'', description = Some [], targetWords = Finite 5000, deadline = Some [],
        pstatus = Drafting, createdAt = ''2024-03-12T23:30:00.000Z'', archived = None\<rparr> \<in> set (activeProjects (snd (NewProjectDialog_create ''k3x9'' ''2024-03-12T23:30:00.000Z'' \<lparr>np_title = ''Novel'', np_description = [], np_targetWords = Finite 5000, np_deadline = []\<rparr> [\<lparr>pid = ''p07q'', title = ''Poems'', description = None, targetWords = Finite 800, deadline = None,
        pstatus = Editing, createdAt = ''2024-03-01T09:00:00.000Z'', archived = None\<rparr>])))"
    using cr [THEN conjunct2] by (simp add: c)
  have hu: "''k3x9'' \<notin> set (map pid [\<lparr>pid = ''p07q'', title = ''Poems'', description = None, targetWords = Finite 800, deadline = None,
        pstatus = Editing, createdAt = ''2024-03-01T09:00:00.000Z'', archived = None\<rparr>])" by simp
  have e: "activeProjects (updateProject ''k3x9'' archive_patch
        (addProject ''k3x9'' ''2024-03-12T23:30:00.000Z'' (np_payload \<lparr>np_title = ''Novel'', np_description = [], np_targetWords = Finite 5000, np_deadline = []\<rparr>) [\<lparr>pid = ''p07q'', title = ''Poems'', description = None, targetWords = Finite 800, deadline = None,
        pstatus = Editing, createdAt = ''2024-03-01T09:00:00.000Z'', archived = None\<rparr>]))
     = [\<lparr>pid = ''p07q'', title = ''Poems'', description = None, targetWords = Finite 800, deadline = None,
        pstatus = Editing, createdAt = ''2024-03-01T09:00:00.000Z'', archived = None\<rparr>]"
    using tg [THEN conjunct2, THEN conjunct2, THEN conjunct2, THEN conjunct2, THEN conjunct2, THEN conjunct2,
              THEN conjunct1, THEN mp, OF hu]
    by (simp add: activeProjects_def)
  have hd: "distinct (map pid [\<lparr>pid = ''p07q'', title = ''Poems'', description = None, targetWords = Finite 800, deadline = None,
        pstatus = Editing, createdAt = ''2024-03-01T09:00:00.000Z'', archived = None\<rparr>])" by simp
  have f: "distinct (map pid (addProject ''k3x9'' ''2024-03-12T23:30:00.000Z'' (np_payload \<lparr>np_title = ''Novel'', np_description = [], np_targetWords = Finite 5000, np_deadline = []\<rparr>) [\<lparr>pid = ''p07q'', title = ''Poems'', description = None, targetWords = Finite 800, deadline = None,
        pstatus = Editing, createdAt = ''2024-03-01T09:00:00.000Z'', archived = None\<rparr>]))"
    using tg [THEN conjunct2, THEN conjunct2, THEN conjunct2, THEN conjunct2, THEN conjunct2, THEN conjunct2,
              THEN conjunct2, THEN mp, OF hd] hu
    by (simp only: simp_thms)
  show ?thesis by (intro conjI a b c d e f)
qed

text \<open>
  C10. With the cache slot absent, empty or unparsable, the store loader returns an empty
  object and the initial state is the empty lists and a daily goal of 500; a slot that parses
  to an object gives that object's fields with the same fallbacks. A slot holding the text
  null parses without error to null, the loader returns null, and the initial state fails
  with a TypeError on the first property read.
\<close>

theorem initial_state_fallback:
  "(JSON_parse ''{}'' = Some (PObject empty_document) \<longrightarrow>
      loadStore JSON_parse None = PObject empty_document
      \<and> loadStore JSON_parse (Some []) = PObject empty_document
      \<and> initial JSON_parse None = Inr \<lparr>projects = [], sessions = [], ideas = [], dailyGoal = 500\<rparr>
      \<and> initial JSON_parse (Some []) = Inr \<lparr>projects = [], sessions = [], ideas = [], dailyGoal = 500\<rparr>)
   \<and> (s \<noteq> [] \<and> JSON_parse s = None \<longrightarrow>
      loadStore JSON_parse (Some s) = PObject empty_document
      \<and> initial JSON_parse (Some s) = Inr \<lparr>projects = [], sessions = [], ideas = [], dailyGoal = 500\<rparr>)
   \<and> (s \<noteq> [] \<and> JSON_parse s = Some (PObject d) \<longrightarrow>
      initial JSON_parse (Some s)
        = Inr \<lparr>projects = or_list (doc_projects d), sessions = or_list (doc_sessions d),
               ideas = or_list (doc_ideas d), dailyGoal = or_num (doc_dailyGoal d) 500\<rparr>)
   \<and> (JSON_parse ''null'' = Some PNull \<longrightarrow>
      loadStore JSON_parse (Some ''null'') = PNull
      \<and> initial JSON_parse (Some ''null'') = Inl TypeError)"
  by (simp add: initial_def loadStore_def bundle_of_def empty_document_def or_list_def or_num_def)

theorem initial_state_fallback_witness:
  "initial (\<lambda>s. if s = ''null'' then Some PNull
                 else if s = ''{}'' then Some (PObject empty_document) else None) None
     = Inr \<lparr>projects = [], sessions = [], ideas = [], dailyGoal = 500\<rparr>
   \<and> initial (\<lambda>s. if s = ''null'' then Some PNull
                 else if s = ''{}'' then Some (PObject empty_document) else None) (Some ''{oops'')
     = Inr \<lparr>projects = [], sessions = [], ideas = [], dailyGoal = 500\<rparr>
   \<and> initial (\<lambda>s. if s = ''null'' then Some PNull
                 else if s = ''{}'' then Some (PObject empty_document) else None) (Some ''{}'')
     = Inr \<lparr>projects = [], sessions = [], ideas = [], dailyGoal = 500\<rparr>
   \<and> initial (\<lambda>s. if s = ''null'' then Some PNull
                 else if s = ''{}'' then Some (PObject empty_document) else None) (Some ''null'')
     = Inl TypeError"
proof -
  note t1 = initial_state_fallback
    [of "\<lambda>s. if s = ''null'' then Some PNull
                 else if s = ''{}'' then Some (PObject empty_document) else None"
        "''{oops''" empty_document]
  note t2 = initial_state_fallback
    [of "\<lambda>s. if s = ''null'' then Some PNull
                 else if s = ''{}'' then Some (PObject empty_document) else None"
        "''{}''" empty_document]
  have a: "initial (\<lambda>s. if s = ''null'' then Some PNull
                 else if s = ''{}'' then Some (PObject empty_document) else None) None
     = Inr \<lparr>projects = [], sessions = [], ideas = [], dailyGoal = 500\<rparr>"
    using t1 by simp
  have b: "initial (\<lambda>s. if s = ''null'' then Some PNull
                 else if s = ''{}'' then Some (PObject empty_document) else None) (Some ''{oops'')
     = Inr \<lparr>projects = [], sessions = [], ideas = [], dailyGoal = 500\<rparr>"
    using t1 by simp
  have c: "initial (\<lambda>s. if s = ''null'' then Some PNull
                 else if s = ''{}'' then Some (PObject empty_document) else None) (Some ''{}'')
     = Inr \<lparr>projects = [], sessions = [], ideas = [], dailyGoal = 500\<rparr>"
    using t2 by (simp add: empty_document_def or_list_def or_num_def)
  have d: "initial (\<lambda>s. if s = ''null'' then Some PNull
                 else if s = ''{}'' then Some (PObject empty_document) else None) (Some ''null'')
     = Inl TypeError"
    using t1 by simp
  show ?thesis by (intro conjI a b c d)
qed

end
